theory Spec2Isabelle
  imports Complex_Main "HOL-Library.Word"
begin

section \<open>Scalars, arrays and the parallel reduction\<close>

text \<open>
  The kernels compute in \<open>float\<close>/\<open>double\<close>. Rounding is not modelled: a finite
  floating-point value is the real number it denotes and \<open>+\<close>, \<open>-\<close>, \<open>*\<close> are exact.
  The one thing of IEEE arithmetic that is kept is that a division by zero does not
  yield a number: a value of type \<open>fp\<close> is \<open>Some x\<close> for the real number \<open>x\<close> and
  \<open>None\<close> for a NaN or an infinity, and \<open>None\<close> is absorbing for every operation.

  A raw pointer (\<open>const scalar_t *\<close>, \<open>const int64_t *\<close>) is a function from
  the index to the element. Index arithmetic is done in unbounded integers, which agrees
  with the \<open>int\<close>/\<open>int64_t\<close> arithmetic of the source as long as no index
  expression overflows. Where the source stores such a value in a variable of type
  \<open>int\<close>, the value is cut to 32 bits, two's complement (\<open>int32\<close>).
\<close>

type_synonym 'a ptr = "int \<Rightarrow> 'a"

definition int32 :: "int \<Rightarrow> int" where
  "int32 x = sint (word_of_int x :: 32 word)"

type_synonym fp = "real option"

definition fp_add :: "fp \<Rightarrow> fp \<Rightarrow> fp" where
  "fp_add a b = (case a of None \<Rightarrow> None
                 | Some x \<Rightarrow> (case b of None \<Rightarrow> None | Some y \<Rightarrow> Some (x + y)))"

definition fp_sub :: "fp \<Rightarrow> fp \<Rightarrow> fp" where
  "fp_sub a b = (case a of None \<Rightarrow> None
                 | Some x \<Rightarrow> (case b of None \<Rightarrow> None | Some y \<Rightarrow> Some (x - y)))"

definition fp_mul :: "fp \<Rightarrow> fp \<Rightarrow> fp" where
  "fp_mul a b = (case a of None \<Rightarrow> None
                 | Some x \<Rightarrow> (case b of None \<Rightarrow> None | Some y \<Rightarrow> Some (x * y)))"

definition fp_div :: "fp \<Rightarrow> fp \<Rightarrow> fp" where
  "fp_div a b = (case a of None \<Rightarrow> None
                 | Some x \<Rightarrow> (case b of None \<Rightarrow> None
                             | Some y \<Rightarrow> if y = 0 then None else Some (x / y)))"

text \<open>
  \<open>tbb::parallel_reduce(blocked_range(0, n), identity, body, reduction)\<close>: the scheduler
  cuts the range into consecutive blocks, runs \<open>body\<close> on every block starting from the
  identity element, and joins the partial results with \<open>reduction\<close>. Where the scheduler
  cuts is its own choice; it is the parameter \<open>cuts\<close> (the length of each block but the
  last, which takes what remains).
\<close>

fun blocked_range :: "nat list \<Rightarrow> 'a list \<Rightarrow> 'a list list" where
  "blocked_range [] xs = [xs]"
| "blocked_range (k # ks) xs = take k xs # blocked_range ks (drop k xs)"

definition parallel_reduce ::
  "nat list \<Rightarrow> int \<Rightarrow> 'a \<Rightarrow> (int list \<Rightarrow> 'a \<Rightarrow> 'a) \<Rightarrow> ('a \<Rightarrow> 'a \<Rightarrow> 'a) \<Rightarrow> 'a" where
  "parallel_reduce cuts n identity body reduction =
     foldl reduction identity
       (map (\<lambda>r. body r identity) (blocked_range cuts [0..n - 1]))"

section \<open>Point-to-point: means and cross-covariance (Get3x3SxyLinearSystem)\<close>

definition mean_body ::
  "real ptr \<Rightarrow> real ptr \<Rightarrow> int ptr \<Rightarrow> int list \<Rightarrow> real list \<Rightarrow> real list" where
  "mean_body source_points_ptr target_points_ptr correspondence_indices r =
     (\<lambda>mean_reduction0.
       foldl (\<lambda>mean_reduction workload_idx.
          if correspondence_indices workload_idx \<noteq> - 1 then
            (let target_idx = 3 * correspondence_indices workload_idx in
             mean_reduction
               [0 := mean_reduction ! 0 + source_points_ptr (3 * workload_idx),
                1 := mean_reduction ! 1 + source_points_ptr (3 * workload_idx + 1),
                2 := mean_reduction ! 2 + source_points_ptr (3 * workload_idx + 2),
                3 := mean_reduction ! 3 + target_points_ptr target_idx,
                4 := mean_reduction ! 4 + target_points_ptr (target_idx + 1),
                5 := mean_reduction ! 5 + target_points_ptr (target_idx + 2),
                6 := mean_reduction ! 6 + 1])
          else mean_reduction) mean_reduction0 r)"

definition vector_sum :: "nat \<Rightarrow> real list \<Rightarrow> real list \<Rightarrow> real list" where
  "vector_sum m a b = map (\<lambda>j. a ! j + b ! j) [0..<m]"

text \<open>
  The body of the second reduction (lines 368 to 386). Its two offsets are declared
  \<open>const int\<close>, unlike the \<open>int64_t target_idx\<close> of the first reduction: the
  target offset is computed in 64 bits from the \<open>int64_t\<close> correspondence and then
  narrowed; the source offset is computed in \<open>int\<close> and is cut to 32 bits in the
  same way.
\<close>

definition sxy_body ::
  "real ptr \<Rightarrow> real ptr \<Rightarrow> int ptr \<Rightarrow> fp list \<Rightarrow> int list \<Rightarrow> fp list \<Rightarrow> fp list" where
  "sxy_body source_points_ptr target_points_ptr correspondence_indices mean_1x7 r =
     (\<lambda>sxy_1x9_reduction0.
       foldl (\<lambda>sxy_1x9_reduction workload_idx.
          if correspondence_indices workload_idx \<noteq> - 1 then
            map (\<lambda>i. let row = i mod 3; col = i div 3;
                         source_idx = int32 (3 * workload_idx + int row);
                         target_idx = int32 (3 * correspondence_indices workload_idx
                                               + int col)
                     in fp_add (sxy_1x9_reduction ! i)
                          (fp_mul
                             (fp_sub (Some (source_points_ptr source_idx)) (mean_1x7 ! row))
                             (fp_sub (Some (target_points_ptr target_idx))
                                     (mean_1x7 ! (3 + col)))))
                [0..<9]
          else sxy_1x9_reduction) sxy_1x9_reduction0 r)"

definition fp_vector_sum :: "nat \<Rightarrow> fp list \<Rightarrow> fp list \<Rightarrow> fp list" where
  "fp_vector_sum m a b = map (\<lambda>j. fp_add (a ! j) (b ! j)) [0..<m]"

definition trunc_int :: "real \<Rightarrow> int" where
  "trunc_int x = (if 0 \<le> x then \<lfloor>x\<rfloor> else \<lceil>x\<rceil>)"

record sxy_system =
  Sxy :: "fp list"
  mean_t :: "fp list"
  mean_s :: "fp list"
  inlier_count :: int

definition mean_sums :: "nat list \<Rightarrow> real ptr \<Rightarrow> real ptr \<Rightarrow> int ptr \<Rightarrow> int \<Rightarrow> real list" where
  "mean_sums cuts source_points_ptr target_points_ptr correspondence_indices n =
     (let zeros_7 = replicate 7 0
      in parallel_reduce cuts n zeros_7
           (mean_body source_points_ptr target_points_ptr correspondence_indices)
           (vector_sum 7))"

text \<open>
  The loop of lines 356 to 358, which divides the first six sums by the seventh, and the
  second reduction (lines 365 to 396), which reads the quotients.
\<close>

definition mean_division :: "real list \<Rightarrow> fp list" where
  "mean_division sums_1x7 =
     map (\<lambda>i. if i < 6 then fp_div (Some (sums_1x7 ! i)) (Some (sums_1x7 ! 6))
               else Some (sums_1x7 ! i)) [0..<7]"

definition sxy_sums ::
  "nat list \<Rightarrow> real ptr \<Rightarrow> real ptr \<Rightarrow> int ptr \<Rightarrow> fp list \<Rightarrow> int \<Rightarrow> fp list" where
  "sxy_sums cuts source_points_ptr target_points_ptr correspondence_indices mean_1x7 n =
     (let zeros_9 = replicate 9 (Some 0)
      in parallel_reduce cuts n zeros_9
           (sxy_body source_points_ptr target_points_ptr correspondence_indices mean_1x7)
           (fp_vector_sum 9))"

definition Get3x3SxyLinearSystem ::
  "nat list \<Rightarrow> nat list \<Rightarrow> real ptr \<Rightarrow> real ptr \<Rightarrow> int ptr \<Rightarrow> int \<Rightarrow> sxy_system" where
  "Get3x3SxyLinearSystem cuts1 cuts2 source_points_ptr target_points_ptr
       correspondence_indices n =
     (let sums_1x7 = mean_sums cuts1 source_points_ptr target_points_ptr
                       correspondence_indices n;
          mean_1x7 = mean_division sums_1x7;
          sxy_1x9 = sxy_sums cuts2 source_points_ptr target_points_ptr
                      correspondence_indices mean_1x7 n
      in \<lparr> Sxy = map (\<lambda>i. fp_div (sxy_1x9 ! i) (mean_1x7 ! 6)) [0..<9],
           mean_t = map (\<lambda>j. mean_1x7 ! (j + 3)) [0..<3],
           mean_s = map (\<lambda>j. mean_1x7 ! j) [0..<3],
           inlier_count = (case mean_1x7 ! 6 of Some c \<Rightarrow> trunc_int c | None \<Rightarrow> 0) \<rparr>)"

text \<open>The quantities the specification speaks of: the valid pairs and their means.\<close>

definition valid_pairs :: "int ptr \<Rightarrow> int \<Rightarrow> int list" where
  "valid_pairs correspondence_indices n =
     filter (\<lambda>i. correspondence_indices i \<noteq> - 1) [0..n - 1]"

definition mean_source :: "real ptr \<Rightarrow> int ptr \<Rightarrow> int \<Rightarrow> nat \<Rightarrow> real" where
  "mean_source source_points_ptr correspondence_indices n k =
     (\<Sum>i\<leftarrow>valid_pairs correspondence_indices n. source_points_ptr (3 * i + int k))
       / real (length (valid_pairs correspondence_indices n))"

definition mean_target :: "real ptr \<Rightarrow> int ptr \<Rightarrow> int \<Rightarrow> nat \<Rightarrow> real" where
  "mean_target target_points_ptr correspondence_indices n k =
     (\<Sum>i\<leftarrow>valid_pairs correspondence_indices n.
         target_points_ptr (3 * correspondence_indices i + int k))
       / real (length (valid_pairs correspondence_indices n))"

definition mean_contribution :: "real ptr \<Rightarrow> real ptr \<Rightarrow> int ptr \<Rightarrow> int \<Rightarrow> real list" where
  "mean_contribution src tgt corr i =
     (if corr i \<noteq> - 1
      then [src (3 * i), src (3 * i + 1), src (3 * i + 2),
            tgt (3 * corr i), tgt (3 * corr i + 1), tgt (3 * corr i + 2), 1]
      else replicate 7 0)"

definition sxy_contribution ::
  "real ptr \<Rightarrow> real ptr \<Rightarrow> int ptr \<Rightarrow> real list \<Rightarrow> int \<Rightarrow> real list" where
  "sxy_contribution src tgt corr m i =
     (if corr i \<noteq> - 1
      then map (\<lambda>k. (src (int32 (3 * i + int (k mod 3))) - m ! (k mod 3)) *
                     (tgt (int32 (3 * corr i + int (k div 3))) - m ! (3 + k div 3))) [0..<9]
      else replicate 9 0)"

section \<open>Point-to-point: rotation and translation (ComputeRtPointToPointCPU)\<close>

text \<open>
  The tensor library (\<open>Tensor::Det\<close>, \<open>T\<close>, \<open>Matmul\<close>, \<open>Eye\<close>, element assignment,
  \<open>SVD\<close>) is not among the sources. A 3x3 tensor is a matrix stored row by row, a
  tensor of three elements is a triple. \<open>Sxy.SVD()\<close> is the library's LAPACK-backed
  decomposition; it is a parameter \<open>svd\<close> of the model and returns \<open>(U, D, VT)\<close>.
\<close>

datatype mat3 = Mat3 real real real  real real real  real real real

type_synonym vec3 = "real \<times> real \<times> real"

text \<open>Modelled from the spec: \<open>Tensor::Det\<close> is missing; the specification's \<open>det\<close> is
  the determinant.\<close>

fun Det :: "mat3 \<Rightarrow> real" where
  "Det (Mat3 m00 m01 m02 m10 m11 m12 m20 m21 m22) =
     m00 * (m11 * m22 - m12 * m21) - m01 * (m10 * m22 - m12 * m20)
       + m02 * (m10 * m21 - m11 * m20)"

text \<open>Modelled from the spec: \<open>Tensor::T\<close> is missing; the specification's \<open>V\<^sup>T\<close> is the
  transpose.\<close>

fun T :: "mat3 \<Rightarrow> mat3" where
  "T (Mat3 m00 m01 m02 m10 m11 m12 m20 m21 m22) =
     Mat3 m00 m10 m20 m01 m11 m21 m02 m12 m22"

text \<open>Modelled from the spec: \<open>Tensor::Matmul\<close> is missing; the specification's products
  are matrix products, of two matrices and of a matrix and a vector.\<close>

fun Matmul :: "mat3 \<Rightarrow> mat3 \<Rightarrow> mat3" where
  "Matmul (Mat3 a00 a01 a02 a10 a11 a12 a20 a21 a22)
          (Mat3 b00 b01 b02 b10 b11 b12 b20 b21 b22) =
     Mat3 (a00 * b00 + a01 * b10 + a02 * b20) (a00 * b01 + a01 * b11 + a02 * b21)
          (a00 * b02 + a01 * b12 + a02 * b22)
          (a10 * b00 + a11 * b10 + a12 * b20) (a10 * b01 + a11 * b11 + a12 * b21)
          (a10 * b02 + a11 * b12 + a12 * b22)
          (a20 * b00 + a21 * b10 + a22 * b20) (a20 * b01 + a21 * b11 + a22 * b21)
          (a20 * b02 + a21 * b12 + a22 * b22)"

text \<open>Modelled from the spec: the same missing \<open>Tensor::Matmul\<close>, applied to a matrix
  and a column (\<open>R * mean_source\<close>).\<close>

fun Matvec :: "mat3 \<Rightarrow> vec3 \<Rightarrow> vec3" where
  "Matvec (Mat3 a00 a01 a02 a10 a11 a12 a20 a21 a22) (v0, v1, v2) =
     (a00 * v0 + a01 * v1 + a02 * v2,
      a10 * v0 + a11 * v1 + a12 * v2,
      a20 * v0 + a21 * v1 + a22 * v2)"

text \<open>Modelled from the spec: the tensor subtraction is missing; the specification's
  \<open>mean_target - R * mean_source\<close> is the difference of two vectors.\<close>

fun vec_sub :: "vec3 \<Rightarrow> vec3 \<Rightarrow> vec3" where
  "vec_sub (a0, a1, a2) (b0, b1, b2) = (a0 - b0, a1 - b1, a2 - b2)"

text \<open>The specification's \<open>diag\<close>.\<close>

definition diag3 :: "real \<Rightarrow> real \<Rightarrow> real \<Rightarrow> mat3" where
  "diag3 a b c = Mat3 a 0 0  0 b 0  0 0 c"

text \<open>Modelled from the spec: \<open>Tensor::Eye\<close> is missing; \<open>Eye(3)\<close> is the identity, the
  \<open>diag(1, 1, 1)\<close> of the specification.\<close>

definition Eye :: mat3 where
  "Eye = diag3 1 1 1"

text \<open>Modelled from the spec: the element assignment \<open>S[-1][-1] = v\<close> is missing; it
  sets the last diagonal entry, the third argument of the specification's \<open>diag\<close>.\<close>

fun set_last :: "mat3 \<Rightarrow> real \<Rightarrow> mat3" where
  "set_last (Mat3 m00 m01 m02 m10 m11 m12 m20 m21 m22) v =
     Mat3 m00 m01 m02 m10 m11 m12 m20 m21 v"

text \<open>The contents of the flat buffers written by \<open>Get3x3SxyLinearSystem\<close>, read as a
  3x3 tensor and as a tensor of three elements.\<close>

definition tensor3x3 :: "real list \<Rightarrow> mat3" where
  "tensor3x3 xs = Mat3 (xs ! 0) (xs ! 1) (xs ! 2) (xs ! 3) (xs ! 4) (xs ! 5)
                       (xs ! 6) (xs ! 7) (xs ! 8)"

definition tensor3 :: "real list \<Rightarrow> vec3" where
  "tensor3 xs = (xs ! 0, xs ! 1, xs ! 2)"

text \<open>What a singular value decomposition guarantees of its factors \<open>U\<close> and \<open>VT\<close>.\<close>

definition orthogonal :: "mat3 \<Rightarrow> bool" where
  "orthogonal M \<longleftrightarrow> Matmul (T M) M = Eye"

text \<open>
  A tensor with an entry that is not a number has no decomposition the model could
  speak of: \<open>R\<close> and \<open>t\<close> are then \<open>None\<close>.
\<close>

definition ComputeRtPointToPointCPU ::
  "(mat3 \<Rightarrow> mat3 \<times> vec3 \<times> mat3) \<Rightarrow> nat list \<Rightarrow> nat list \<Rightarrow>
   real ptr \<Rightarrow> real ptr \<Rightarrow> int ptr \<Rightarrow> int \<Rightarrow> mat3 option \<times> vec3 option \<times> int" where
  "ComputeRtPointToPointCPU svd cuts1 cuts2 source_points target_points corres n =
     (let sys = Get3x3SxyLinearSystem cuts1 cuts2 source_points target_points corres n
      in case (those (Sxy sys), those (mean_t sys), those (mean_s sys)) of
           (Some sxy, Some mt, Some ms) \<Rightarrow>
             (let (U, D, VT) = svd (tensor3x3 sxy);
                  S = Eye;
                  S = (if Det U * Det (T VT) < 0 then set_last S (- 1) else S);
                  R = Matmul U (Matmul S VT);
                  t = vec_sub (tensor3 mt) (Matvec R (tensor3 ms))
              in (Some R, Some t, inlier_count sys))
         | _ \<Rightarrow> (None, None, inlier_count sys))"


text \<open>
  A small concrete registration problem: source points \<open>(0,0,0)\<close> and \<open>(1,0,0)\<close>,
  target points \<open>(0,0,0)\<close> and \<open>(0,1,0)\<close>, matched in order; the same clouds with
  no match at all; and a decomposition routine that answers with a reflection for \<open>U\<close>.
\<close>

definition ex_source :: "real ptr" where
  "ex_source i = (if i = 3 then 1 else 0)"

definition ex_target :: "real ptr" where
  "ex_target i = (if i = 4 then 1 else 0)"

definition ex_corres :: "int ptr" where
  "ex_corres i = i"

definition no_corres :: "int ptr" where
  "no_corres i = - 1"

definition ex_svd :: "mat3 \<Rightarrow> mat3 \<times> vec3 \<times> mat3" where
  "ex_svd A = (diag3 1 1 (- 1), (0, 0, 0), Eye)"

section \<open>Point-to-plane and colored ICP: the 29-entry reduction\<close>

type_synonym plane_evaluator =
  "int \<Rightarrow> real ptr \<Rightarrow> real ptr \<Rightarrow> real ptr \<Rightarrow> int ptr \<Rightarrow> bool \<times> real list \<times> real"

type_synonym colored_evaluator =
  "int \<Rightarrow> real ptr \<Rightarrow> real ptr \<Rightarrow> real ptr \<Rightarrow> real ptr \<Rightarrow> real ptr \<Rightarrow> real ptr \<Rightarrow> int ptr
     \<Rightarrow> real \<Rightarrow> real \<Rightarrow> bool \<times> real list \<times> real list \<times> real \<times> real"

text \<open>
  Modelled from the spec: \<open>GetJacobianPointToPlane\<close>, the per-observation evaluator
  called by the kernel, is not among the sources. The specification (4.3) says that it
  derives the Jacobian \<open>J\<close> (six entries) and the residual \<open>r\<close> of observation \<open>i\<close> from
  the distance of the source point to the tangent plane of its target, and that the
  observation is invalid if its correspondence is the sentinel \<open>-1\<close> or for another
  reason of the evaluator's own. The derivation is the parameter \<open>jac\<close>; the sentinel
  test is written out. The result is \<open>(valid, J, r)\<close>; an invalid observation leaves
  \<open>J\<close> and \<open>r\<close> at the zeros the kernel initialised them with.
\<close>

definition GetJacobianPointToPlane ::
  "plane_evaluator \<Rightarrow> int \<Rightarrow> real ptr \<Rightarrow> real ptr \<Rightarrow> real ptr \<Rightarrow> int ptr
     \<Rightarrow> bool \<times> real list \<times> real" where
  "GetJacobianPointToPlane jac workload_idx source_points_ptr target_points_ptr
       target_normals_ptr correspondence_indices =
     (if correspondence_indices workload_idx = - 1 then (False, replicate 6 0, 0)
      else jac workload_idx source_points_ptr target_points_ptr target_normals_ptr
             correspondence_indices)"

text \<open>
  Modelled from the spec: \<open>GetJacobianColoredICP\<close> is not among the sources either. The
  specification (4.3) says that it computes a geometric and a photometric pair of
  Jacobian and residual, and that it skips an observation whose correspondence is the
  sentinel. The result is \<open>(valid, J_G, J_I, r_G, r_I)\<close>.
\<close>

definition GetJacobianColoredICP ::
  "colored_evaluator \<Rightarrow> int \<Rightarrow> real ptr \<Rightarrow> real ptr \<Rightarrow> real ptr \<Rightarrow> real ptr \<Rightarrow> real ptr
     \<Rightarrow> real ptr \<Rightarrow> int ptr \<Rightarrow> real \<Rightarrow> real
     \<Rightarrow> bool \<times> real list \<times> real list \<times> real \<times> real" where
  "GetJacobianColoredICP jac workload_idx source_points_ptr source_colors_ptr
       target_points_ptr target_normals_ptr target_colors_ptr target_color_gradients_ptr
       correspondence_indices sqrt_lambda_geometric sqrt_lambda_photometric =
     (if correspondence_indices workload_idx = - 1
      then (False, replicate 6 0, replicate 6 0, 0, 0)
      else jac workload_idx source_points_ptr source_colors_ptr target_points_ptr
             target_normals_ptr target_colors_ptr target_color_gradients_ptr
             correspondence_indices sqrt_lambda_geometric sqrt_lambda_photometric)"

text \<open>
  The kernels. The robust kernel \<open>op\<close> (residual to weight) is the caller's. Under
  \<open>_WIN32\<close> the loop is a \<open>tbb::parallel_reduce\<close>; otherwise it is an OpenMP
  \<open>reduction(+ : A[:29])\<close>, which likewise sums private partial accumulators that start
  from zero: both are the reduction above.
\<close>

definition plane_body ::
  "plane_evaluator \<Rightarrow> (real \<Rightarrow> real) \<Rightarrow> real ptr \<Rightarrow> real ptr \<Rightarrow> real ptr \<Rightarrow> int ptr
     \<Rightarrow> int list \<Rightarrow> real list \<Rightarrow> real list" where
  "plane_body jac op source_points_ptr target_points_ptr target_normals_ptr
       correspondence_indices blk =
     (\<lambda>A0.
       foldl (\<lambda>A workload_idx.
          let (valid, J_ij, r) =
                GetJacobianPointToPlane jac workload_idx source_points_ptr
                  target_points_ptr target_normals_ptr correspondence_indices;
              w = op r
          in if valid then
               A[
                0 := A ! 0 + (J_ij ! 0 * w * J_ij ! 0),
                1 := A ! 1 + (J_ij ! 1 * w * J_ij ! 0),
                2 := A ! 2 + (J_ij ! 1 * w * J_ij ! 1),
                3 := A ! 3 + (J_ij ! 2 * w * J_ij ! 0),
                4 := A ! 4 + (J_ij ! 2 * w * J_ij ! 1),
                5 := A ! 5 + (J_ij ! 2 * w * J_ij ! 2),
                6 := A ! 6 + (J_ij ! 3 * w * J_ij ! 0),
                7 := A ! 7 + (J_ij ! 3 * w * J_ij ! 1),
                8 := A ! 8 + (J_ij ! 3 * w * J_ij ! 2),
                9 := A ! 9 + (J_ij ! 3 * w * J_ij ! 3),
                10 := A ! 10 + (J_ij ! 4 * w * J_ij ! 0),
                11 := A ! 11 + (J_ij ! 4 * w * J_ij ! 1),
                12 := A ! 12 + (J_ij ! 4 * w * J_ij ! 2),
                13 := A ! 13 + (J_ij ! 4 * w * J_ij ! 3),
                14 := A ! 14 + (J_ij ! 4 * w * J_ij ! 4),
                15 := A ! 15 + (J_ij ! 5 * w * J_ij ! 0),
                16 := A ! 16 + (J_ij ! 5 * w * J_ij ! 1),
                17 := A ! 17 + (J_ij ! 5 * w * J_ij ! 2),
                18 := A ! 18 + (J_ij ! 5 * w * J_ij ! 3),
                19 := A ! 19 + (J_ij ! 5 * w * J_ij ! 4),
                20 := A ! 20 + (J_ij ! 5 * w * J_ij ! 5),
                21 := A ! 21 + (J_ij ! 0 * w * r),
                22 := A ! 22 + (J_ij ! 1 * w * r),
                23 := A ! 23 + (J_ij ! 2 * w * r),
                24 := A ! 24 + (J_ij ! 3 * w * r),
                25 := A ! 25 + (J_ij ! 4 * w * r),
                26 := A ! 26 + (J_ij ! 5 * w * r),
                27 := A ! 27 + (r * r),
                28 := A ! 28 + (1)]
             else A) A0 blk)"

definition ComputePosePointToPlaneKernelCPU ::
  "plane_evaluator \<Rightarrow> (real \<Rightarrow> real) \<Rightarrow> nat list \<Rightarrow> real ptr \<Rightarrow> real ptr \<Rightarrow> real ptr
     \<Rightarrow> int ptr \<Rightarrow> int \<Rightarrow> real list" where
  "ComputePosePointToPlaneKernelCPU jac op cuts source_points_ptr target_points_ptr
       target_normals_ptr correspondence_indices n =
     (let A_1x29 = parallel_reduce cuts n (replicate 29 0)
                     (plane_body jac op source_points_ptr target_points_ptr
                        target_normals_ptr correspondence_indices)
                     (vector_sum 29)
      in map (\<lambda>i. A_1x29 ! i) [0..<29])"

definition colored_body ::
  "colored_evaluator \<Rightarrow> (real \<Rightarrow> real) \<Rightarrow> real ptr \<Rightarrow> real ptr \<Rightarrow> real ptr \<Rightarrow> real ptr
     \<Rightarrow> real ptr \<Rightarrow> real ptr \<Rightarrow> int ptr \<Rightarrow> real \<Rightarrow> real
     \<Rightarrow> int list \<Rightarrow> real list \<Rightarrow> real list" where
  "colored_body jac op source_points_ptr source_colors_ptr target_points_ptr
       target_normals_ptr target_colors_ptr target_color_gradients_ptr
       correspondence_indices sqrt_lambda_geometric sqrt_lambda_photometric blk =
     (\<lambda>A0.
       foldl (\<lambda>A workload_idx.
          let (valid, J_G, J_I, r_G, r_I) =
                GetJacobianColoredICP jac workload_idx source_points_ptr source_colors_ptr
                  target_points_ptr target_normals_ptr target_colors_ptr
                  target_color_gradients_ptr correspondence_indices
                  sqrt_lambda_geometric sqrt_lambda_photometric;
              w_G = op r_G;
              w_I = op r_I
          in if valid then
               A[
                0 := A ! 0 + (J_G ! 0 * w_G * J_G ! 0 + J_I ! 0 * w_I * J_I ! 0),
                1 := A ! 1 + (J_G ! 1 * w_G * J_G ! 0 + J_I ! 1 * w_I * J_I ! 0),
                2 := A ! 2 + (J_G ! 1 * w_G * J_G ! 1 + J_I ! 1 * w_I * J_I ! 1),
                3 := A ! 3 + (J_G ! 2 * w_G * J_G ! 0 + J_I ! 2 * w_I * J_I ! 0),
                4 := A ! 4 + (J_G ! 2 * w_G * J_G ! 1 + J_I ! 2 * w_I * J_I ! 1),
                5 := A ! 5 + (J_G ! 2 * w_G * J_G ! 2 + J_I ! 2 * w_I * J_I ! 2),
                6 := A ! 6 + (J_G ! 3 * w_G * J_G ! 0 + J_I ! 3 * w_I * J_I ! 0),
                7 := A ! 7 + (J_G ! 3 * w_G * J_G ! 1 + J_I ! 3 * w_I * J_I ! 1),
                8 := A ! 8 + (J_G ! 3 * w_G * J_G ! 2 + J_I ! 3 * w_I * J_I ! 2),
                9 := A ! 9 + (J_G ! 3 * w_G * J_G ! 3 + J_I ! 3 * w_I * J_I ! 3),
                10 := A ! 10 + (J_G ! 4 * w_G * J_G ! 0 + J_I ! 4 * w_I * J_I ! 0),
                11 := A ! 11 + (J_G ! 4 * w_G * J_G ! 1 + J_I ! 4 * w_I * J_I ! 1),
                12 := A ! 12 + (J_G ! 4 * w_G * J_G ! 2 + J_I ! 4 * w_I * J_I ! 2),
                13 := A ! 13 + (J_G ! 4 * w_G * J_G ! 3 + J_I ! 4 * w_I * J_I ! 3),
                14 := A ! 14 + (J_G ! 4 * w_G * J_G ! 4 + J_I ! 4 * w_I * J_I ! 4),
                15 := A ! 15 + (J_G ! 5 * w_G * J_G ! 0 + J_I ! 5 * w_I * J_I ! 0),
                16 := A ! 16 + (J_G ! 5 * w_G * J_G ! 1 + J_I ! 5 * w_I * J_I ! 1),
                17 := A ! 17 + (J_G ! 5 * w_G * J_G ! 2 + J_I ! 5 * w_I * J_I ! 2),
                18 := A ! 18 + (J_G ! 5 * w_G * J_G ! 3 + J_I ! 5 * w_I * J_I ! 3),
                19 := A ! 19 + (J_G ! 5 * w_G * J_G ! 4 + J_I ! 5 * w_I * J_I ! 4),
                20 := A ! 20 + (J_G ! 5 * w_G * J_G ! 5 + J_I ! 5 * w_I * J_I ! 5),
                21 := A ! 21 + (J_G ! 0 * w_G * r_G + J_I ! 0 * w_I * r_I),
                22 := A ! 22 + (J_G ! 1 * w_G * r_G + J_I ! 1 * w_I * r_I),
                23 := A ! 23 + (J_G ! 2 * w_G * r_G + J_I ! 2 * w_I * r_I),
                24 := A ! 24 + (J_G ! 3 * w_G * r_G + J_I ! 3 * w_I * r_I),
                25 := A ! 25 + (J_G ! 4 * w_G * r_G + J_I ! 4 * w_I * r_I),
                26 := A ! 26 + (J_G ! 5 * w_G * r_G + J_I ! 5 * w_I * r_I),
                27 := A ! 27 + (r_G * r_G + r_I * r_I),
                28 := A ! 28 + (1)]
             else A) A0 blk)"

definition ComputePoseColoredICPKernelCPU ::
  "colored_evaluator \<Rightarrow> (real \<Rightarrow> real) \<Rightarrow> nat list \<Rightarrow> real ptr \<Rightarrow> real ptr \<Rightarrow> real ptr
     \<Rightarrow> real ptr \<Rightarrow> real ptr \<Rightarrow> real ptr \<Rightarrow> int ptr \<Rightarrow> real \<Rightarrow> real \<Rightarrow> int
     \<Rightarrow> real list" where
  "ComputePoseColoredICPKernelCPU jac op cuts source_points_ptr source_colors_ptr
       target_points_ptr target_normals_ptr target_colors_ptr target_color_gradients_ptr
       correspondence_indices sqrt_lambda_geometric sqrt_lambda_photometric n =
     (let A_1x29 = parallel_reduce cuts n (replicate 29 0)
                     (colored_body jac op source_points_ptr source_colors_ptr
                        target_points_ptr target_normals_ptr target_colors_ptr
                        target_color_gradients_ptr correspondence_indices
                        sqrt_lambda_geometric sqrt_lambda_photometric)
                     (vector_sum 29)
      in map (\<lambda>i. A_1x29 ! i) [0..<29])"

type_synonym pose6 = "real \<times> real \<times> real \<times> real \<times> real \<times> real"

text \<open>
  Modelled from the spec: \<open>DecodeAndSolve6x6\<close> is called by both entry points but is
  not among the sources. The specification (4.2) says that the decode step rebuilds the
  symmetric 6x6 matrix from the 21 packed entries (entry \<open>(a, b)\<close>, \<open>b \<le> a\<close>, at
  \<open>a (a + 1) / 2 + b\<close>), solves the system with a general small dense solver for the
  6-vector pose, and reports the total residual (entry 27) and the inlier count
  (entry 28); a zero inlier count is reported, not raised. The dense solver is the
  parameter \<open>solve\<close>.
\<close>

definition DecodeAndSolve6x6 ::
  "(real list list \<Rightarrow> real list \<Rightarrow> pose6) \<Rightarrow> real list \<Rightarrow> pose6 \<times> real \<times> int" where
  "DecodeAndSolve6x6 solve global_sum =
     (let AtA = map (\<lambda>a. map (\<lambda>b. global_sum !
                       (if b \<le> a then a * (a + 1) div 2 + b else b * (b + 1) div 2 + a))
                     [0..<6]) [0..<6];
          Atb = map (\<lambda>a. global_sum ! (21 + a)) [0..<6]
      in (solve AtA Atb, global_sum ! 27, trunc_int (global_sum ! 28)))"

definition ComputePosePointToPlaneCPU ::
  "plane_evaluator \<Rightarrow> (real \<Rightarrow> real) \<Rightarrow> (real list list \<Rightarrow> real list \<Rightarrow> pose6) \<Rightarrow> nat list
     \<Rightarrow> real ptr \<Rightarrow> real ptr \<Rightarrow> real ptr \<Rightarrow> int ptr \<Rightarrow> int \<Rightarrow> pose6 \<times> real \<times> int" where
  "ComputePosePointToPlaneCPU jac op solve cuts source_points target_points target_normals
       correspondence_indices n =
     (let global_sum = ComputePosePointToPlaneKernelCPU jac op cuts source_points
                         target_points target_normals correspondence_indices n
      in DecodeAndSolve6x6 solve global_sum)"

definition ComputePoseColoredICPCPU ::
  "colored_evaluator \<Rightarrow> (real \<Rightarrow> real) \<Rightarrow> (real list list \<Rightarrow> real list \<Rightarrow> pose6) \<Rightarrow> nat list
     \<Rightarrow> real ptr \<Rightarrow> real ptr \<Rightarrow> real ptr \<Rightarrow> real ptr \<Rightarrow> real ptr \<Rightarrow> real ptr \<Rightarrow> int ptr
     \<Rightarrow> int \<Rightarrow> real \<Rightarrow> pose6 \<times> real \<times> int" where
  "ComputePoseColoredICPCPU jac op solve cuts source_points source_colors target_points
       target_normals target_colors target_color_gradients correspondence_indices n
       lambda_geometric =
     (let sqrt_lambda_geometric = sqrt lambda_geometric;
          sqrt_lambda_photometric = sqrt (1 - lambda_geometric);
          global_sum = ComputePoseColoredICPKernelCPU jac op cuts source_points
                         source_colors target_points target_normals target_colors
                         target_color_gradients correspondence_indices
                         sqrt_lambda_geometric sqrt_lambda_photometric n
      in DecodeAndSolve6x6 solve global_sum)"

text \<open>
  The observations that count, and the two readings of "total residual": the sum of the
  squared residuals, and the sum of the squared residuals each multiplied by its robust
  weight.
\<close>

definition plane_observation ::
  "plane_evaluator \<Rightarrow> real ptr \<Rightarrow> real ptr \<Rightarrow> real ptr \<Rightarrow> int ptr \<Rightarrow> int
     \<Rightarrow> bool \<times> real list \<times> real" where
  "plane_observation jac src tgt nrm corr i = GetJacobianPointToPlane jac i src tgt nrm corr"

definition plane_valid ::
  "plane_evaluator \<Rightarrow> real ptr \<Rightarrow> real ptr \<Rightarrow> real ptr \<Rightarrow> int ptr \<Rightarrow> int \<Rightarrow> int list" where
  "plane_valid jac src tgt nrm corr n =
     filter (\<lambda>i. fst (plane_observation jac src tgt nrm corr i)) [0..n - 1]"

definition plane_residual :: "plane_evaluator \<Rightarrow> real ptr \<Rightarrow> real ptr \<Rightarrow> real ptr \<Rightarrow> int ptr \<Rightarrow> int \<Rightarrow> real" where
  "plane_residual jac src tgt nrm corr i = snd (snd (plane_observation jac src tgt nrm corr i))"

definition plane_sum_squares ::
  "plane_evaluator \<Rightarrow> real ptr \<Rightarrow> real ptr \<Rightarrow> real ptr \<Rightarrow> int ptr \<Rightarrow> int \<Rightarrow> real" where
  "plane_sum_squares jac src tgt nrm corr n =
     (\<Sum>i\<leftarrow>plane_valid jac src tgt nrm corr n.
        plane_residual jac src tgt nrm corr i * plane_residual jac src tgt nrm corr i)"

definition plane_weighted_sum_squares ::
  "plane_evaluator \<Rightarrow> (real \<Rightarrow> real) \<Rightarrow> real ptr \<Rightarrow> real ptr \<Rightarrow> real ptr \<Rightarrow> int ptr \<Rightarrow> int
     \<Rightarrow> real" where
  "plane_weighted_sum_squares jac op src tgt nrm corr n =
     (\<Sum>i\<leftarrow>plane_valid jac src tgt nrm corr n.
        op (plane_residual jac src tgt nrm corr i) *
        (plane_residual jac src tgt nrm corr i * plane_residual jac src tgt nrm corr i))"

definition colored_observation ::
  "colored_evaluator \<Rightarrow> real ptr \<Rightarrow> real ptr \<Rightarrow> real ptr \<Rightarrow> real ptr \<Rightarrow> real ptr \<Rightarrow> real ptr
     \<Rightarrow> int ptr \<Rightarrow> real \<Rightarrow> real \<Rightarrow> int
     \<Rightarrow> bool \<times> real list \<times> real list \<times> real \<times> real" where
  "colored_observation jac src scol tgt nrm tcol tgrad corr sg sp i =
     GetJacobianColoredICP jac i src scol tgt nrm tcol tgrad corr sg sp"

definition colored_sum_squares ::
  "colored_evaluator \<Rightarrow> real ptr \<Rightarrow> real ptr \<Rightarrow> real ptr \<Rightarrow> real ptr \<Rightarrow> real ptr \<Rightarrow> real ptr
     \<Rightarrow> int ptr \<Rightarrow> real \<Rightarrow> real \<Rightarrow> int \<Rightarrow> real" where
  "colored_sum_squares jac src scol tgt nrm tcol tgrad corr sg sp n =
     (\<Sum>i\<leftarrow>filter (\<lambda>i. fst (colored_observation jac src scol tgt nrm tcol tgrad corr sg sp i))
            [0..n - 1].
        (case colored_observation jac src scol tgt nrm tcol tgrad corr sg sp i of
           (valid, J_G, J_I, r_G, r_I) \<Rightarrow> r_G * r_G + r_I * r_I))"

text \<open>Proof devices: what one observation adds to the 29 entries.\<close>

definition plane_contribution ::
  "plane_evaluator \<Rightarrow> (real \<Rightarrow> real) \<Rightarrow> real ptr \<Rightarrow> real ptr \<Rightarrow> real ptr \<Rightarrow> int ptr \<Rightarrow> int
     \<Rightarrow> real list" where
  "plane_contribution jac op src tgt nrm corr i =
     (case GetJacobianPointToPlane jac i src tgt nrm corr of
        (valid, J_ij, r) \<Rightarrow>
          (let w = op r in
           if valid then
       [
        J_ij ! 0 * w * J_ij ! 0,
        J_ij ! 1 * w * J_ij ! 0,
        J_ij ! 1 * w * J_ij ! 1,
        J_ij ! 2 * w * J_ij ! 0,
        J_ij ! 2 * w * J_ij ! 1,
        J_ij ! 2 * w * J_ij ! 2,
        J_ij ! 3 * w * J_ij ! 0,
        J_ij ! 3 * w * J_ij ! 1,
        J_ij ! 3 * w * J_ij ! 2,
        J_ij ! 3 * w * J_ij ! 3,
        J_ij ! 4 * w * J_ij ! 0,
        J_ij ! 4 * w * J_ij ! 1,
        J_ij ! 4 * w * J_ij ! 2,
        J_ij ! 4 * w * J_ij ! 3,
        J_ij ! 4 * w * J_ij ! 4,
        J_ij ! 5 * w * J_ij ! 0,
        J_ij ! 5 * w * J_ij ! 1,
        J_ij ! 5 * w * J_ij ! 2,
        J_ij ! 5 * w * J_ij ! 3,
        J_ij ! 5 * w * J_ij ! 4,
        J_ij ! 5 * w * J_ij ! 5,
        J_ij ! 0 * w * r,
        J_ij ! 1 * w * r,
        J_ij ! 2 * w * r,
        J_ij ! 3 * w * r,
        J_ij ! 4 * w * r,
        J_ij ! 5 * w * r,
        r * r,
        1]
           else replicate 29 0))"

definition colored_contribution ::
  "colored_evaluator \<Rightarrow> (real \<Rightarrow> real) \<Rightarrow> real ptr \<Rightarrow> real ptr \<Rightarrow> real ptr \<Rightarrow> real ptr
     \<Rightarrow> real ptr \<Rightarrow> real ptr \<Rightarrow> int ptr \<Rightarrow> real \<Rightarrow> real \<Rightarrow> int \<Rightarrow> real list" where
  "colored_contribution jac op src scol tgt nrm tcol tgrad corr sg sp i =
     (case GetJacobianColoredICP jac i src scol tgt nrm tcol tgrad corr sg sp of
        (valid, J_G, J_I, r_G, r_I) \<Rightarrow>
          (let w_G = op r_G; w_I = op r_I in
           if valid then
       [
        J_G ! 0 * w_G * J_G ! 0 + J_I ! 0 * w_I * J_I ! 0,
        J_G ! 1 * w_G * J_G ! 0 + J_I ! 1 * w_I * J_I ! 0,
        J_G ! 1 * w_G * J_G ! 1 + J_I ! 1 * w_I * J_I ! 1,
        J_G ! 2 * w_G * J_G ! 0 + J_I ! 2 * w_I * J_I ! 0,
        J_G ! 2 * w_G * J_G ! 1 + J_I ! 2 * w_I * J_I ! 1,
        J_G ! 2 * w_G * J_G ! 2 + J_I ! 2 * w_I * J_I ! 2,
        J_G ! 3 * w_G * J_G ! 0 + J_I ! 3 * w_I * J_I ! 0,
        J_G ! 3 * w_G * J_G ! 1 + J_I ! 3 * w_I * J_I ! 1,
        J_G ! 3 * w_G * J_G ! 2 + J_I ! 3 * w_I * J_I ! 2,
        J_G ! 3 * w_G * J_G ! 3 + J_I ! 3 * w_I * J_I ! 3,
        J_G ! 4 * w_G * J_G ! 0 + J_I ! 4 * w_I * J_I ! 0,
        J_G ! 4 * w_G * J_G ! 1 + J_I ! 4 * w_I * J_I ! 1,
        J_G ! 4 * w_G * J_G ! 2 + J_I ! 4 * w_I * J_I ! 2,
        J_G ! 4 * w_G * J_G ! 3 + J_I ! 4 * w_I * J_I ! 3,
        J_G ! 4 * w_G * J_G ! 4 + J_I ! 4 * w_I * J_I ! 4,
        J_G ! 5 * w_G * J_G ! 0 + J_I ! 5 * w_I * J_I ! 0,
        J_G ! 5 * w_G * J_G ! 1 + J_I ! 5 * w_I * J_I ! 1,
        J_G ! 5 * w_G * J_G ! 2 + J_I ! 5 * w_I * J_I ! 2,
        J_G ! 5 * w_G * J_G ! 3 + J_I ! 5 * w_I * J_I ! 3,
        J_G ! 5 * w_G * J_G ! 4 + J_I ! 5 * w_I * J_I ! 4,
        J_G ! 5 * w_G * J_G ! 5 + J_I ! 5 * w_I * J_I ! 5,
        J_G ! 0 * w_G * r_G + J_I ! 0 * w_I * r_I,
        J_G ! 1 * w_G * r_G + J_I ! 1 * w_I * r_I,
        J_G ! 2 * w_G * r_G + J_I ! 2 * w_I * r_I,
        J_G ! 3 * w_G * r_G + J_I ! 3 * w_I * r_I,
        J_G ! 4 * w_G * r_G + J_I ! 4 * w_I * r_I,
        J_G ! 5 * w_G * r_G + J_I ! 5 * w_I * r_I,
        r_G * r_G + r_I * r_I,
        1]
           else replicate 29 0))"

text \<open>
  A concrete observation for the point-to-plane kernel: one source point \<open>(1,0,0)\<close>
  matched to the target point \<open>(0,0,0)\<close> with normal \<open>(1,0,0)\<close>, an evaluator that
  takes the signed distance to the tangent plane as the residual, and the Huber weight
  with threshold \<open>1/2\<close>.
\<close>

definition ex_plane_source :: "real ptr" where
  "ex_plane_source i = (if i = 0 then 1 else 0)"

definition ex_plane_target :: "real ptr" where
  "ex_plane_target i = 0"

definition ex_plane_normals :: "real ptr" where
  "ex_plane_normals i = (if i = 0 then 1 else 0)"

definition ex_plane_jac :: plane_evaluator where
  "ex_plane_jac workload_idx src tgt nrm corr =
     (let t = 3 * corr workload_idx; s = 3 * workload_idx;
          r = (src s - tgt t) * nrm t + (src (s + 1) - tgt (t + 1)) * nrm (t + 1)
                + (src (s + 2) - tgt (t + 2)) * nrm (t + 2)
      in (True,
          [nrm (t + 2) * src (s + 1) - nrm (t + 1) * src (s + 2),
           nrm t * src (s + 2) - nrm (t + 2) * src s,
           nrm (t + 1) * src s - nrm t * src (s + 1),
           nrm t, nrm (t + 1), nrm (t + 2)],
          r))"

definition ex_huber :: "real \<Rightarrow> real" where
  "ex_huber r = (if \<bar>r\<bar> \<le> 1 / 2 then 1 else (1 / 2) / \<bar>r\<bar>)"

definition ex_colored_jac :: colored_evaluator where
  "ex_colored_jac workload_idx src scol tgt nrm tcol tgrad corr sg sp =
     (True, replicate 6 0, replicate 6 0, sg, sp)"

definition ex_solve :: "real list list \<Rightarrow> real list \<Rightarrow> pose6" where
  "ex_solve AtA Atb = (0, 0, 0, 0, 0, 0)"

section \<open>The 3x3 singular value decomposition (svd)\<close>

text \<open>
  The header holds two specializations of \<open>svd\<close>, for \<open>double\<close> and for \<open>float\<close>,
  each straight-line code around one loop. The locals are unions \<open>un<scalar_t>\<close> of a
  \<open>scalar_t f\<close> and an \<open>unsigned int ui\<close>: a local is modelled by the bits it occupies
  (64 or 32), \<open>f\<close> reads and writes all of them, \<open>ui\<close> the low 32 (the targets are
  little-endian), and a write to \<open>ui\<close> leaves the bits above as they are. What the
  floating-point unit computes on these bit patterns (\<open>*\<close>, the rounding intrinsics,
  \<open>max\<close> and the comparisons) is not part of the sources; it is the parameter \<open>ops\<close>.
  The locals are declared without initial values; what they hold at entry is the
  parameter \<open>uninit\<close>.
\<close>

unbundle bit_operations_syntax

datatype var =
    Sa11 | Sa21 | Sa31 | Sa12 | Sa22 | Sa32 | Sa13 | Sa23 | Sa33
  | Su11 | Su21 | Su31 | Su12 | Su22 | Su32 | Su13 | Su23 | Su33
  | Sv11 | Sv21 | Sv31 | Sv12 | Sv22 | Sv32 | Sv13 | Sv23 | Sv33
  | Sc | Ss | Sch | Ssh | Stmp1 | Stmp2 | Stmp3 | Stmp4 | Stmp5
  | Ss11 | Ss21 | Ss31 | Ss22 | Ss32 | Ss33 | Sqvs | Sqvvx | Sqvvy
  | Sqvvz

definition ui :: "(var \<Rightarrow> 'a::len word) \<Rightarrow> var \<Rightarrow> 32 word" where
  "ui r x = ucast (r x)"

definition set_f ::
  "var \<Rightarrow> ((var \<Rightarrow> 'a::len word) \<Rightarrow> 'a word) \<Rightarrow> (var \<Rightarrow> 'a word) \<Rightarrow> var \<Rightarrow> 'a word" where
  "set_f x e r = r(x := e r)"

definition set_ui ::
  "var \<Rightarrow> ((var \<Rightarrow> 'a::len word) \<Rightarrow> 32 word) \<Rightarrow> (var \<Rightarrow> 'a word) \<Rightarrow> var \<Rightarrow> 'a word" where
  "set_ui x e r = r(x := push_bit 32 (drop_bit 32 (r x)) OR ucast (e r))"

definition run :: "('s \<Rightarrow> 's) list \<Rightarrow> 's \<Rightarrow> 's" where
  "run stmts r = foldl (\<lambda>r stmt. stmt r) r stmts"

text \<open>The three integer constants of the header, used as bit masks.\<close>

definition gone :: "32 word" where
  "gone = 1065353216"

definition gsine_pi_over_eight :: "32 word" where
  "gsine_pi_over_eight = 1053028117"

definition gcosine_pi_over_eight :: "32 word" where
  "gcosine_pi_over_eight = 1064076127"

subsection \<open>Double precision\<close>

type_synonym regs = "var \<Rightarrow> 64 word"

record fpu =
  fmul :: "64 word \<Rightarrow> 64 word \<Rightarrow> 64 word"
  dadd_rn :: "64 word \<Rightarrow> 64 word \<Rightarrow> 64 word"
  dsub_rn :: "64 word \<Rightarrow> 64 word \<Rightarrow> 64 word"
  drcp_rn :: "64 word \<Rightarrow> 64 word"
  dsqrt_rn :: "64 word \<Rightarrow> 64 word"
  fmax :: "64 word \<Rightarrow> 64 word \<Rightarrow> 64 word"
  fge :: "64 word \<Rightarrow> 64 word \<Rightarrow> bool"
  fle :: "64 word \<Rightarrow> 64 word \<Rightarrow> bool"
  flt :: "64 word \<Rightarrow> 64 word \<Rightarrow> bool"

text \<open>
  The float literals of the header take part in double arithmetic; they appear as the
  binary64 encoding of their single-precision value.
\<close>

definition gsmall_number_double :: "64 word" where
  "gsmall_number_double = 0x3D71979980000000"

definition gtiny_number_double :: "64 word" where
  "gtiny_number_double = 0x3BC79CA100000000"

definition gfour_gamma_squared_double :: "64 word" where
  "gfour_gamma_squared_double = 0x4017504F40000000"

definition double_zero :: "64 word" where
  "double_zero = 0"

definition double_one :: "64 word" where
  "double_one = 0x3FF0000000000000"

definition double_minus_two :: "64 word" where
  "double_minus_two = 0xC000000000000000"

definition double_half :: "64 word" where
  "double_half = 0x3FE0000000000000"

text \<open>Lines 148 to 192: the normal equations matrix and the unit quaternion.\<close>

definition svd_normal_equations :: "fpu \<Rightarrow> (regs \<Rightarrow> regs) list" where
  "svd_normal_equations ops =
     [set_f Ss11 (\<lambda>r. fmul ops (r Sa11) (r Sa11)),
      set_f Stmp1 (\<lambda>r. fmul ops (r Sa21) (r Sa21)),
      set_f Ss11 (\<lambda>r. dadd_rn ops (r Stmp1) (r Ss11)),
      set_f Stmp1 (\<lambda>r. fmul ops (r Sa31) (r Sa31)),
      set_f Ss11 (\<lambda>r. dadd_rn ops (r Stmp1) (r Ss11)),
      set_f Ss21 (\<lambda>r. fmul ops (r Sa12) (r Sa11)),
      set_f Stmp1 (\<lambda>r. fmul ops (r Sa22) (r Sa21)),
      set_f Ss21 (\<lambda>r. dadd_rn ops (r Stmp1) (r Ss21)),
      set_f Stmp1 (\<lambda>r. fmul ops (r Sa32) (r Sa31)),
      set_f Ss21 (\<lambda>r. dadd_rn ops (r Stmp1) (r Ss21)),
      set_f Ss31 (\<lambda>r. fmul ops (r Sa13) (r Sa11)),
      set_f Stmp1 (\<lambda>r. fmul ops (r Sa23) (r Sa21)),
      set_f Ss31 (\<lambda>r. dadd_rn ops (r Stmp1) (r Ss31)),
      set_f Stmp1 (\<lambda>r. fmul ops (r Sa33) (r Sa31)),
      set_f Ss31 (\<lambda>r. dadd_rn ops (r Stmp1) (r Ss31)),
      set_f Ss22 (\<lambda>r. fmul ops (r Sa12) (r Sa12)),
      set_f Stmp1 (\<lambda>r. fmul ops (r Sa22) (r Sa22)),
      set_f Ss22 (\<lambda>r. dadd_rn ops (r Stmp1) (r Ss22)),
      set_f Stmp1 (\<lambda>r. fmul ops (r Sa32) (r Sa32)),
      set_f Ss22 (\<lambda>r. dadd_rn ops (r Stmp1) (r Ss22)),
      set_f Ss32 (\<lambda>r. fmul ops (r Sa13) (r Sa12)),
      set_f Stmp1 (\<lambda>r. fmul ops (r Sa23) (r Sa22)),
      set_f Ss32 (\<lambda>r. dadd_rn ops (r Stmp1) (r Ss32)),
      set_f Stmp1 (\<lambda>r. fmul ops (r Sa33) (r Sa32)),
      set_f Ss32 (\<lambda>r. dadd_rn ops (r Stmp1) (r Ss32)),
      set_f Ss33 (\<lambda>r. fmul ops (r Sa13) (r Sa13)),
      set_f Stmp1 (\<lambda>r. fmul ops (r Sa23) (r Sa23)),
      set_f Ss33 (\<lambda>r. dadd_rn ops (r Stmp1) (r Ss33)),
      set_f Stmp1 (\<lambda>r. fmul ops (r Sa33) (r Sa33)),
      set_f Ss33 (\<lambda>r. dadd_rn ops (r Stmp1) (r Ss33)),
      set_f Sqvs (\<lambda>r. double_one),
      set_f Sqvvx (\<lambda>r. double_zero),
      set_f Sqvvy (\<lambda>r. double_zero),
      set_f Sqvvz (\<lambda>r. double_zero)]"

text \<open>Lines 198 to 298: first conjugation of a sweep.\<close>

definition jacobi_conjugation_a :: "fpu \<Rightarrow> (regs \<Rightarrow> regs) list" where
  "jacobi_conjugation_a ops =
     [set_f Ssh (\<lambda>r. fmul ops (r Ss21) double_half),
      set_f Stmp5 (\<lambda>r. dsub_rn ops (r Ss11) (r Ss22)),
      set_f Stmp2 (\<lambda>r. fmul ops (r Ssh) (r Ssh)),
      set_ui Stmp1 (\<lambda>r. if fge ops (r Stmp2) gtiny_number_double then 0xffffffff else 0),
      set_ui Ssh (\<lambda>r. (ui r Stmp1) AND (ui r Ssh)),
      set_ui Sch (\<lambda>r. (ui r Stmp1) AND (ui r Stmp5)),
      set_ui Stmp2 (\<lambda>r. NOT (ui r Stmp1) AND gone),
      set_ui Sch (\<lambda>r. (ui r Sch) OR (ui r Stmp2)),
      set_f Stmp1 (\<lambda>r. fmul ops (r Ssh) (r Ssh)),
      set_f Stmp2 (\<lambda>r. fmul ops (r Sch) (r Sch)),
      set_f Stmp3 (\<lambda>r. dadd_rn ops (r Stmp1) (r Stmp2)),
      set_f Stmp4 (\<lambda>r. drcp_rn ops (dsqrt_rn ops (r Stmp3))),
      set_f Ssh (\<lambda>r. fmul ops (r Stmp4) (r Ssh)),
      set_f Sch (\<lambda>r. fmul ops (r Stmp4) (r Sch)),
      set_f Stmp1 (\<lambda>r. fmul ops gfour_gamma_squared_double (r Stmp1)),
      set_ui Stmp1 (\<lambda>r. if fle ops (r Stmp2) (r Stmp1) then 0xffffffff else 0),
      set_ui Stmp2 (\<lambda>r. gsine_pi_over_eight AND (ui r Stmp1)),
      set_ui Ssh (\<lambda>r. NOT (ui r Stmp1) AND (ui r Ssh)),
      set_ui Ssh (\<lambda>r. (ui r Ssh) OR (ui r Stmp2)),
      set_ui Stmp2 (\<lambda>r. gcosine_pi_over_eight AND (ui r Stmp1)),
      set_ui Sch (\<lambda>r. NOT (ui r Stmp1) AND (ui r Sch)),
      set_ui Sch (\<lambda>r. (ui r Sch) OR (ui r Stmp2)),
      set_f Stmp1 (\<lambda>r. fmul ops (r Ssh) (r Ssh)),
      set_f Stmp2 (\<lambda>r. fmul ops (r Sch) (r Sch)),
      set_f Sc (\<lambda>r. dsub_rn ops (r Stmp2) (r Stmp1)),
      set_f Ss (\<lambda>r. fmul ops (r Sch) (r Ssh)),
      set_f Ss (\<lambda>r. dadd_rn ops (r Ss) (r Ss)),
      set_f Stmp3 (\<lambda>r. dadd_rn ops (r Stmp1) (r Stmp2)),
      set_f Ss33 (\<lambda>r. fmul ops (r Ss33) (r Stmp3)),
      set_f Ss31 (\<lambda>r. fmul ops (r Ss31) (r Stmp3)),
      set_f Ss32 (\<lambda>r. fmul ops (r Ss32) (r Stmp3)),
      set_f Ss33 (\<lambda>r. fmul ops (r Ss33) (r Stmp3)),
      set_f Stmp1 (\<lambda>r. fmul ops (r Ss) (r Ss31)),
      set_f Stmp2 (\<lambda>r. fmul ops (r Ss) (r Ss32)),
      set_f Ss31 (\<lambda>r. fmul ops (r Sc) (r Ss31)),
      set_f Ss32 (\<lambda>r. fmul ops (r Sc) (r Ss32)),
      set_f Ss31 (\<lambda>r. dadd_rn ops (r Stmp2) (r Ss31)),
      set_f Ss32 (\<lambda>r. dsub_rn ops (r Ss32) (r Stmp1)),
      set_f Stmp2 (\<lambda>r. fmul ops (r Ss) (r Ss)),
      set_f Stmp1 (\<lambda>r. fmul ops (r Ss22) (r Stmp2)),
      set_f Stmp3 (\<lambda>r. fmul ops (r Ss11) (r Stmp2)),
      set_f Stmp4 (\<lambda>r. fmul ops (r Sc) (r Sc)),
      set_f Ss11 (\<lambda>r. fmul ops (r Ss11) (r Stmp4)),
      set_f Ss22 (\<lambda>r. fmul ops (r Ss22) (r Stmp4)),
      set_f Ss11 (\<lambda>r. dadd_rn ops (r Ss11) (r Stmp1)),
      set_f Ss22 (\<lambda>r. dadd_rn ops (r Ss22) (r Stmp3)),
      set_f Stmp4 (\<lambda>r. dsub_rn ops (r Stmp4) (r Stmp2)),
      set_f Stmp2 (\<lambda>r. dadd_rn ops (r Ss21) (r Ss21)),
      set_f Ss21 (\<lambda>r. fmul ops (r Ss21) (r Stmp4)),
      set_f Stmp4 (\<lambda>r. fmul ops (r Sc) (r Ss)),
      set_f Stmp2 (\<lambda>r. fmul ops (r Stmp2) (r Stmp4)),
      set_f Stmp5 (\<lambda>r. fmul ops (r Stmp5) (r Stmp4)),
      set_f Ss11 (\<lambda>r. dadd_rn ops (r Ss11) (r Stmp2)),
      set_f Ss21 (\<lambda>r. dsub_rn ops (r Ss21) (r Stmp5)),
      set_f Ss22 (\<lambda>r. dsub_rn ops (r Ss22) (r Stmp2)),
      set_f Stmp1 (\<lambda>r. fmul ops (r Ssh) (r Sqvvx)),
      set_f Stmp2 (\<lambda>r. fmul ops (r Ssh) (r Sqvvy)),
      set_f Stmp3 (\<lambda>r. fmul ops (r Ssh) (r Sqvvz)),
      set_f Ssh (\<lambda>r. fmul ops (r Ssh) (r Sqvs)),
      set_f Sqvs (\<lambda>r. fmul ops (r Sch) (r Sqvs)),
      set_f Sqvvx (\<lambda>r. fmul ops (r Sch) (r Sqvvx)),
      set_f Sqvvy (\<lambda>r. fmul ops (r Sch) (r Sqvvy)),
      set_f Sqvvz (\<lambda>r. fmul ops (r Sch) (r Sqvvz)),
      set_f Sqvvz (\<lambda>r. dadd_rn ops (r Sqvvz) (r Ssh)),
      set_f Sqvs (\<lambda>r. dsub_rn ops (r Sqvs) (r Stmp3)),
      set_f Sqvvx (\<lambda>r. dadd_rn ops (r Sqvvx) (r Stmp2)),
      set_f Sqvvy (\<lambda>r. dsub_rn ops (r Sqvvy) (r Stmp1))]"

text \<open>Lines 299 to 404: second conjugation of a sweep, marked (1->3).\<close>

definition jacobi_conjugation_b :: "fpu \<Rightarrow> (regs \<Rightarrow> regs) list" where
  "jacobi_conjugation_b ops =
     [set_f Ssh (\<lambda>r. fmul ops (r Ss32) double_half),
      set_f Stmp5 (\<lambda>r. dsub_rn ops (r Ss22) (r Ss33)),
      set_f Stmp2 (\<lambda>r. fmul ops (r Ssh) (r Ssh)),
      set_ui Stmp1 (\<lambda>r. if fge ops (r Stmp2) gtiny_number_double then 0xffffffff else 0),
      set_ui Ssh (\<lambda>r. (ui r Stmp1) AND (ui r Ssh)),
      set_ui Sch (\<lambda>r. (ui r Stmp1) AND (ui r Stmp5)),
      set_ui Stmp2 (\<lambda>r. NOT (ui r Stmp1) AND gone),
      set_ui Sch (\<lambda>r. (ui r Sch) OR (ui r Stmp2)),
      set_f Stmp1 (\<lambda>r. fmul ops (r Ssh) (r Ssh)),
      set_f Stmp2 (\<lambda>r. fmul ops (r Sch) (r Sch)),
      set_f Stmp3 (\<lambda>r. dadd_rn ops (r Stmp1) (r Stmp2)),
      set_f Stmp4 (\<lambda>r. drcp_rn ops (dsqrt_rn ops (r Stmp3))),
      set_f Ssh (\<lambda>r. fmul ops (r Stmp4) (r Ssh)),
      set_f Sch (\<lambda>r. fmul ops (r Stmp4) (r Sch)),
      set_f Stmp1 (\<lambda>r. fmul ops gfour_gamma_squared_double (r Stmp1)),
      set_ui Stmp1 (\<lambda>r. if fle ops (r Stmp2) (r Stmp1) then 0xffffffff else 0),
      set_ui Stmp2 (\<lambda>r. gsine_pi_over_eight AND (ui r Stmp1)),
      set_ui Ssh (\<lambda>r. NOT (ui r Stmp1) AND (ui r Ssh)),
      set_ui Ssh (\<lambda>r. (ui r Ssh) OR (ui r Stmp2)),
      set_ui Stmp2 (\<lambda>r. gcosine_pi_over_eight AND (ui r Stmp1)),
      set_ui Sch (\<lambda>r. NOT (ui r Stmp1) AND (ui r Sch)),
      set_ui Sch (\<lambda>r. (ui r Sch) OR (ui r Stmp2)),
      set_f Stmp1 (\<lambda>r. fmul ops (r Ssh) (r Ssh)),
      set_f Stmp2 (\<lambda>r. fmul ops (r Sch) (r Sch)),
      set_f Sc (\<lambda>r. dsub_rn ops (r Stmp2) (r Stmp1)),
      set_f Ss (\<lambda>r. fmul ops (r Sch) (r Ssh)),
      set_f Ss (\<lambda>r. dadd_rn ops (r Ss) (r Ss)),
      set_f Stmp3 (\<lambda>r. dadd_rn ops (r Stmp1) (r Stmp2)),
      set_f Ss11 (\<lambda>r. fmul ops (r Ss11) (r Stmp3)),
      set_f Ss21 (\<lambda>r. fmul ops (r Ss21) (r Stmp3)),
      set_f Ss31 (\<lambda>r. fmul ops (r Ss31) (r Stmp3)),
      set_f Ss11 (\<lambda>r. fmul ops (r Ss11) (r Stmp3)),
      set_f Stmp1 (\<lambda>r. fmul ops (r Ss) (r Ss21)),
      set_f Stmp2 (\<lambda>r. fmul ops (r Ss) (r Ss31)),
      set_f Ss21 (\<lambda>r. fmul ops (r Sc) (r Ss21)),
      set_f Ss31 (\<lambda>r. fmul ops (r Sc) (r Ss31)),
      set_f Ss21 (\<lambda>r. dadd_rn ops (r Stmp2) (r Ss21)),
      set_f Ss31 (\<lambda>r. dsub_rn ops (r Ss31) (r Stmp1)),
      set_f Stmp2 (\<lambda>r. fmul ops (r Ss) (r Ss)),
      set_f Stmp1 (\<lambda>r. fmul ops (r Ss33) (r Stmp2)),
      set_f Stmp3 (\<lambda>r. fmul ops (r Ss22) (r Stmp2)),
      set_f Stmp4 (\<lambda>r. fmul ops (r Sc) (r Sc)),
      set_f Ss22 (\<lambda>r. fmul ops (r Ss22) (r Stmp4)),
      set_f Ss33 (\<lambda>r. fmul ops (r Ss33) (r Stmp4)),
      set_f Ss22 (\<lambda>r. dadd_rn ops (r Ss22) (r Stmp1)),
      set_f Ss33 (\<lambda>r. dadd_rn ops (r Ss33) (r Stmp3)),
      set_f Stmp4 (\<lambda>r. dsub_rn ops (r Stmp4) (r Stmp2)),
      set_f Stmp2 (\<lambda>r. dadd_rn ops (r Ss32) (r Ss32)),
      set_f Ss32 (\<lambda>r. fmul ops (r Ss32) (r Stmp4)),
      set_f Stmp4 (\<lambda>r. fmul ops (r Sc) (r Ss)),
      set_f Stmp2 (\<lambda>r. fmul ops (r Stmp2) (r Stmp4)),
      set_f Stmp5 (\<lambda>r. fmul ops (r Stmp5) (r Stmp4)),
      set_f Ss22 (\<lambda>r. dadd_rn ops (r Ss22) (r Stmp2)),
      set_f Ss32 (\<lambda>r. dsub_rn ops (r Ss32) (r Stmp5)),
      set_f Ss33 (\<lambda>r. dsub_rn ops (r Ss33) (r Stmp2)),
      set_f Stmp1 (\<lambda>r. fmul ops (r Ssh) (r Sqvvx)),
      set_f Stmp2 (\<lambda>r. fmul ops (r Ssh) (r Sqvvy)),
      set_f Stmp3 (\<lambda>r. fmul ops (r Ssh) (r Sqvvz)),
      set_f Ssh (\<lambda>r. fmul ops (r Ssh) (r Sqvs)),
      set_f Sqvs (\<lambda>r. fmul ops (r Sch) (r Sqvs)),
      set_f Sqvvx (\<lambda>r. fmul ops (r Sch) (r Sqvvx)),
      set_f Sqvvy (\<lambda>r. fmul ops (r Sch) (r Sqvvy)),
      set_f Sqvvz (\<lambda>r. fmul ops (r Sch) (r Sqvvz)),
      set_f Sqvvx (\<lambda>r. dadd_rn ops (r Sqvvx) (r Ssh)),
      set_f Sqvs (\<lambda>r. dsub_rn ops (r Sqvs) (r Stmp1)),
      set_f Sqvvy (\<lambda>r. dadd_rn ops (r Sqvvy) (r Stmp3)),
      set_f Sqvvz (\<lambda>r. dsub_rn ops (r Sqvvz) (r Stmp2))]"

text \<open>Lines 405 to 507: third conjugation of a sweep, marked 1 -> 2.\<close>

definition jacobi_conjugation_c :: "fpu \<Rightarrow> (regs \<Rightarrow> regs) list" where
  "jacobi_conjugation_c ops =
     [set_f Ssh (\<lambda>r. fmul ops (r Ss31) double_half),
      set_f Stmp5 (\<lambda>r. dsub_rn ops (r Ss33) (r Ss11)),
      set_f Stmp2 (\<lambda>r. fmul ops (r Ssh) (r Ssh)),
      set_ui Stmp1 (\<lambda>r. if fge ops (r Stmp2) gtiny_number_double then 0xffffffff else 0),
      set_ui Ssh (\<lambda>r. (ui r Stmp1) AND (ui r Ssh)),
      set_ui Sch (\<lambda>r. (ui r Stmp1) AND (ui r Stmp5)),
      set_ui Stmp2 (\<lambda>r. NOT (ui r Stmp1) AND gone),
      set_ui Sch (\<lambda>r. (ui r Sch) OR (ui r Stmp2)),
      set_f Stmp1 (\<lambda>r. fmul ops (r Ssh) (r Ssh)),
      set_f Stmp2 (\<lambda>r. fmul ops (r Sch) (r Sch)),
      set_f Stmp3 (\<lambda>r. dadd_rn ops (r Stmp1) (r Stmp2)),
      set_f Stmp4 (\<lambda>r. drcp_rn ops (dsqrt_rn ops (r Stmp3))),
      set_f Ssh (\<lambda>r. fmul ops (r Stmp4) (r Ssh)),
      set_f Sch (\<lambda>r. fmul ops (r Stmp4) (r Sch)),
      set_f Stmp1 (\<lambda>r. fmul ops gfour_gamma_squared_double (r Stmp1)),
      set_ui Stmp1 (\<lambda>r. if fle ops (r Stmp2) (r Stmp1) then 0xffffffff else 0),
      set_ui Stmp2 (\<lambda>r. gsine_pi_over_eight AND (ui r Stmp1)),
      set_ui Ssh (\<lambda>r. NOT (ui r Stmp1) AND (ui r Ssh)),
      set_ui Ssh (\<lambda>r. (ui r Ssh) OR (ui r Stmp2)),
      set_ui Stmp2 (\<lambda>r. gcosine_pi_over_eight AND (ui r Stmp1)),
      set_ui Sch (\<lambda>r. NOT (ui r Stmp1) AND (ui r Sch)),
      set_ui Sch (\<lambda>r. (ui r Sch) OR (ui r Stmp2)),
      set_f Stmp1 (\<lambda>r. fmul ops (r Ssh) (r Ssh)),
      set_f Stmp2 (\<lambda>r. fmul ops (r Sch) (r Sch)),
      set_f Sc (\<lambda>r. dsub_rn ops (r Stmp2) (r Stmp1)),
      set_f Ss (\<lambda>r. fmul ops (r Sch) (r Ssh)),
      set_f Ss (\<lambda>r. dadd_rn ops (r Ss) (r Ss)),
      set_f Stmp3 (\<lambda>r. dadd_rn ops (r Stmp1) (r Stmp2)),
      set_f Ss22 (\<lambda>r. fmul ops (r Ss22) (r Stmp3)),
      set_f Ss32 (\<lambda>r. fmul ops (r Ss32) (r Stmp3)),
      set_f Ss21 (\<lambda>r. fmul ops (r Ss21) (r Stmp3)),
      set_f Ss22 (\<lambda>r. fmul ops (r Ss22) (r Stmp3)),
      set_f Stmp1 (\<lambda>r. fmul ops (r Ss) (r Ss32)),
      set_f Stmp2 (\<lambda>r. fmul ops (r Ss) (r Ss21)),
      set_f Ss32 (\<lambda>r. fmul ops (r Sc) (r Ss32)),
      set_f Ss21 (\<lambda>r. fmul ops (r Sc) (r Ss21)),
      set_f Ss32 (\<lambda>r. dadd_rn ops (r Stmp2) (r Ss32)),
      set_f Ss21 (\<lambda>r. dsub_rn ops (r Ss21) (r Stmp1)),
      set_f Stmp2 (\<lambda>r. fmul ops (r Ss) (r Ss)),
      set_f Stmp1 (\<lambda>r. fmul ops (r Ss11) (r Stmp2)),
      set_f Stmp3 (\<lambda>r. fmul ops (r Ss33) (r Stmp2)),
      set_f Stmp4 (\<lambda>r. fmul ops (r Sc) (r Sc)),
      set_f Ss33 (\<lambda>r. fmul ops (r Ss33) (r Stmp4)),
      set_f Ss11 (\<lambda>r. fmul ops (r Ss11) (r Stmp4)),
      set_f Ss33 (\<lambda>r. dadd_rn ops (r Ss33) (r Stmp1)),
      set_f Ss11 (\<lambda>r. dadd_rn ops (r Ss11) (r Stmp3)),
      set_f Stmp4 (\<lambda>r. dsub_rn ops (r Stmp4) (r Stmp2)),
      set_f Stmp2 (\<lambda>r. dadd_rn ops (r Ss31) (r Ss31)),
      set_f Ss31 (\<lambda>r. fmul ops (r Ss31) (r Stmp4)),
      set_f Stmp4 (\<lambda>r. fmul ops (r Sc) (r Ss)),
      set_f Stmp2 (\<lambda>r. fmul ops (r Stmp2) (r Stmp4)),
      set_f Stmp5 (\<lambda>r. fmul ops (r Stmp5) (r Stmp4)),
      set_f Ss33 (\<lambda>r. dadd_rn ops (r Ss33) (r Stmp2)),
      set_f Ss31 (\<lambda>r. dsub_rn ops (r Ss31) (r Stmp5)),
      set_f Ss11 (\<lambda>r. dsub_rn ops (r Ss11) (r Stmp2)),
      set_f Stmp1 (\<lambda>r. fmul ops (r Ssh) (r Sqvvx)),
      set_f Stmp2 (\<lambda>r. fmul ops (r Ssh) (r Sqvvy)),
      set_f Stmp3 (\<lambda>r. fmul ops (r Ssh) (r Sqvvz)),
      set_f Ssh (\<lambda>r. fmul ops (r Ssh) (r Sqvs)),
      set_f Sqvs (\<lambda>r. fmul ops (r Sch) (r Sqvs)),
      set_f Sqvvx (\<lambda>r. fmul ops (r Sch) (r Sqvvx)),
      set_f Sqvvy (\<lambda>r. fmul ops (r Sch) (r Sqvvy)),
      set_f Sqvvz (\<lambda>r. fmul ops (r Sch) (r Sqvvz)),
      set_f Sqvvy (\<lambda>r. dadd_rn ops (r Sqvvy) (r Ssh)),
      set_f Sqvs (\<lambda>r. dsub_rn ops (r Sqvs) (r Stmp2)),
      set_f Sqvvz (\<lambda>r. dadd_rn ops (r Sqvvz) (r Stmp1)),
      set_f Sqvvx (\<lambda>r. dsub_rn ops (r Sqvvx) (r Stmp3))]"

text \<open>Lines 510 to 535: normalize the quaternion for V.\<close>

definition svd_normalize_quaternion :: "fpu \<Rightarrow> (regs \<Rightarrow> regs) list" where
  "svd_normalize_quaternion ops =
     [set_f Stmp2 (\<lambda>r. fmul ops (r Sqvs) (r Sqvs)),
      set_f Stmp1 (\<lambda>r. fmul ops (r Sqvvx) (r Sqvvx)),
      set_f Stmp2 (\<lambda>r. dadd_rn ops (r Stmp1) (r Stmp2)),
      set_f Stmp1 (\<lambda>r. fmul ops (r Sqvvy) (r Sqvvy)),
      set_f Stmp2 (\<lambda>r. dadd_rn ops (r Stmp1) (r Stmp2)),
      set_f Stmp1 (\<lambda>r. fmul ops (r Sqvvz) (r Sqvvz)),
      set_f Stmp2 (\<lambda>r. dadd_rn ops (r Stmp1) (r Stmp2)),
      set_f Stmp1 (\<lambda>r. drcp_rn ops (dsqrt_rn ops (r Stmp2))),
      set_f Stmp4 (\<lambda>r. fmul ops (r Stmp1) double_half),
      set_f Stmp3 (\<lambda>r. fmul ops (r Stmp1) (r Stmp4)),
      set_f Stmp3 (\<lambda>r. fmul ops (r Stmp1) (r Stmp3)),
      set_f Stmp3 (\<lambda>r. fmul ops (r Stmp2) (r Stmp3)),
      set_f Stmp1 (\<lambda>r. dadd_rn ops (r Stmp1) (r Stmp4)),
      set_f Stmp1 (\<lambda>r. dsub_rn ops (r Stmp1) (r Stmp3)),
      set_f Sqvs (\<lambda>r. fmul ops (r Sqvs) (r Stmp1)),
      set_f Sqvvx (\<lambda>r. fmul ops (r Sqvvx) (r Stmp1)),
      set_f Sqvvy (\<lambda>r. fmul ops (r Sqvvy) (r Stmp1)),
      set_f Sqvvz (\<lambda>r. fmul ops (r Sqvvz) (r Stmp1))]"

text \<open>Lines 536 to 567: transform the quaternion to the matrix V.\<close>

definition svd_quaternion_to_matrix :: "fpu \<Rightarrow> (regs \<Rightarrow> regs) list" where
  "svd_quaternion_to_matrix ops =
     [set_f Stmp1 (\<lambda>r. fmul ops (r Sqvvx) (r Sqvvx)),
      set_f Stmp2 (\<lambda>r. fmul ops (r Sqvvy) (r Sqvvy)),
      set_f Stmp3 (\<lambda>r. fmul ops (r Sqvvz) (r Sqvvz)),
      set_f Sv11 (\<lambda>r. fmul ops (r Sqvs) (r Sqvs)),
      set_f Sv22 (\<lambda>r. dsub_rn ops (r Sv11) (r Stmp1)),
      set_f Sv33 (\<lambda>r. dsub_rn ops (r Sv22) (r Stmp2)),
      set_f Sv33 (\<lambda>r. dadd_rn ops (r Sv33) (r Stmp3)),
      set_f Sv22 (\<lambda>r. dadd_rn ops (r Sv22) (r Stmp2)),
      set_f Sv22 (\<lambda>r. dsub_rn ops (r Sv22) (r Stmp3)),
      set_f Sv11 (\<lambda>r. dadd_rn ops (r Sv11) (r Stmp1)),
      set_f Sv11 (\<lambda>r. dsub_rn ops (r Sv11) (r Stmp2)),
      set_f Sv11 (\<lambda>r. dsub_rn ops (r Sv11) (r Stmp3)),
      set_f Stmp1 (\<lambda>r. dadd_rn ops (r Sqvvx) (r Sqvvx)),
      set_f Stmp2 (\<lambda>r. dadd_rn ops (r Sqvvy) (r Sqvvy)),
      set_f Stmp3 (\<lambda>r. dadd_rn ops (r Sqvvz) (r Sqvvz)),
      set_f Sv32 (\<lambda>r. fmul ops (r Sqvs) (r Stmp1)),
      set_f Sv13 (\<lambda>r. fmul ops (r Sqvs) (r Stmp2)),
      set_f Sv21 (\<lambda>r. fmul ops (r Sqvs) (r Stmp3)),
      set_f Stmp1 (\<lambda>r. fmul ops (r Sqvvy) (r Stmp1)),
      set_f Stmp2 (\<lambda>r. fmul ops (r Sqvvz) (r Stmp2)),
      set_f Stmp3 (\<lambda>r. fmul ops (r Sqvvx) (r Stmp3)),
      set_f Sv12 (\<lambda>r. dsub_rn ops (r Stmp1) (r Sv21)),
      set_f Sv23 (\<lambda>r. dsub_rn ops (r Stmp2) (r Sv32)),
      set_f Sv31 (\<lambda>r. dsub_rn ops (r Stmp3) (r Sv13)),
      set_f Sv21 (\<lambda>r. dadd_rn ops (r Stmp1) (r Sv21)),
      set_f Sv32 (\<lambda>r. dadd_rn ops (r Stmp2) (r Sv32)),
      set_f Sv13 (\<lambda>r. dadd_rn ops (r Stmp3) (r Sv13))]"

text \<open>Lines 568 to 625: multiply A from the right with V.\<close>

definition svd_multiply_with_V :: "fpu \<Rightarrow> (regs \<Rightarrow> regs) list" where
  "svd_multiply_with_V ops =
     [set_f Stmp2 (\<lambda>r. r Sa12),
      set_f Stmp3 (\<lambda>r. r Sa13),
      set_f Sa12 (\<lambda>r. fmul ops (r Sv12) (r Sa11)),
      set_f Sa13 (\<lambda>r. fmul ops (r Sv13) (r Sa11)),
      set_f Sa11 (\<lambda>r. fmul ops (r Sv11) (r Sa11)),
      set_f Stmp1 (\<lambda>r. fmul ops (r Sv21) (r Stmp2)),
      set_f Sa11 (\<lambda>r. dadd_rn ops (r Sa11) (r Stmp1)),
      set_f Stmp1 (\<lambda>r. fmul ops (r Sv31) (r Stmp3)),
      set_f Sa11 (\<lambda>r. dadd_rn ops (r Sa11) (r Stmp1)),
      set_f Stmp1 (\<lambda>r. fmul ops (r Sv22) (r Stmp2)),
      set_f Sa12 (\<lambda>r. dadd_rn ops (r Sa12) (r Stmp1)),
      set_f Stmp1 (\<lambda>r. fmul ops (r Sv32) (r Stmp3)),
      set_f Sa12 (\<lambda>r. dadd_rn ops (r Sa12) (r Stmp1)),
      set_f Stmp1 (\<lambda>r. fmul ops (r Sv23) (r Stmp2)),
      set_f Sa13 (\<lambda>r. dadd_rn ops (r Sa13) (r Stmp1)),
      set_f Stmp1 (\<lambda>r. fmul ops (r Sv33) (r Stmp3)),
      set_f Sa13 (\<lambda>r. dadd_rn ops (r Sa13) (r Stmp1)),
      set_f Stmp2 (\<lambda>r. r Sa22),
      set_f Stmp3 (\<lambda>r. r Sa23),
      set_f Sa22 (\<lambda>r. fmul ops (r Sv12) (r Sa21)),
      set_f Sa23 (\<lambda>r. fmul ops (r Sv13) (r Sa21)),
      set_f Sa21 (\<lambda>r. fmul ops (r Sv11) (r Sa21)),
      set_f Stmp1 (\<lambda>r. fmul ops (r Sv21) (r Stmp2)),
      set_f Sa21 (\<lambda>r. dadd_rn ops (r Sa21) (r Stmp1)),
      set_f Stmp1 (\<lambda>r. fmul ops (r Sv31) (r Stmp3)),
      set_f Sa21 (\<lambda>r. dadd_rn ops (r Sa21) (r Stmp1)),
      set_f Stmp1 (\<lambda>r. fmul ops (r Sv22) (r Stmp2)),
      set_f Sa22 (\<lambda>r. dadd_rn ops (r Sa22) (r Stmp1)),
      set_f Stmp1 (\<lambda>r. fmul ops (r Sv32) (r Stmp3)),
      set_f Sa22 (\<lambda>r. dadd_rn ops (r Sa22) (r Stmp1)),
      set_f Stmp1 (\<lambda>r. fmul ops (r Sv23) (r Stmp2)),
      set_f Sa23 (\<lambda>r. dadd_rn ops (r Sa23) (r Stmp1)),
      set_f Stmp1 (\<lambda>r. fmul ops (r Sv33) (r Stmp3)),
      set_f Sa23 (\<lambda>r. dadd_rn ops (r Sa23) (r Stmp1)),
      set_f Stmp2 (\<lambda>r. r Sa32),
      set_f Stmp3 (\<lambda>r. r Sa33),
      set_f Sa32 (\<lambda>r. fmul ops (r Sv12) (r Sa31)),
      set_f Sa33 (\<lambda>r. fmul ops (r Sv13) (r Sa31)),
      set_f Sa31 (\<lambda>r. fmul ops (r Sv11) (r Sa31)),
      set_f Stmp1 (\<lambda>r. fmul ops (r Sv21) (r Stmp2)),
      set_f Sa31 (\<lambda>r. dadd_rn ops (r Sa31) (r Stmp1)),
      set_f Stmp1 (\<lambda>r. fmul ops (r Sv31) (r Stmp3)),
      set_f Sa31 (\<lambda>r. dadd_rn ops (r Sa31) (r Stmp1)),
      set_f Stmp1 (\<lambda>r. fmul ops (r Sv22) (r Stmp2)),
      set_f Sa32 (\<lambda>r. dadd_rn ops (r Sa32) (r Stmp1)),
      set_f Stmp1 (\<lambda>r. fmul ops (r Sv32) (r Stmp3)),
      set_f Sa32 (\<lambda>r. dadd_rn ops (r Sa32) (r Stmp1)),
      set_f Stmp1 (\<lambda>r. fmul ops (r Sv23) (r Stmp2)),
      set_f Sa33 (\<lambda>r. dadd_rn ops (r Sa33) (r Stmp1)),
      set_f Stmp1 (\<lambda>r. fmul ops (r Sv33) (r Stmp3)),
      set_f Sa33 (\<lambda>r. dadd_rn ops (r Sa33) (r Stmp1))]"

text \<open>Lines 626 to 809: permute the columns so that the singular values are sorted.\<close>

definition svd_sort_columns :: "fpu \<Rightarrow> (regs \<Rightarrow> regs) list" where
  "svd_sort_columns ops =
     [set_f Stmp1 (\<lambda>r. fmul ops (r Sa11) (r Sa11)),
      set_f Stmp4 (\<lambda>r. fmul ops (r Sa21) (r Sa21)),
      set_f Stmp1 (\<lambda>r. dadd_rn ops (r Stmp1) (r Stmp4)),
      set_f Stmp4 (\<lambda>r. fmul ops (r Sa31) (r Sa31)),
      set_f Stmp1 (\<lambda>r. dadd_rn ops (r Stmp1) (r Stmp4)),
      set_f Stmp2 (\<lambda>r. fmul ops (r Sa12) (r Sa12)),
      set_f Stmp4 (\<lambda>r. fmul ops (r Sa22) (r Sa22)),
      set_f Stmp2 (\<lambda>r. dadd_rn ops (r Stmp2) (r Stmp4)),
      set_f Stmp4 (\<lambda>r. fmul ops (r Sa32) (r Sa32)),
      set_f Stmp2 (\<lambda>r. dadd_rn ops (r Stmp2) (r Stmp4)),
      set_f Stmp3 (\<lambda>r. fmul ops (r Sa13) (r Sa13)),
      set_f Stmp4 (\<lambda>r. fmul ops (r Sa23) (r Sa23)),
      set_f Stmp3 (\<lambda>r. dadd_rn ops (r Stmp3) (r Stmp4)),
      set_f Stmp4 (\<lambda>r. fmul ops (r Sa33) (r Sa33)),
      set_f Stmp3 (\<lambda>r. dadd_rn ops (r Stmp3) (r Stmp4)),
      set_ui Stmp4 (\<lambda>r. if flt ops (r Stmp1) (r Stmp2) then 0xffffffff else 0),
      set_ui Stmp5 (\<lambda>r. (ui r Sa11) XOR (ui r Sa12)),
      set_ui Stmp5 (\<lambda>r. (ui r Stmp5) AND (ui r Stmp4)),
      set_ui Sa11 (\<lambda>r. (ui r Sa11) XOR (ui r Stmp5)),
      set_ui Sa12 (\<lambda>r. (ui r Sa12) XOR (ui r Stmp5)),
      set_ui Stmp5 (\<lambda>r. (ui r Sa21) XOR (ui r Sa22)),
      set_ui Stmp5 (\<lambda>r. (ui r Stmp5) AND (ui r Stmp4)),
      set_ui Sa21 (\<lambda>r. (ui r Sa21) XOR (ui r Stmp5)),
      set_ui Sa22 (\<lambda>r. (ui r Sa22) XOR (ui r Stmp5)),
      set_ui Stmp5 (\<lambda>r. (ui r Sa31) XOR (ui r Sa32)),
      set_ui Stmp5 (\<lambda>r. (ui r Stmp5) AND (ui r Stmp4)),
      set_ui Sa31 (\<lambda>r. (ui r Sa31) XOR (ui r Stmp5)),
      set_ui Sa32 (\<lambda>r. (ui r Sa32) XOR (ui r Stmp5)),
      set_ui Stmp5 (\<lambda>r. (ui r Sv11) XOR (ui r Sv12)),
      set_ui Stmp5 (\<lambda>r. (ui r Stmp5) AND (ui r Stmp4)),
      set_ui Sv11 (\<lambda>r. (ui r Sv11) XOR (ui r Stmp5)),
      set_ui Sv12 (\<lambda>r. (ui r Sv12) XOR (ui r Stmp5)),
      set_ui Stmp5 (\<lambda>r. (ui r Sv21) XOR (ui r Sv22)),
      set_ui Stmp5 (\<lambda>r. (ui r Stmp5) AND (ui r Stmp4)),
      set_ui Sv21 (\<lambda>r. (ui r Sv21) XOR (ui r Stmp5)),
      set_ui Sv22 (\<lambda>r. (ui r Sv22) XOR (ui r Stmp5)),
      set_ui Stmp5 (\<lambda>r. (ui r Sv31) XOR (ui r Sv32)),
      set_ui Stmp5 (\<lambda>r. (ui r Stmp5) AND (ui r Stmp4)),
      set_ui Sv31 (\<lambda>r. (ui r Sv31) XOR (ui r Stmp5)),
      set_ui Sv32 (\<lambda>r. (ui r Sv32) XOR (ui r Stmp5)),
      set_ui Stmp5 (\<lambda>r. (ui r Stmp1) XOR (ui r Stmp2)),
      set_ui Stmp5 (\<lambda>r. (ui r Stmp5) AND (ui r Stmp4)),
      set_ui Stmp1 (\<lambda>r. (ui r Stmp1) XOR (ui r Stmp5)),
      set_ui Stmp2 (\<lambda>r. (ui r Stmp2) XOR (ui r Stmp5)),
      set_f Stmp5 (\<lambda>r. double_minus_two),
      set_ui Stmp5 (\<lambda>r. (ui r Stmp5) AND (ui r Stmp4)),
      set_f Stmp4 (\<lambda>r. double_one),
      set_f Stmp4 (\<lambda>r. dadd_rn ops (r Stmp4) (r Stmp5)),
      set_f Sa12 (\<lambda>r. fmul ops (r Sa12) (r Stmp4)),
      set_f Sa22 (\<lambda>r. fmul ops (r Sa22) (r Stmp4)),
      set_f Sa32 (\<lambda>r. fmul ops (r Sa32) (r Stmp4)),
      set_f Sv12 (\<lambda>r. fmul ops (r Sv12) (r Stmp4)),
      set_f Sv22 (\<lambda>r. fmul ops (r Sv22) (r Stmp4)),
      set_f Sv32 (\<lambda>r. fmul ops (r Sv32) (r Stmp4)),
      set_ui Stmp4 (\<lambda>r. if flt ops (r Stmp1) (r Stmp3) then 0xffffffff else 0),
      set_ui Stmp5 (\<lambda>r. (ui r Sa11) XOR (ui r Sa13)),
      set_ui Stmp5 (\<lambda>r. (ui r Stmp5) AND (ui r Stmp4)),
      set_ui Sa11 (\<lambda>r. (ui r Sa11) XOR (ui r Stmp5)),
      set_ui Sa13 (\<lambda>r. (ui r Sa13) XOR (ui r Stmp5)),
      set_ui Stmp5 (\<lambda>r. (ui r Sa21) XOR (ui r Sa23)),
      set_ui Stmp5 (\<lambda>r. (ui r Stmp5) AND (ui r Stmp4)),
      set_ui Sa21 (\<lambda>r. (ui r Sa21) XOR (ui r Stmp5)),
      set_ui Sa23 (\<lambda>r. (ui r Sa23) XOR (ui r Stmp5)),
      set_ui Stmp5 (\<lambda>r. (ui r Sa31) XOR (ui r Sa33)),
      set_ui Stmp5 (\<lambda>r. (ui r Stmp5) AND (ui r Stmp4)),
      set_ui Sa31 (\<lambda>r. (ui r Sa31) XOR (ui r Stmp5)),
      set_ui Sa33 (\<lambda>r. (ui r Sa33) XOR (ui r Stmp5)),
      set_ui Stmp5 (\<lambda>r. (ui r Sv11) XOR (ui r Sv13)),
      set_ui Stmp5 (\<lambda>r. (ui r Stmp5) AND (ui r Stmp4)),
      set_ui Sv11 (\<lambda>r. (ui r Sv11) XOR (ui r Stmp5)),
      set_ui Sv13 (\<lambda>r. (ui r Sv13) XOR (ui r Stmp5)),
      set_ui Stmp5 (\<lambda>r. (ui r Sv21) XOR (ui r Sv23)),
      set_ui Stmp5 (\<lambda>r. (ui r Stmp5) AND (ui r Stmp4)),
      set_ui Sv21 (\<lambda>r. (ui r Sv21) XOR (ui r Stmp5)),
      set_ui Sv23 (\<lambda>r. (ui r Sv23) XOR (ui r Stmp5)),
      set_ui Stmp5 (\<lambda>r. (ui r Sv31) XOR (ui r Sv33)),
      set_ui Stmp5 (\<lambda>r. (ui r Stmp5) AND (ui r Stmp4)),
      set_ui Sv31 (\<lambda>r. (ui r Sv31) XOR (ui r Stmp5)),
      set_ui Sv33 (\<lambda>r. (ui r Sv33) XOR (ui r Stmp5)),
      set_ui Stmp5 (\<lambda>r. (ui r Stmp1) XOR (ui r Stmp3)),
      set_ui Stmp5 (\<lambda>r. (ui r Stmp5) AND (ui r Stmp4)),
      set_ui Stmp1 (\<lambda>r. (ui r Stmp1) XOR (ui r Stmp5)),
      set_ui Stmp3 (\<lambda>r. (ui r Stmp3) XOR (ui r Stmp5)),
      set_f Stmp5 (\<lambda>r. double_minus_two),
      set_ui Stmp5 (\<lambda>r. (ui r Stmp5) AND (ui r Stmp4)),
      set_f Stmp4 (\<lambda>r. double_one),
      set_f Stmp4 (\<lambda>r. dadd_rn ops (r Stmp4) (r Stmp5)),
      set_f Sa11 (\<lambda>r. fmul ops (r Sa11) (r Stmp4)),
      set_f Sa21 (\<lambda>r. fmul ops (r Sa21) (r Stmp4)),
      set_f Sa31 (\<lambda>r. fmul ops (r Sa31) (r Stmp4)),
      set_f Sv11 (\<lambda>r. fmul ops (r Sv11) (r Stmp4)),
      set_f Sv21 (\<lambda>r. fmul ops (r Sv21) (r Stmp4)),
      set_f Sv31 (\<lambda>r. fmul ops (r Sv31) (r Stmp4)),
      set_ui Stmp4 (\<lambda>r. if flt ops (r Stmp2) (r Stmp3) then 0xffffffff else 0),
      set_ui Stmp5 (\<lambda>r. (ui r Sa12) XOR (ui r Sa13)),
      set_ui Stmp5 (\<lambda>r. (ui r Stmp5) AND (ui r Stmp4)),
      set_ui Sa12 (\<lambda>r. (ui r Sa12) XOR (ui r Stmp5)),
      set_ui Sa13 (\<lambda>r. (ui r Sa13) XOR (ui r Stmp5)),
      set_ui Stmp5 (\<lambda>r. (ui r Sa22) XOR (ui r Sa23)),
      set_ui Stmp5 (\<lambda>r. (ui r Stmp5) AND (ui r Stmp4)),
      set_ui Sa22 (\<lambda>r. (ui r Sa22) XOR (ui r Stmp5)),
      set_ui Sa23 (\<lambda>r. (ui r Sa23) XOR (ui r Stmp5)),
      set_ui Stmp5 (\<lambda>r. (ui r Sa32) XOR (ui r Sa33)),
      set_ui Stmp5 (\<lambda>r. (ui r Stmp5) AND (ui r Stmp4)),
      set_ui Sa32 (\<lambda>r. (ui r Sa32) XOR (ui r Stmp5)),
      set_ui Sa33 (\<lambda>r. (ui r Sa33) XOR (ui r Stmp5)),
      set_ui Stmp5 (\<lambda>r. (ui r Sv12) XOR (ui r Sv13)),
      set_ui Stmp5 (\<lambda>r. (ui r Stmp5) AND (ui r Stmp4)),
      set_ui Sv12 (\<lambda>r. (ui r Sv12) XOR (ui r Stmp5)),
      set_ui Sv13 (\<lambda>r. (ui r Sv13) XOR (ui r Stmp5)),
      set_ui Stmp5 (\<lambda>r. (ui r Sv22) XOR (ui r Sv23)),
      set_ui Stmp5 (\<lambda>r. (ui r Stmp5) AND (ui r Stmp4)),
      set_ui Sv22 (\<lambda>r. (ui r Sv22) XOR (ui r Stmp5)),
      set_ui Sv23 (\<lambda>r. (ui r Sv23) XOR (ui r Stmp5)),
      set_ui Stmp5 (\<lambda>r. (ui r Sv32) XOR (ui r Sv33)),
      set_ui Stmp5 (\<lambda>r. (ui r Stmp5) AND (ui r Stmp4)),
      set_ui Sv32 (\<lambda>r. (ui r Sv32) XOR (ui r Stmp5)),
      set_ui Sv33 (\<lambda>r. (ui r Sv33) XOR (ui r Stmp5)),
      set_ui Stmp5 (\<lambda>r. (ui r Stmp2) XOR (ui r Stmp3)),
      set_ui Stmp5 (\<lambda>r. (ui r Stmp5) AND (ui r Stmp4)),
      set_ui Stmp2 (\<lambda>r. (ui r Stmp2) XOR (ui r Stmp5)),
      set_ui Stmp3 (\<lambda>r. (ui r Stmp3) XOR (ui r Stmp5)),
      set_f Stmp5 (\<lambda>r. double_minus_two),
      set_ui Stmp5 (\<lambda>r. (ui r Stmp5) AND (ui r Stmp4)),
      set_f Stmp4 (\<lambda>r. double_one),
      set_f Stmp4 (\<lambda>r. dadd_rn ops (r Stmp4) (r Stmp5)),
      set_f Sa13 (\<lambda>r. fmul ops (r Sa13) (r Stmp4)),
      set_f Sa23 (\<lambda>r. fmul ops (r Sa23) (r Stmp4)),
      set_f Sa33 (\<lambda>r. fmul ops (r Sa33) (r Stmp4)),
      set_f Sv13 (\<lambda>r. fmul ops (r Sv13) (r Stmp4)),
      set_f Sv23 (\<lambda>r. fmul ops (r Sv23) (r Stmp4)),
      set_f Sv33 (\<lambda>r. fmul ops (r Sv33) (r Stmp4))]"

text \<open>Lines 810 to 925: first Givens rotation of the QR factorization of A V.\<close>

definition svd_givens_first :: "fpu \<Rightarrow> (regs \<Rightarrow> regs) list" where
  "svd_givens_first ops =
     [set_f Su11 (\<lambda>r. double_one),
      set_f Su12 (\<lambda>r. double_zero),
      set_f Su13 (\<lambda>r. double_zero),
      set_f Su21 (\<lambda>r. double_zero),
      set_f Su22 (\<lambda>r. double_one),
      set_f Su23 (\<lambda>r. double_zero),
      set_f Su31 (\<lambda>r. double_zero),
      set_f Su32 (\<lambda>r. double_zero),
      set_f Su33 (\<lambda>r. double_one),
      set_f Ssh (\<lambda>r. fmul ops (r Sa21) (r Sa21)),
      set_ui Ssh (\<lambda>r. if fge ops (r Ssh) gsmall_number_double then 0xffffffff else 0),
      set_ui Ssh (\<lambda>r. (ui r Ssh) AND (ui r Sa21)),
      set_f Stmp5 (\<lambda>r. double_zero),
      set_f Sch (\<lambda>r. dsub_rn ops (r Stmp5) (r Sa11)),
      set_f Sch (\<lambda>r. fmax ops (r Sch) (r Sa11)),
      set_f Sch (\<lambda>r. fmax ops (r Sch) gsmall_number_double),
      set_ui Stmp5 (\<lambda>r. if fge ops (r Sa11) (r Stmp5) then 0xffffffff else 0),
      set_f Stmp1 (\<lambda>r. fmul ops (r Sch) (r Sch)),
      set_f Stmp2 (\<lambda>r. fmul ops (r Ssh) (r Ssh)),
      set_f Stmp2 (\<lambda>r. dadd_rn ops (r Stmp1) (r Stmp2)),
      set_f Stmp1 (\<lambda>r. drcp_rn ops (dsqrt_rn ops (r Stmp2))),
      set_f Stmp4 (\<lambda>r. fmul ops (r Stmp1) double_half),
      set_f Stmp3 (\<lambda>r. fmul ops (r Stmp1) (r Stmp4)),
      set_f Stmp3 (\<lambda>r. fmul ops (r Stmp1) (r Stmp3)),
      set_f Stmp3 (\<lambda>r. fmul ops (r Stmp2) (r Stmp3)),
      set_f Stmp1 (\<lambda>r. dadd_rn ops (r Stmp1) (r Stmp4)),
      set_f Stmp1 (\<lambda>r. dsub_rn ops (r Stmp1) (r Stmp3)),
      set_f Stmp1 (\<lambda>r. fmul ops (r Stmp1) (r Stmp2)),
      set_f Sch (\<lambda>r. dadd_rn ops (r Sch) (r Stmp1)),
      set_ui Stmp1 (\<lambda>r. NOT (ui r Stmp5) AND (ui r Ssh)),
      set_ui Stmp2 (\<lambda>r. NOT (ui r Stmp5) AND (ui r Sch)),
      set_ui Sch (\<lambda>r. (ui r Stmp5) AND (ui r Sch)),
      set_ui Ssh (\<lambda>r. (ui r Stmp5) AND (ui r Ssh)),
      set_ui Sch (\<lambda>r. (ui r Sch) OR (ui r Stmp1)),
      set_ui Ssh (\<lambda>r. (ui r Ssh) OR (ui r Stmp2)),
      set_f Stmp1 (\<lambda>r. fmul ops (r Sch) (r Sch)),
      set_f Stmp2 (\<lambda>r. fmul ops (r Ssh) (r Ssh)),
      set_f Stmp2 (\<lambda>r. dadd_rn ops (r Stmp1) (r Stmp2)),
      set_f Stmp1 (\<lambda>r. drcp_rn ops (dsqrt_rn ops (r Stmp2))),
      set_f Stmp4 (\<lambda>r. fmul ops (r Stmp1) double_half),
      set_f Stmp3 (\<lambda>r. fmul ops (r Stmp1) (r Stmp4)),
      set_f Stmp3 (\<lambda>r. fmul ops (r Stmp1) (r Stmp3)),
      set_f Stmp3 (\<lambda>r. fmul ops (r Stmp2) (r Stmp3)),
      set_f Stmp1 (\<lambda>r. dadd_rn ops (r Stmp1) (r Stmp4)),
      set_f Stmp1 (\<lambda>r. dsub_rn ops (r Stmp1) (r Stmp3)),
      set_f Sch (\<lambda>r. fmul ops (r Sch) (r Stmp1)),
      set_f Ssh (\<lambda>r. fmul ops (r Ssh) (r Stmp1)),
      set_f Sc (\<lambda>r. fmul ops (r Sch) (r Sch)),
      set_f Ss (\<lambda>r. fmul ops (r Ssh) (r Ssh)),
      set_f Sc (\<lambda>r. dsub_rn ops (r Sc) (r Ss)),
      set_f Ss (\<lambda>r. fmul ops (r Ssh) (r Sch)),
      set_f Ss (\<lambda>r. dadd_rn ops (r Ss) (r Ss)),
      set_f Stmp1 (\<lambda>r. fmul ops (r Ss) (r Sa11)),
      set_f Stmp2 (\<lambda>r. fmul ops (r Ss) (r Sa21)),
      set_f Sa11 (\<lambda>r. fmul ops (r Sc) (r Sa11)),
      set_f Sa21 (\<lambda>r. fmul ops (r Sc) (r Sa21)),
      set_f Sa11 (\<lambda>r. dadd_rn ops (r Sa11) (r Stmp2)),
      set_f Sa21 (\<lambda>r. dsub_rn ops (r Sa21) (r Stmp1)),
      set_f Stmp1 (\<lambda>r. fmul ops (r Ss) (r Sa12)),
      set_f Stmp2 (\<lambda>r. fmul ops (r Ss) (r Sa22)),
      set_f Sa12 (\<lambda>r. fmul ops (r Sc) (r Sa12)),
      set_f Sa22 (\<lambda>r. fmul ops (r Sc) (r Sa22)),
      set_f Sa12 (\<lambda>r. dadd_rn ops (r Sa12) (r Stmp2)),
      set_f Sa22 (\<lambda>r. dsub_rn ops (r Sa22) (r Stmp1)),
      set_f Stmp1 (\<lambda>r. fmul ops (r Ss) (r Sa13)),
      set_f Stmp2 (\<lambda>r. fmul ops (r Ss) (r Sa23)),
      set_f Sa13 (\<lambda>r. fmul ops (r Sc) (r Sa13)),
      set_f Sa23 (\<lambda>r. fmul ops (r Sc) (r Sa23)),
      set_f Sa13 (\<lambda>r. dadd_rn ops (r Sa13) (r Stmp2)),
      set_f Sa23 (\<lambda>r. dsub_rn ops (r Sa23) (r Stmp1)),
      set_f Stmp1 (\<lambda>r. fmul ops (r Ss) (r Su11)),
      set_f Stmp2 (\<lambda>r. fmul ops (r Ss) (r Su12)),
      set_f Su11 (\<lambda>r. fmul ops (r Sc) (r Su11)),
      set_f Su12 (\<lambda>r. fmul ops (r Sc) (r Su12)),
      set_f Su11 (\<lambda>r. dadd_rn ops (r Su11) (r Stmp2)),
      set_f Su12 (\<lambda>r. dsub_rn ops (r Su12) (r Stmp1)),
      set_f Stmp1 (\<lambda>r. fmul ops (r Ss) (r Su21)),
      set_f Stmp2 (\<lambda>r. fmul ops (r Ss) (r Su22)),
      set_f Su21 (\<lambda>r. fmul ops (r Sc) (r Su21)),
      set_f Su22 (\<lambda>r. fmul ops (r Sc) (r Su22)),
      set_f Su21 (\<lambda>r. dadd_rn ops (r Su21) (r Stmp2)),
      set_f Su22 (\<lambda>r. dsub_rn ops (r Su22) (r Stmp1)),
      set_f Stmp1 (\<lambda>r. fmul ops (r Ss) (r Su31)),
      set_f Stmp2 (\<lambda>r. fmul ops (r Ss) (r Su32)),
      set_f Su31 (\<lambda>r. fmul ops (r Sc) (r Su31)),
      set_f Su32 (\<lambda>r. fmul ops (r Sc) (r Su32)),
      set_f Su31 (\<lambda>r. dadd_rn ops (r Su31) (r Stmp2)),
      set_f Su32 (\<lambda>r. dsub_rn ops (r Su32) (r Stmp1))]"

text \<open>Lines 926 to 1030: second Givens rotation.\<close>

definition svd_givens_second :: "fpu \<Rightarrow> (regs \<Rightarrow> regs) list" where
  "svd_givens_second ops =
     [set_f Ssh (\<lambda>r. fmul ops (r Sa31) (r Sa31)),
      set_ui Ssh (\<lambda>r. if fge ops (r Ssh) gsmall_number_double then 0xffffffff else 0),
      set_ui Ssh (\<lambda>r. (ui r Ssh) AND (ui r Sa31)),
      set_f Stmp5 (\<lambda>r. double_zero),
      set_f Sch (\<lambda>r. dsub_rn ops (r Stmp5) (r Sa11)),
      set_f Sch (\<lambda>r. fmax ops (r Sch) (r Sa11)),
      set_f Sch (\<lambda>r. fmax ops (r Sch) gsmall_number_double),
      set_ui Stmp5 (\<lambda>r. if fge ops (r Sa11) (r Stmp5) then 0xffffffff else 0),
      set_f Stmp1 (\<lambda>r. fmul ops (r Sch) (r Sch)),
      set_f Stmp2 (\<lambda>r. fmul ops (r Ssh) (r Ssh)),
      set_f Stmp2 (\<lambda>r. dadd_rn ops (r Stmp1) (r Stmp2)),
      set_f Stmp1 (\<lambda>r. drcp_rn ops (dsqrt_rn ops (r Stmp2))),
      set_f Stmp4 (\<lambda>r. fmul ops (r Stmp1) double_half),
      set_f Stmp3 (\<lambda>r. fmul ops (r Stmp1) (r Stmp4)),
      set_f Stmp3 (\<lambda>r. fmul ops (r Stmp1) (r Stmp3)),
      set_f Stmp3 (\<lambda>r. fmul ops (r Stmp2) (r Stmp3)),
      set_f Stmp1 (\<lambda>r. dadd_rn ops (r Stmp1) (r Stmp4)),
      set_f Stmp1 (\<lambda>r. dsub_rn ops (r Stmp1) (r Stmp3)),
      set_f Stmp1 (\<lambda>r. fmul ops (r Stmp1) (r Stmp2)),
      set_f Sch (\<lambda>r. dadd_rn ops (r Sch) (r Stmp1)),
      set_ui Stmp1 (\<lambda>r. NOT (ui r Stmp5) AND (ui r Ssh)),
      set_ui Stmp2 (\<lambda>r. NOT (ui r Stmp5) AND (ui r Sch)),
      set_ui Sch (\<lambda>r. (ui r Stmp5) AND (ui r Sch)),
      set_ui Ssh (\<lambda>r. (ui r Stmp5) AND (ui r Ssh)),
      set_ui Sch (\<lambda>r. (ui r Sch) OR (ui r Stmp1)),
      set_ui Ssh (\<lambda>r. (ui r Ssh) OR (ui r Stmp2)),
      set_f Stmp1 (\<lambda>r. fmul ops (r Sch) (r Sch)),
      set_f Stmp2 (\<lambda>r. fmul ops (r Ssh) (r Ssh)),
      set_f Stmp2 (\<lambda>r. dadd_rn ops (r Stmp1) (r Stmp2)),
      set_f Stmp1 (\<lambda>r. drcp_rn ops (dsqrt_rn ops (r Stmp2))),
      set_f Stmp4 (\<lambda>r. fmul ops (r Stmp1) double_half),
      set_f Stmp3 (\<lambda>r. fmul ops (r Stmp1) (r Stmp4)),
      set_f Stmp3 (\<lambda>r. fmul ops (r Stmp1) (r Stmp3)),
      set_f Stmp3 (\<lambda>r. fmul ops (r Stmp2) (r Stmp3)),
      set_f Stmp1 (\<lambda>r. dadd_rn ops (r Stmp1) (r Stmp4)),
      set_f Stmp1 (\<lambda>r. dsub_rn ops (r Stmp1) (r Stmp3)),
      set_f Sch (\<lambda>r. fmul ops (r Sch) (r Stmp1)),
      set_f Ssh (\<lambda>r. fmul ops (r Ssh) (r Stmp1)),
      set_f Sc (\<lambda>r. fmul ops (r Sch) (r Sch)),
      set_f Ss (\<lambda>r. fmul ops (r Ssh) (r Ssh)),
      set_f Sc (\<lambda>r. dsub_rn ops (r Sc) (r Ss)),
      set_f Ss (\<lambda>r. fmul ops (r Ssh) (r Sch)),
      set_f Ss (\<lambda>r. dadd_rn ops (r Ss) (r Ss)),
      set_f Stmp1 (\<lambda>r. fmul ops (r Ss) (r Sa11)),
      set_f Stmp2 (\<lambda>r. fmul ops (r Ss) (r Sa31)),
      set_f Sa11 (\<lambda>r. fmul ops (r Sc) (r Sa11)),
      set_f Sa31 (\<lambda>r. fmul ops (r Sc) (r Sa31)),
      set_f Sa11 (\<lambda>r. dadd_rn ops (r Sa11) (r Stmp2)),
      set_f Sa31 (\<lambda>r. dsub_rn ops (r Sa31) (r Stmp1)),
      set_f Stmp1 (\<lambda>r. fmul ops (r Ss) (r Sa12)),
      set_f Stmp2 (\<lambda>r. fmul ops (r Ss) (r Sa32)),
      set_f Sa12 (\<lambda>r. fmul ops (r Sc) (r Sa12)),
      set_f Sa32 (\<lambda>r. fmul ops (r Sc) (r Sa32)),
      set_f Sa12 (\<lambda>r. dadd_rn ops (r Sa12) (r Stmp2)),
      set_f Sa32 (\<lambda>r. dsub_rn ops (r Sa32) (r Stmp1)),
      set_f Stmp1 (\<lambda>r. fmul ops (r Ss) (r Sa13)),
      set_f Stmp2 (\<lambda>r. fmul ops (r Ss) (r Sa33)),
      set_f Sa13 (\<lambda>r. fmul ops (r Sc) (r Sa13)),
      set_f Sa33 (\<lambda>r. fmul ops (r Sc) (r Sa33)),
      set_f Sa13 (\<lambda>r. dadd_rn ops (r Sa13) (r Stmp2)),
      set_f Sa33 (\<lambda>r. dsub_rn ops (r Sa33) (r Stmp1)),
      set_f Stmp1 (\<lambda>r. fmul ops (r Ss) (r Su11)),
      set_f Stmp2 (\<lambda>r. fmul ops (r Ss) (r Su13)),
      set_f Su11 (\<lambda>r. fmul ops (r Sc) (r Su11)),
      set_f Su13 (\<lambda>r. fmul ops (r Sc) (r Su13)),
      set_f Su11 (\<lambda>r. dadd_rn ops (r Su11) (r Stmp2)),
      set_f Su13 (\<lambda>r. dsub_rn ops (r Su13) (r Stmp1)),
      set_f Stmp1 (\<lambda>r. fmul ops (r Ss) (r Su21)),
      set_f Stmp2 (\<lambda>r. fmul ops (r Ss) (r Su23)),
      set_f Su21 (\<lambda>r. fmul ops (r Sc) (r Su21)),
      set_f Su23 (\<lambda>r. fmul ops (r Sc) (r Su23)),
      set_f Su21 (\<lambda>r. dadd_rn ops (r Su21) (r Stmp2)),
      set_f Su23 (\<lambda>r. dsub_rn ops (r Su23) (r Stmp1)),
      set_f Stmp1 (\<lambda>r. fmul ops (r Ss) (r Su31)),
      set_f Stmp2 (\<lambda>r. fmul ops (r Ss) (r Su33)),
      set_f Su31 (\<lambda>r. fmul ops (r Sc) (r Su31)),
      set_f Su33 (\<lambda>r. fmul ops (r Sc) (r Su33)),
      set_f Su31 (\<lambda>r. dadd_rn ops (r Su31) (r Stmp2)),
      set_f Su33 (\<lambda>r. dsub_rn ops (r Su33) (r Stmp1))]"

text \<open>Lines 1031 to 1134: third Givens rotation.\<close>

definition svd_givens_third :: "fpu \<Rightarrow> (regs \<Rightarrow> regs) list" where
  "svd_givens_third ops =
     [set_f Ssh (\<lambda>r. fmul ops (r Sa32) (r Sa32)),
      set_ui Ssh (\<lambda>r. if fge ops (r Ssh) gsmall_number_double then 0xffffffff else 0),
      set_ui Ssh (\<lambda>r. (ui r Ssh) AND (ui r Sa32)),
      set_f Stmp5 (\<lambda>r. double_zero),
      set_f Sch (\<lambda>r. dsub_rn ops (r Stmp5) (r Sa22)),
      set_f Sch (\<lambda>r. fmax ops (r Sch) (r Sa22)),
      set_f Sch (\<lambda>r. fmax ops (r Sch) gsmall_number_double),
      set_ui Stmp5 (\<lambda>r. if fge ops (r Sa22) (r Stmp5) then 0xffffffff else 0),
      set_f Stmp1 (\<lambda>r. fmul ops (r Sch) (r Sch)),
      set_f Stmp2 (\<lambda>r. fmul ops (r Ssh) (r Ssh)),
      set_f Stmp2 (\<lambda>r. dadd_rn ops (r Stmp1) (r Stmp2)),
      set_f Stmp1 (\<lambda>r. drcp_rn ops (dsqrt_rn ops (r Stmp2))),
      set_f Stmp4 (\<lambda>r. fmul ops (r Stmp1) double_half),
      set_f Stmp3 (\<lambda>r. fmul ops (r Stmp1) (r Stmp4)),
      set_f Stmp3 (\<lambda>r. fmul ops (r Stmp1) (r Stmp3)),
      set_f Stmp3 (\<lambda>r. fmul ops (r Stmp2) (r Stmp3)),
      set_f Stmp1 (\<lambda>r. dadd_rn ops (r Stmp1) (r Stmp4)),
      set_f Stmp1 (\<lambda>r. dsub_rn ops (r Stmp1) (r Stmp3)),
      set_f Stmp1 (\<lambda>r. fmul ops (r Stmp1) (r Stmp2)),
      set_f Sch (\<lambda>r. dadd_rn ops (r Sch) (r Stmp1)),
      set_ui Stmp1 (\<lambda>r. NOT (ui r Stmp5) AND (ui r Ssh)),
      set_ui Stmp2 (\<lambda>r. NOT (ui r Stmp5) AND (ui r Sch)),
      set_ui Sch (\<lambda>r. (ui r Stmp5) AND (ui r Sch)),
      set_ui Ssh (\<lambda>r. (ui r Stmp5) AND (ui r Ssh)),
      set_ui Sch (\<lambda>r. (ui r Sch) OR (ui r Stmp1)),
      set_ui Ssh (\<lambda>r. (ui r Ssh) OR (ui r Stmp2)),
      set_f Stmp1 (\<lambda>r. fmul ops (r Sch) (r Sch)),
      set_f Stmp2 (\<lambda>r. fmul ops (r Ssh) (r Ssh)),
      set_f Stmp2 (\<lambda>r. dadd_rn ops (r Stmp1) (r Stmp2)),
      set_f Stmp1 (\<lambda>r. drcp_rn ops (dsqrt_rn ops (r Stmp2))),
      set_f Stmp4 (\<lambda>r. fmul ops (r Stmp1) double_half),
      set_f Stmp3 (\<lambda>r. fmul ops (r Stmp1) (r Stmp4)),
      set_f Stmp3 (\<lambda>r. fmul ops (r Stmp1) (r Stmp3)),
      set_f Stmp3 (\<lambda>r. fmul ops (r Stmp2) (r Stmp3)),
      set_f Stmp1 (\<lambda>r. dadd_rn ops (r Stmp1) (r Stmp4)),
      set_f Stmp1 (\<lambda>r. dsub_rn ops (r Stmp1) (r Stmp3)),
      set_f Sch (\<lambda>r. fmul ops (r Sch) (r Stmp1)),
      set_f Ssh (\<lambda>r. fmul ops (r Ssh) (r Stmp1)),
      set_f Sc (\<lambda>r. fmul ops (r Sch) (r Sch)),
      set_f Ss (\<lambda>r. fmul ops (r Ssh) (r Ssh)),
      set_f Sc (\<lambda>r. dsub_rn ops (r Sc) (r Ss)),
      set_f Ss (\<lambda>r. fmul ops (r Ssh) (r Sch)),
      set_f Ss (\<lambda>r. dadd_rn ops (r Ss) (r Ss)),
      set_f Stmp1 (\<lambda>r. fmul ops (r Ss) (r Sa21)),
      set_f Stmp2 (\<lambda>r. fmul ops (r Ss) (r Sa31)),
      set_f Sa21 (\<lambda>r. fmul ops (r Sc) (r Sa21)),
      set_f Sa31 (\<lambda>r. fmul ops (r Sc) (r Sa31)),
      set_f Sa21 (\<lambda>r. dadd_rn ops (r Sa21) (r Stmp2)),
      set_f Sa31 (\<lambda>r. dsub_rn ops (r Sa31) (r Stmp1)),
      set_f Stmp1 (\<lambda>r. fmul ops (r Ss) (r Sa22)),
      set_f Stmp2 (\<lambda>r. fmul ops (r Ss) (r Sa32)),
      set_f Sa22 (\<lambda>r. fmul ops (r Sc) (r Sa22)),
      set_f Sa32 (\<lambda>r. fmul ops (r Sc) (r Sa32)),
      set_f Sa22 (\<lambda>r. dadd_rn ops (r Sa22) (r Stmp2)),
      set_f Sa32 (\<lambda>r. dsub_rn ops (r Sa32) (r Stmp1)),
      set_f Stmp1 (\<lambda>r. fmul ops (r Ss) (r Sa23)),
      set_f Stmp2 (\<lambda>r. fmul ops (r Ss) (r Sa33)),
      set_f Sa23 (\<lambda>r. fmul ops (r Sc) (r Sa23)),
      set_f Sa33 (\<lambda>r. fmul ops (r Sc) (r Sa33)),
      set_f Sa23 (\<lambda>r. dadd_rn ops (r Sa23) (r Stmp2)),
      set_f Sa33 (\<lambda>r. dsub_rn ops (r Sa33) (r Stmp1)),
      set_f Stmp1 (\<lambda>r. fmul ops (r Ss) (r Su12)),
      set_f Stmp2 (\<lambda>r. fmul ops (r Ss) (r Su13)),
      set_f Su12 (\<lambda>r. fmul ops (r Sc) (r Su12)),
      set_f Su13 (\<lambda>r. fmul ops (r Sc) (r Su13)),
      set_f Su12 (\<lambda>r. dadd_rn ops (r Su12) (r Stmp2)),
      set_f Su13 (\<lambda>r. dsub_rn ops (r Su13) (r Stmp1)),
      set_f Stmp1 (\<lambda>r. fmul ops (r Ss) (r Su22)),
      set_f Stmp2 (\<lambda>r. fmul ops (r Ss) (r Su23)),
      set_f Su22 (\<lambda>r. fmul ops (r Sc) (r Su22)),
      set_f Su23 (\<lambda>r. fmul ops (r Sc) (r Su23)),
      set_f Su22 (\<lambda>r. dadd_rn ops (r Su22) (r Stmp2)),
      set_f Su23 (\<lambda>r. dsub_rn ops (r Su23) (r Stmp1)),
      set_f Stmp1 (\<lambda>r. fmul ops (r Ss) (r Su32)),
      set_f Stmp2 (\<lambda>r. fmul ops (r Ss) (r Su33)),
      set_f Su32 (\<lambda>r. fmul ops (r Sc) (r Su32)),
      set_f Su33 (\<lambda>r. fmul ops (r Sc) (r Su33)),
      set_f Su32 (\<lambda>r. dadd_rn ops (r Su32) (r Stmp2)),
      set_f Su33 (\<lambda>r. dsub_rn ops (r Su33) (r Stmp1))]"

text \<open>
  One sweep is the body of the loop at line 197, \<open>for (int i = 0; i < 4; i++)\<close>. The
  body does not assign \<open>i\<close> and has no \<open>break\<close>, \<open>continue\<close> or \<open>return\<close>. The
  function returns the value of \<open>i\<close> at exit next to the locals.
\<close>

definition jacobi_sweep :: "fpu \<Rightarrow> regs \<Rightarrow> regs" where
  "jacobi_sweep ops r =
     run (jacobi_conjugation_c ops)
       (run (jacobi_conjugation_b ops) (run (jacobi_conjugation_a ops) r))"

function jacobi_iteration :: "fpu \<Rightarrow> int \<Rightarrow> regs \<Rightarrow> int \<times> regs" where
  "jacobi_iteration ops i r =
     (if i < 4 then jacobi_iteration ops (i + 1) (jacobi_sweep ops r) else (i, r))"
  by pat_completeness auto
termination
  by (relation "measure (\<lambda>(ops, i, r). nat (4 - i))") auto

type_synonym mat3_bits =
  "64 word \<times> 64 word \<times> 64 word \<times> 64 word \<times> 64 word \<times> 64 word \<times> 64 word \<times> 64 word \<times> 64 word"

definition svd_load :: "regs \<Rightarrow> mat3_bits \<Rightarrow> regs" where
  "svd_load uninit A =
     (case A of (a11, a12, a13, a21, a22, a23, a31, a32, a33) \<Rightarrow>
        uninit(Sa11 := a11, Sa12 := a12, Sa13 := a13, Sa21 := a21, Sa22 := a22,
               Sa23 := a23, Sa31 := a31, Sa32 := a32, Sa33 := a33))"

definition svd_store ::
  "regs \<Rightarrow> mat3_bits \<times> (64 word \<times> 64 word \<times> 64 word) \<times> mat3_bits" where
  "svd_store r =
     ((r Su11, r Su12, r Su13, r Su21, r Su22, r Su23, r Su31, r Su32, r Su33),
      (r Sa11, r Sa22, r Sa33),
      (r Sv11, r Sv12, r Sv13, r Sv21, r Sv22, r Sv23, r Sv31, r Sv32, r Sv33))"

definition svd_double ::
  "fpu \<Rightarrow> regs \<Rightarrow> mat3_bits
     \<Rightarrow> mat3_bits \<times> (64 word \<times> 64 word \<times> 64 word) \<times> mat3_bits" where
  "svd_double ops uninit A =
     (let r = svd_load uninit A;
          r = run (svd_normal_equations ops) r;
          (i, r) = jacobi_iteration ops 0 r;
          r = run (svd_normalize_quaternion ops) r;
          r = run (svd_quaternion_to_matrix ops) r;
          r = run (svd_multiply_with_V ops) r;
          r = run (svd_sort_columns ops) r;
          r = run (svd_givens_first ops) r;
          r = run (svd_givens_second ops) r;
          r = run (svd_givens_third ops) r
      in svd_store r)"

text \<open>The statements of the routine in the order of a run with four sweeps.\<close>

definition svd_statements :: "fpu \<Rightarrow> (regs \<Rightarrow> regs) list" where
  "svd_statements ops =
     svd_normal_equations ops
     @ concat (replicate 4 (jacobi_conjugation_a ops @ jacobi_conjugation_b ops
                             @ jacobi_conjugation_c ops))
     @ svd_normalize_quaternion ops @ svd_quaternion_to_matrix ops
     @ svd_multiply_with_V ops @ svd_sort_columns ops @ svd_givens_first ops
     @ svd_givens_second ops @ svd_givens_third ops"

subsection \<open>Single precision\<close>

type_synonym regs32 = "var \<Rightarrow> 32 word"

record fpu32 =
  fmul32 :: "32 word \<Rightarrow> 32 word \<Rightarrow> 32 word"
  fadd_rn :: "32 word \<Rightarrow> 32 word \<Rightarrow> 32 word"
  fsub_rn :: "32 word \<Rightarrow> 32 word \<Rightarrow> 32 word"
  frsqrt_rn :: "32 word \<Rightarrow> 32 word"
  fmax32 :: "32 word \<Rightarrow> 32 word \<Rightarrow> 32 word"
  fge32 :: "32 word \<Rightarrow> 32 word \<Rightarrow> bool"
  fle32 :: "32 word \<Rightarrow> 32 word \<Rightarrow> bool"
  flt32 :: "32 word \<Rightarrow> 32 word \<Rightarrow> bool"

text \<open>The float literals of the header, as binary32 encodings.\<close>

definition gsmall_number_float :: "32 word" where
  "gsmall_number_float = 0x2B8CBCCC"

definition gtiny_number_float :: "32 word" where
  "gtiny_number_float = 0x1E3CE508"

definition gfour_gamma_squared_float :: "32 word" where
  "gfour_gamma_squared_float = 0x40BA827A"

definition float_zero :: "32 word" where
  "float_zero = 0"

definition float_one :: "32 word" where
  "float_one = 0x3F800000"

definition float_minus_two :: "32 word" where
  "float_minus_two = 0xC0000000"

definition float_half :: "32 word" where
  "float_half = 0x3F000000"

text \<open>Lines 1212 to 1256: the normal equations matrix and the unit quaternion.\<close>

definition svd_normal_equations_float :: "fpu32 \<Rightarrow> (regs32 \<Rightarrow> regs32) list" where
  "svd_normal_equations_float ops =
     [set_f Ss11 (\<lambda>r. fmul32 ops (r Sa11) (r Sa11)),
      set_f Stmp1 (\<lambda>r. fmul32 ops (r Sa21) (r Sa21)),
      set_f Ss11 (\<lambda>r. fadd_rn ops (r Stmp1) (r Ss11)),
      set_f Stmp1 (\<lambda>r. fmul32 ops (r Sa31) (r Sa31)),
      set_f Ss11 (\<lambda>r. fadd_rn ops (r Stmp1) (r Ss11)),
      set_f Ss21 (\<lambda>r. fmul32 ops (r Sa12) (r Sa11)),
      set_f Stmp1 (\<lambda>r. fmul32 ops (r Sa22) (r Sa21)),
      set_f Ss21 (\<lambda>r. fadd_rn ops (r Stmp1) (r Ss21)),
      set_f Stmp1 (\<lambda>r. fmul32 ops (r Sa32) (r Sa31)),
      set_f Ss21 (\<lambda>r. fadd_rn ops (r Stmp1) (r Ss21)),
      set_f Ss31 (\<lambda>r. fmul32 ops (r Sa13) (r Sa11)),
      set_f Stmp1 (\<lambda>r. fmul32 ops (r Sa23) (r Sa21)),
      set_f Ss31 (\<lambda>r. fadd_rn ops (r Stmp1) (r Ss31)),
      set_f Stmp1 (\<lambda>r. fmul32 ops (r Sa33) (r Sa31)),
      set_f Ss31 (\<lambda>r. fadd_rn ops (r Stmp1) (r Ss31)),
      set_f Ss22 (\<lambda>r. fmul32 ops (r Sa12) (r Sa12)),
      set_f Stmp1 (\<lambda>r. fmul32 ops (r Sa22) (r Sa22)),
      set_f Ss22 (\<lambda>r. fadd_rn ops (r Stmp1) (r Ss22)),
      set_f Stmp1 (\<lambda>r. fmul32 ops (r Sa32) (r Sa32)),
      set_f Ss22 (\<lambda>r. fadd_rn ops (r Stmp1) (r Ss22)),
      set_f Ss32 (\<lambda>r. fmul32 ops (r Sa13) (r Sa12)),
      set_f Stmp1 (\<lambda>r. fmul32 ops (r Sa23) (r Sa22)),
      set_f Ss32 (\<lambda>r. fadd_rn ops (r Stmp1) (r Ss32)),
      set_f Stmp1 (\<lambda>r. fmul32 ops (r Sa33) (r Sa32)),
      set_f Ss32 (\<lambda>r. fadd_rn ops (r Stmp1) (r Ss32)),
      set_f Ss33 (\<lambda>r. fmul32 ops (r Sa13) (r Sa13)),
      set_f Stmp1 (\<lambda>r. fmul32 ops (r Sa23) (r Sa23)),
      set_f Ss33 (\<lambda>r. fadd_rn ops (r Stmp1) (r Ss33)),
      set_f Stmp1 (\<lambda>r. fmul32 ops (r Sa33) (r Sa33)),
      set_f Ss33 (\<lambda>r. fadd_rn ops (r Stmp1) (r Ss33)),
      set_f Sqvs (\<lambda>r. float_one),
      set_f Sqvvx (\<lambda>r. float_zero),
      set_f Sqvvy (\<lambda>r. float_zero),
      set_f Sqvvz (\<lambda>r. float_zero)]"

text \<open>Lines 1262 to 1362: first conjugation of a sweep.\<close>

definition jacobi_conjugation_a_float :: "fpu32 \<Rightarrow> (regs32 \<Rightarrow> regs32) list" where
  "jacobi_conjugation_a_float ops =
     [set_f Ssh (\<lambda>r. fmul32 ops (r Ss21) float_half),
      set_f Stmp5 (\<lambda>r. fsub_rn ops (r Ss11) (r Ss22)),
      set_f Stmp2 (\<lambda>r. fmul32 ops (r Ssh) (r Ssh)),
      set_ui Stmp1 (\<lambda>r. if fge32 ops (r Stmp2) gtiny_number_float then 0xffffffff else 0),
      set_ui Ssh (\<lambda>r. (ui r Stmp1) AND (ui r Ssh)),
      set_ui Sch (\<lambda>r. (ui r Stmp1) AND (ui r Stmp5)),
      set_ui Stmp2 (\<lambda>r. NOT (ui r Stmp1) AND gone),
      set_ui Sch (\<lambda>r. (ui r Sch) OR (ui r Stmp2)),
      set_f Stmp1 (\<lambda>r. fmul32 ops (r Ssh) (r Ssh)),
      set_f Stmp2 (\<lambda>r. fmul32 ops (r Sch) (r Sch)),
      set_f Stmp3 (\<lambda>r. fadd_rn ops (r Stmp1) (r Stmp2)),
      set_f Stmp4 (\<lambda>r. frsqrt_rn ops (r Stmp3)),
      set_f Ssh (\<lambda>r. fmul32 ops (r Stmp4) (r Ssh)),
      set_f Sch (\<lambda>r. fmul32 ops (r Stmp4) (r Sch)),
      set_f Stmp1 (\<lambda>r. fmul32 ops gfour_gamma_squared_float (r Stmp1)),
      set_ui Stmp1 (\<lambda>r. if fle32 ops (r Stmp2) (r Stmp1) then 0xffffffff else 0),
      set_ui Stmp2 (\<lambda>r. gsine_pi_over_eight AND (ui r Stmp1)),
      set_ui Ssh (\<lambda>r. NOT (ui r Stmp1) AND (ui r Ssh)),
      set_ui Ssh (\<lambda>r. (ui r Ssh) OR (ui r Stmp2)),
      set_ui Stmp2 (\<lambda>r. gcosine_pi_over_eight AND (ui r Stmp1)),
      set_ui Sch (\<lambda>r. NOT (ui r Stmp1) AND (ui r Sch)),
      set_ui Sch (\<lambda>r. (ui r Sch) OR (ui r Stmp2)),
      set_f Stmp1 (\<lambda>r. fmul32 ops (r Ssh) (r Ssh)),
      set_f Stmp2 (\<lambda>r. fmul32 ops (r Sch) (r Sch)),
      set_f Sc (\<lambda>r. fsub_rn ops (r Stmp2) (r Stmp1)),
      set_f Ss (\<lambda>r. fmul32 ops (r Sch) (r Ssh)),
      set_f Ss (\<lambda>r. fadd_rn ops (r Ss) (r Ss)),
      set_f Stmp3 (\<lambda>r. fadd_rn ops (r Stmp1) (r Stmp2)),
      set_f Ss33 (\<lambda>r. fmul32 ops (r Ss33) (r Stmp3)),
      set_f Ss31 (\<lambda>r. fmul32 ops (r Ss31) (r Stmp3)),
      set_f Ss32 (\<lambda>r. fmul32 ops (r Ss32) (r Stmp3)),
      set_f Ss33 (\<lambda>r. fmul32 ops (r Ss33) (r Stmp3)),
      set_f Stmp1 (\<lambda>r. fmul32 ops (r Ss) (r Ss31)),
      set_f Stmp2 (\<lambda>r. fmul32 ops (r Ss) (r Ss32)),
      set_f Ss31 (\<lambda>r. fmul32 ops (r Sc) (r Ss31)),
      set_f Ss32 (\<lambda>r. fmul32 ops (r Sc) (r Ss32)),
      set_f Ss31 (\<lambda>r. fadd_rn ops (r Stmp2) (r Ss31)),
      set_f Ss32 (\<lambda>r. fsub_rn ops (r Ss32) (r Stmp1)),
      set_f Stmp2 (\<lambda>r. fmul32 ops (r Ss) (r Ss)),
      set_f Stmp1 (\<lambda>r. fmul32 ops (r Ss22) (r Stmp2)),
      set_f Stmp3 (\<lambda>r. fmul32 ops (r Ss11) (r Stmp2)),
      set_f Stmp4 (\<lambda>r. fmul32 ops (r Sc) (r Sc)),
      set_f Ss11 (\<lambda>r. fmul32 ops (r Ss11) (r Stmp4)),
      set_f Ss22 (\<lambda>r. fmul32 ops (r Ss22) (r Stmp4)),
      set_f Ss11 (\<lambda>r. fadd_rn ops (r Ss11) (r Stmp1)),
      set_f Ss22 (\<lambda>r. fadd_rn ops (r Ss22) (r Stmp3)),
      set_f Stmp4 (\<lambda>r. fsub_rn ops (r Stmp4) (r Stmp2)),
      set_f Stmp2 (\<lambda>r. fadd_rn ops (r Ss21) (r Ss21)),
      set_f Ss21 (\<lambda>r. fmul32 ops (r Ss21) (r Stmp4)),
      set_f Stmp4 (\<lambda>r. fmul32 ops (r Sc) (r Ss)),
      set_f Stmp2 (\<lambda>r. fmul32 ops (r Stmp2) (r Stmp4)),
      set_f Stmp5 (\<lambda>r. fmul32 ops (r Stmp5) (r Stmp4)),
      set_f Ss11 (\<lambda>r. fadd_rn ops (r Ss11) (r Stmp2)),
      set_f Ss21 (\<lambda>r. fsub_rn ops (r Ss21) (r Stmp5)),
      set_f Ss22 (\<lambda>r. fsub_rn ops (r Ss22) (r Stmp2)),
      set_f Stmp1 (\<lambda>r. fmul32 ops (r Ssh) (r Sqvvx)),
      set_f Stmp2 (\<lambda>r. fmul32 ops (r Ssh) (r Sqvvy)),
      set_f Stmp3 (\<lambda>r. fmul32 ops (r Ssh) (r Sqvvz)),
      set_f Ssh (\<lambda>r. fmul32 ops (r Ssh) (r Sqvs)),
      set_f Sqvs (\<lambda>r. fmul32 ops (r Sch) (r Sqvs)),
      set_f Sqvvx (\<lambda>r. fmul32 ops (r Sch) (r Sqvvx)),
      set_f Sqvvy (\<lambda>r. fmul32 ops (r Sch) (r Sqvvy)),
      set_f Sqvvz (\<lambda>r. fmul32 ops (r Sch) (r Sqvvz)),
      set_f Sqvvz (\<lambda>r. fadd_rn ops (r Sqvvz) (r Ssh)),
      set_f Sqvs (\<lambda>r. fsub_rn ops (r Sqvs) (r Stmp3)),
      set_f Sqvvx (\<lambda>r. fadd_rn ops (r Sqvvx) (r Stmp2)),
      set_f Sqvvy (\<lambda>r. fsub_rn ops (r Sqvvy) (r Stmp1))]"

text \<open>Lines 1363 to 1468: second conjugation of a sweep, marked (1->3).\<close>

definition jacobi_conjugation_b_float :: "fpu32 \<Rightarrow> (regs32 \<Rightarrow> regs32) list" where
  "jacobi_conjugation_b_float ops =
     [set_f Ssh (\<lambda>r. fmul32 ops (r Ss32) float_half),
      set_f Stmp5 (\<lambda>r. fsub_rn ops (r Ss22) (r Ss33)),
      set_f Stmp2 (\<lambda>r. fmul32 ops (r Ssh) (r Ssh)),
      set_ui Stmp1 (\<lambda>r. if fge32 ops (r Stmp2) gtiny_number_float then 0xffffffff else 0),
      set_ui Ssh (\<lambda>r. (ui r Stmp1) AND (ui r Ssh)),
      set_ui Sch (\<lambda>r. (ui r Stmp1) AND (ui r Stmp5)),
      set_ui Stmp2 (\<lambda>r. NOT (ui r Stmp1) AND gone),
      set_ui Sch (\<lambda>r. (ui r Sch) OR (ui r Stmp2)),
      set_f Stmp1 (\<lambda>r. fmul32 ops (r Ssh) (r Ssh)),
      set_f Stmp2 (\<lambda>r. fmul32 ops (r Sch) (r Sch)),
      set_f Stmp3 (\<lambda>r. fadd_rn ops (r Stmp1) (r Stmp2)),
      set_f Stmp4 (\<lambda>r. frsqrt_rn ops (r Stmp3)),
      set_f Ssh (\<lambda>r. fmul32 ops (r Stmp4) (r Ssh)),
      set_f Sch (\<lambda>r. fmul32 ops (r Stmp4) (r Sch)),
      set_f Stmp1 (\<lambda>r. fmul32 ops gfour_gamma_squared_float (r Stmp1)),
      set_ui Stmp1 (\<lambda>r. if fle32 ops (r Stmp2) (r Stmp1) then 0xffffffff else 0),
      set_ui Stmp2 (\<lambda>r. gsine_pi_over_eight AND (ui r Stmp1)),
      set_ui Ssh (\<lambda>r. NOT (ui r Stmp1) AND (ui r Ssh)),
      set_ui Ssh (\<lambda>r. (ui r Ssh) OR (ui r Stmp2)),
      set_ui Stmp2 (\<lambda>r. gcosine_pi_over_eight AND (ui r Stmp1)),
      set_ui Sch (\<lambda>r. NOT (ui r Stmp1) AND (ui r Sch)),
      set_ui Sch (\<lambda>r. (ui r Sch) OR (ui r Stmp2)),
      set_f Stmp1 (\<lambda>r. fmul32 ops (r Ssh) (r Ssh)),
      set_f Stmp2 (\<lambda>r. fmul32 ops (r Sch) (r Sch)),
      set_f Sc (\<lambda>r. fsub_rn ops (r Stmp2) (r Stmp1)),
      set_f Ss (\<lambda>r. fmul32 ops (r Sch) (r Ssh)),
      set_f Ss (\<lambda>r. fadd_rn ops (r Ss) (r Ss)),
      set_f Stmp3 (\<lambda>r. fadd_rn ops (r Stmp1) (r Stmp2)),
      set_f Ss11 (\<lambda>r. fmul32 ops (r Ss11) (r Stmp3)),
      set_f Ss21 (\<lambda>r. fmul32 ops (r Ss21) (r Stmp3)),
      set_f Ss31 (\<lambda>r. fmul32 ops (r Ss31) (r Stmp3)),
      set_f Ss11 (\<lambda>r. fmul32 ops (r Ss11) (r Stmp3)),
      set_f Stmp1 (\<lambda>r. fmul32 ops (r Ss) (r Ss21)),
      set_f Stmp2 (\<lambda>r. fmul32 ops (r Ss) (r Ss31)),
      set_f Ss21 (\<lambda>r. fmul32 ops (r Sc) (r Ss21)),
      set_f Ss31 (\<lambda>r. fmul32 ops (r Sc) (r Ss31)),
      set_f Ss21 (\<lambda>r. fadd_rn ops (r Stmp2) (r Ss21)),
      set_f Ss31 (\<lambda>r. fsub_rn ops (r Ss31) (r Stmp1)),
      set_f Stmp2 (\<lambda>r. fmul32 ops (r Ss) (r Ss)),
      set_f Stmp1 (\<lambda>r. fmul32 ops (r Ss33) (r Stmp2)),
      set_f Stmp3 (\<lambda>r. fmul32 ops (r Ss22) (r Stmp2)),
      set_f Stmp4 (\<lambda>r. fmul32 ops (r Sc) (r Sc)),
      set_f Ss22 (\<lambda>r. fmul32 ops (r Ss22) (r Stmp4)),
      set_f Ss33 (\<lambda>r. fmul32 ops (r Ss33) (r Stmp4)),
      set_f Ss22 (\<lambda>r. fadd_rn ops (r Ss22) (r Stmp1)),
      set_f Ss33 (\<lambda>r. fadd_rn ops (r Ss33) (r Stmp3)),
      set_f Stmp4 (\<lambda>r. fsub_rn ops (r Stmp4) (r Stmp2)),
      set_f Stmp2 (\<lambda>r. fadd_rn ops (r Ss32) (r Ss32)),
      set_f Ss32 (\<lambda>r. fmul32 ops (r Ss32) (r Stmp4)),
      set_f Stmp4 (\<lambda>r. fmul32 ops (r Sc) (r Ss)),
      set_f Stmp2 (\<lambda>r. fmul32 ops (r Stmp2) (r Stmp4)),
      set_f Stmp5 (\<lambda>r. fmul32 ops (r Stmp5) (r Stmp4)),
      set_f Ss22 (\<lambda>r. fadd_rn ops (r Ss22) (r Stmp2)),
      set_f Ss32 (\<lambda>r. fsub_rn ops (r Ss32) (r Stmp5)),
      set_f Ss33 (\<lambda>r. fsub_rn ops (r Ss33) (r Stmp2)),
      set_f Stmp1 (\<lambda>r. fmul32 ops (r Ssh) (r Sqvvx)),
      set_f Stmp2 (\<lambda>r. fmul32 ops (r Ssh) (r Sqvvy)),
      set_f Stmp3 (\<lambda>r. fmul32 ops (r Ssh) (r Sqvvz)),
      set_f Ssh (\<lambda>r. fmul32 ops (r Ssh) (r Sqvs)),
      set_f Sqvs (\<lambda>r. fmul32 ops (r Sch) (r Sqvs)),
      set_f Sqvvx (\<lambda>r. fmul32 ops (r Sch) (r Sqvvx)),
      set_f Sqvvy (\<lambda>r. fmul32 ops (r Sch) (r Sqvvy)),
      set_f Sqvvz (\<lambda>r. fmul32 ops (r Sch) (r Sqvvz)),
      set_f Sqvvx (\<lambda>r. fadd_rn ops (r Sqvvx) (r Ssh)),
      set_f Sqvs (\<lambda>r. fsub_rn ops (r Sqvs) (r Stmp1)),
      set_f Sqvvy (\<lambda>r. fadd_rn ops (r Sqvvy) (r Stmp3)),
      set_f Sqvvz (\<lambda>r. fsub_rn ops (r Sqvvz) (r Stmp2))]"

text \<open>Lines 1469 to 1571: third conjugation of a sweep, marked 1 -> 2.\<close>

definition jacobi_conjugation_c_float :: "fpu32 \<Rightarrow> (regs32 \<Rightarrow> regs32) list" where
  "jacobi_conjugation_c_float ops =
     [set_f Ssh (\<lambda>r. fmul32 ops (r Ss31) float_half),
      set_f Stmp5 (\<lambda>r. fsub_rn ops (r Ss33) (r Ss11)),
      set_f Stmp2 (\<lambda>r. fmul32 ops (r Ssh) (r Ssh)),
      set_ui Stmp1 (\<lambda>r. if fge32 ops (r Stmp2) gtiny_number_float then 0xffffffff else 0),
      set_ui Ssh (\<lambda>r. (ui r Stmp1) AND (ui r Ssh)),
      set_ui Sch (\<lambda>r. (ui r Stmp1) AND (ui r Stmp5)),
      set_ui Stmp2 (\<lambda>r. NOT (ui r Stmp1) AND gone),
      set_ui Sch (\<lambda>r. (ui r Sch) OR (ui r Stmp2)),
      set_f Stmp1 (\<lambda>r. fmul32 ops (r Ssh) (r Ssh)),
      set_f Stmp2 (\<lambda>r. fmul32 ops (r Sch) (r Sch)),
      set_f Stmp3 (\<lambda>r. fadd_rn ops (r Stmp1) (r Stmp2)),
      set_f Stmp4 (\<lambda>r. frsqrt_rn ops (r Stmp3)),
      set_f Ssh (\<lambda>r. fmul32 ops (r Stmp4) (r Ssh)),
      set_f Sch (\<lambda>r. fmul32 ops (r Stmp4) (r Sch)),
      set_f Stmp1 (\<lambda>r. fmul32 ops gfour_gamma_squared_float (r Stmp1)),
      set_ui Stmp1 (\<lambda>r. if fle32 ops (r Stmp2) (r Stmp1) then 0xffffffff else 0),
      set_ui Stmp2 (\<lambda>r. gsine_pi_over_eight AND (ui r Stmp1)),
      set_ui Ssh (\<lambda>r. NOT (ui r Stmp1) AND (ui r Ssh)),
      set_ui Ssh (\<lambda>r. (ui r Ssh) OR (ui r Stmp2)),
      set_ui Stmp2 (\<lambda>r. gcosine_pi_over_eight AND (ui r Stmp1)),
      set_ui Sch (\<lambda>r. NOT (ui r Stmp1) AND (ui r Sch)),
      set_ui Sch (\<lambda>r. (ui r Sch) OR (ui r Stmp2)),
      set_f Stmp1 (\<lambda>r. fmul32 ops (r Ssh) (r Ssh)),
      set_f Stmp2 (\<lambda>r. fmul32 ops (r Sch) (r Sch)),
      set_f Sc (\<lambda>r. fsub_rn ops (r Stmp2) (r Stmp1)),
      set_f Ss (\<lambda>r. fmul32 ops (r Sch) (r Ssh)),
      set_f Ss (\<lambda>r. fadd_rn ops (r Ss) (r Ss)),
      set_f Stmp3 (\<lambda>r. fadd_rn ops (r Stmp1) (r Stmp2)),
      set_f Ss22 (\<lambda>r. fmul32 ops (r Ss22) (r Stmp3)),
      set_f Ss32 (\<lambda>r. fmul32 ops (r Ss32) (r Stmp3)),
      set_f Ss21 (\<lambda>r. fmul32 ops (r Ss21) (r Stmp3)),
      set_f Ss22 (\<lambda>r. fmul32 ops (r Ss22) (r Stmp3)),
      set_f Stmp1 (\<lambda>r. fmul32 ops (r Ss) (r Ss32)),
      set_f Stmp2 (\<lambda>r. fmul32 ops (r Ss) (r Ss21)),
      set_f Ss32 (\<lambda>r. fmul32 ops (r Sc) (r Ss32)),
      set_f Ss21 (\<lambda>r. fmul32 ops (r Sc) (r Ss21)),
      set_f Ss32 (\<lambda>r. fadd_rn ops (r Stmp2) (r Ss32)),
      set_f Ss21 (\<lambda>r. fsub_rn ops (r Ss21) (r Stmp1)),
      set_f Stmp2 (\<lambda>r. fmul32 ops (r Ss) (r Ss)),
      set_f Stmp1 (\<lambda>r. fmul32 ops (r Ss11) (r Stmp2)),
      set_f Stmp3 (\<lambda>r. fmul32 ops (r Ss33) (r Stmp2)),
      set_f Stmp4 (\<lambda>r. fmul32 ops (r Sc) (r Sc)),
      set_f Ss33 (\<lambda>r. fmul32 ops (r Ss33) (r Stmp4)),
      set_f Ss11 (\<lambda>r. fmul32 ops (r Ss11) (r Stmp4)),
      set_f Ss33 (\<lambda>r. fadd_rn ops (r Ss33) (r Stmp1)),
      set_f Ss11 (\<lambda>r. fadd_rn ops (r Ss11) (r Stmp3)),
      set_f Stmp4 (\<lambda>r. fsub_rn ops (r Stmp4) (r Stmp2)),
      set_f Stmp2 (\<lambda>r. fadd_rn ops (r Ss31) (r Ss31)),
      set_f Ss31 (\<lambda>r. fmul32 ops (r Ss31) (r Stmp4)),
      set_f Stmp4 (\<lambda>r. fmul32 ops (r Sc) (r Ss)),
      set_f Stmp2 (\<lambda>r. fmul32 ops (r Stmp2) (r Stmp4)),
      set_f Stmp5 (\<lambda>r. fmul32 ops (r Stmp5) (r Stmp4)),
      set_f Ss33 (\<lambda>r. fadd_rn ops (r Ss33) (r Stmp2)),
      set_f Ss31 (\<lambda>r. fsub_rn ops (r Ss31) (r Stmp5)),
      set_f Ss11 (\<lambda>r. fsub_rn ops (r Ss11) (r Stmp2)),
      set_f Stmp1 (\<lambda>r. fmul32 ops (r Ssh) (r Sqvvx)),
      set_f Stmp2 (\<lambda>r. fmul32 ops (r Ssh) (r Sqvvy)),
      set_f Stmp3 (\<lambda>r. fmul32 ops (r Ssh) (r Sqvvz)),
      set_f Ssh (\<lambda>r. fmul32 ops (r Ssh) (r Sqvs)),
      set_f Sqvs (\<lambda>r. fmul32 ops (r Sch) (r Sqvs)),
      set_f Sqvvx (\<lambda>r. fmul32 ops (r Sch) (r Sqvvx)),
      set_f Sqvvy (\<lambda>r. fmul32 ops (r Sch) (r Sqvvy)),
      set_f Sqvvz (\<lambda>r. fmul32 ops (r Sch) (r Sqvvz)),
      set_f Sqvvy (\<lambda>r. fadd_rn ops (r Sqvvy) (r Ssh)),
      set_f Sqvs (\<lambda>r. fsub_rn ops (r Sqvs) (r Stmp2)),
      set_f Sqvvz (\<lambda>r. fadd_rn ops (r Sqvvz) (r Stmp1)),
      set_f Sqvvx (\<lambda>r. fsub_rn ops (r Sqvvx) (r Stmp3))]"

text \<open>Lines 1574 to 1599: normalize the quaternion for V.\<close>

definition svd_normalize_quaternion_float :: "fpu32 \<Rightarrow> (regs32 \<Rightarrow> regs32) list" where
  "svd_normalize_quaternion_float ops =
     [set_f Stmp2 (\<lambda>r. fmul32 ops (r Sqvs) (r Sqvs)),
      set_f Stmp1 (\<lambda>r. fmul32 ops (r Sqvvx) (r Sqvvx)),
      set_f Stmp2 (\<lambda>r. fadd_rn ops (r Stmp1) (r Stmp2)),
      set_f Stmp1 (\<lambda>r. fmul32 ops (r Sqvvy) (r Sqvvy)),
      set_f Stmp2 (\<lambda>r. fadd_rn ops (r Stmp1) (r Stmp2)),
      set_f Stmp1 (\<lambda>r. fmul32 ops (r Sqvvz) (r Sqvvz)),
      set_f Stmp2 (\<lambda>r. fadd_rn ops (r Stmp1) (r Stmp2)),
      set_f Stmp1 (\<lambda>r. frsqrt_rn ops (r Stmp2)),
      set_f Stmp4 (\<lambda>r. fmul32 ops (r Stmp1) float_half),
      set_f Stmp3 (\<lambda>r. fmul32 ops (r Stmp1) (r Stmp4)),
      set_f Stmp3 (\<lambda>r. fmul32 ops (r Stmp1) (r Stmp3)),
      set_f Stmp3 (\<lambda>r. fmul32 ops (r Stmp2) (r Stmp3)),
      set_f Stmp1 (\<lambda>r. fadd_rn ops (r Stmp1) (r Stmp4)),
      set_f Stmp1 (\<lambda>r. fsub_rn ops (r Stmp1) (r Stmp3)),
      set_f Sqvs (\<lambda>r. fmul32 ops (r Sqvs) (r Stmp1)),
      set_f Sqvvx (\<lambda>r. fmul32 ops (r Sqvvx) (r Stmp1)),
      set_f Sqvvy (\<lambda>r. fmul32 ops (r Sqvvy) (r Stmp1)),
      set_f Sqvvz (\<lambda>r. fmul32 ops (r Sqvvz) (r Stmp1))]"

text \<open>Lines 1600 to 1631: transform the quaternion to the matrix V.\<close>

definition svd_quaternion_to_matrix_float :: "fpu32 \<Rightarrow> (regs32 \<Rightarrow> regs32) list" where
  "svd_quaternion_to_matrix_float ops =
     [set_f Stmp1 (\<lambda>r. fmul32 ops (r Sqvvx) (r Sqvvx)),
      set_f Stmp2 (\<lambda>r. fmul32 ops (r Sqvvy) (r Sqvvy)),
      set_f Stmp3 (\<lambda>r. fmul32 ops (r Sqvvz) (r Sqvvz)),
      set_f Sv11 (\<lambda>r. fmul32 ops (r Sqvs) (r Sqvs)),
      set_f Sv22 (\<lambda>r. fsub_rn ops (r Sv11) (r Stmp1)),
      set_f Sv33 (\<lambda>r. fsub_rn ops (r Sv22) (r Stmp2)),
      set_f Sv33 (\<lambda>r. fadd_rn ops (r Sv33) (r Stmp3)),
      set_f Sv22 (\<lambda>r. fadd_rn ops (r Sv22) (r Stmp2)),
      set_f Sv22 (\<lambda>r. fsub_rn ops (r Sv22) (r Stmp3)),
      set_f Sv11 (\<lambda>r. fadd_rn ops (r Sv11) (r Stmp1)),
      set_f Sv11 (\<lambda>r. fsub_rn ops (r Sv11) (r Stmp2)),
      set_f Sv11 (\<lambda>r. fsub_rn ops (r Sv11) (r Stmp3)),
      set_f Stmp1 (\<lambda>r. fadd_rn ops (r Sqvvx) (r Sqvvx)),
      set_f Stmp2 (\<lambda>r. fadd_rn ops (r Sqvvy) (r Sqvvy)),
      set_f Stmp3 (\<lambda>r. fadd_rn ops (r Sqvvz) (r Sqvvz)),
      set_f Sv32 (\<lambda>r. fmul32 ops (r Sqvs) (r Stmp1)),
      set_f Sv13 (\<lambda>r. fmul32 ops (r Sqvs) (r Stmp2)),
      set_f Sv21 (\<lambda>r. fmul32 ops (r Sqvs) (r Stmp3)),
      set_f Stmp1 (\<lambda>r. fmul32 ops (r Sqvvy) (r Stmp1)),
      set_f Stmp2 (\<lambda>r. fmul32 ops (r Sqvvz) (r Stmp2)),
      set_f Stmp3 (\<lambda>r. fmul32 ops (r Sqvvx) (r Stmp3)),
      set_f Sv12 (\<lambda>r. fsub_rn ops (r Stmp1) (r Sv21)),
      set_f Sv23 (\<lambda>r. fsub_rn ops (r Stmp2) (r Sv32)),
      set_f Sv31 (\<lambda>r. fsub_rn ops (r Stmp3) (r Sv13)),
      set_f Sv21 (\<lambda>r. fadd_rn ops (r Stmp1) (r Sv21)),
      set_f Sv32 (\<lambda>r. fadd_rn ops (r Stmp2) (r Sv32)),
      set_f Sv13 (\<lambda>r. fadd_rn ops (r Stmp3) (r Sv13))]"

text \<open>Lines 1632 to 1689: multiply A from the right with V.\<close>

definition svd_multiply_with_V_float :: "fpu32 \<Rightarrow> (regs32 \<Rightarrow> regs32) list" where
  "svd_multiply_with_V_float ops =
     [set_f Stmp2 (\<lambda>r. r Sa12),
      set_f Stmp3 (\<lambda>r. r Sa13),
      set_f Sa12 (\<lambda>r. fmul32 ops (r Sv12) (r Sa11)),
      set_f Sa13 (\<lambda>r. fmul32 ops (r Sv13) (r Sa11)),
      set_f Sa11 (\<lambda>r. fmul32 ops (r Sv11) (r Sa11)),
      set_f Stmp1 (\<lambda>r. fmul32 ops (r Sv21) (r Stmp2)),
      set_f Sa11 (\<lambda>r. fadd_rn ops (r Sa11) (r Stmp1)),
      set_f Stmp1 (\<lambda>r. fmul32 ops (r Sv31) (r Stmp3)),
      set_f Sa11 (\<lambda>r. fadd_rn ops (r Sa11) (r Stmp1)),
      set_f Stmp1 (\<lambda>r. fmul32 ops (r Sv22) (r Stmp2)),
      set_f Sa12 (\<lambda>r. fadd_rn ops (r Sa12) (r Stmp1)),
      set_f Stmp1 (\<lambda>r. fmul32 ops (r Sv32) (r Stmp3)),
      set_f Sa12 (\<lambda>r. fadd_rn ops (r Sa12) (r Stmp1)),
      set_f Stmp1 (\<lambda>r. fmul32 ops (r Sv23) (r Stmp2)),
      set_f Sa13 (\<lambda>r. fadd_rn ops (r Sa13) (r Stmp1)),
      set_f Stmp1 (\<lambda>r. fmul32 ops (r Sv33) (r Stmp3)),
      set_f Sa13 (\<lambda>r. fadd_rn ops (r Sa13) (r Stmp1)),
      set_f Stmp2 (\<lambda>r. r Sa22),
      set_f Stmp3 (\<lambda>r. r Sa23),
      set_f Sa22 (\<lambda>r. fmul32 ops (r Sv12) (r Sa21)),
      set_f Sa23 (\<lambda>r. fmul32 ops (r Sv13) (r Sa21)),
      set_f Sa21 (\<lambda>r. fmul32 ops (r Sv11) (r Sa21)),
      set_f Stmp1 (\<lambda>r. fmul32 ops (r Sv21) (r Stmp2)),
      set_f Sa21 (\<lambda>r. fadd_rn ops (r Sa21) (r Stmp1)),
      set_f Stmp1 (\<lambda>r. fmul32 ops (r Sv31) (r Stmp3)),
      set_f Sa21 (\<lambda>r. fadd_rn ops (r Sa21) (r Stmp1)),
      set_f Stmp1 (\<lambda>r. fmul32 ops (r Sv22) (r Stmp2)),
      set_f Sa22 (\<lambda>r. fadd_rn ops (r Sa22) (r Stmp1)),
      set_f Stmp1 (\<lambda>r. fmul32 ops (r Sv32) (r Stmp3)),
      set_f Sa22 (\<lambda>r. fadd_rn ops (r Sa22) (r Stmp1)),
      set_f Stmp1 (\<lambda>r. fmul32 ops (r Sv23) (r Stmp2)),
      set_f Sa23 (\<lambda>r. fadd_rn ops (r Sa23) (r Stmp1)),
      set_f Stmp1 (\<lambda>r. fmul32 ops (r Sv33) (r Stmp3)),
      set_f Sa23 (\<lambda>r. fadd_rn ops (r Sa23) (r Stmp1)),
      set_f Stmp2 (\<lambda>r. r Sa32),
      set_f Stmp3 (\<lambda>r. r Sa33),
      set_f Sa32 (\<lambda>r. fmul32 ops (r Sv12) (r Sa31)),
      set_f Sa33 (\<lambda>r. fmul32 ops (r Sv13) (r Sa31)),
      set_f Sa31 (\<lambda>r. fmul32 ops (r Sv11) (r Sa31)),
      set_f Stmp1 (\<lambda>r. fmul32 ops (r Sv21) (r Stmp2)),
      set_f Sa31 (\<lambda>r. fadd_rn ops (r Sa31) (r Stmp1)),
      set_f Stmp1 (\<lambda>r. fmul32 ops (r Sv31) (r Stmp3)),
      set_f Sa31 (\<lambda>r. fadd_rn ops (r Sa31) (r Stmp1)),
      set_f Stmp1 (\<lambda>r. fmul32 ops (r Sv22) (r Stmp2)),
      set_f Sa32 (\<lambda>r. fadd_rn ops (r Sa32) (r Stmp1)),
      set_f Stmp1 (\<lambda>r. fmul32 ops (r Sv32) (r Stmp3)),
      set_f Sa32 (\<lambda>r. fadd_rn ops (r Sa32) (r Stmp1)),
      set_f Stmp1 (\<lambda>r. fmul32 ops (r Sv23) (r Stmp2)),
      set_f Sa33 (\<lambda>r. fadd_rn ops (r Sa33) (r Stmp1)),
      set_f Stmp1 (\<lambda>r. fmul32 ops (r Sv33) (r Stmp3)),
      set_f Sa33 (\<lambda>r. fadd_rn ops (r Sa33) (r Stmp1))]"

text \<open>Lines 1690 to 1873: permute the columns so that the singular values are sorted.\<close>

definition svd_sort_columns_float :: "fpu32 \<Rightarrow> (regs32 \<Rightarrow> regs32) list" where
  "svd_sort_columns_float ops =
     [set_f Stmp1 (\<lambda>r. fmul32 ops (r Sa11) (r Sa11)),
      set_f Stmp4 (\<lambda>r. fmul32 ops (r Sa21) (r Sa21)),
      set_f Stmp1 (\<lambda>r. fadd_rn ops (r Stmp1) (r Stmp4)),
      set_f Stmp4 (\<lambda>r. fmul32 ops (r Sa31) (r Sa31)),
      set_f Stmp1 (\<lambda>r. fadd_rn ops (r Stmp1) (r Stmp4)),
      set_f Stmp2 (\<lambda>r. fmul32 ops (r Sa12) (r Sa12)),
      set_f Stmp4 (\<lambda>r. fmul32 ops (r Sa22) (r Sa22)),
      set_f Stmp2 (\<lambda>r. fadd_rn ops (r Stmp2) (r Stmp4)),
      set_f Stmp4 (\<lambda>r. fmul32 ops (r Sa32) (r Sa32)),
      set_f Stmp2 (\<lambda>r. fadd_rn ops (r Stmp2) (r Stmp4)),
      set_f Stmp3 (\<lambda>r. fmul32 ops (r Sa13) (r Sa13)),
      set_f Stmp4 (\<lambda>r. fmul32 ops (r Sa23) (r Sa23)),
      set_f Stmp3 (\<lambda>r. fadd_rn ops (r Stmp3) (r Stmp4)),
      set_f Stmp4 (\<lambda>r. fmul32 ops (r Sa33) (r Sa33)),
      set_f Stmp3 (\<lambda>r. fadd_rn ops (r Stmp3) (r Stmp4)),
      set_ui Stmp4 (\<lambda>r. if flt32 ops (r Stmp1) (r Stmp2) then 0xffffffff else 0),
      set_ui Stmp5 (\<lambda>r. (ui r Sa11) XOR (ui r Sa12)),
      set_ui Stmp5 (\<lambda>r. (ui r Stmp5) AND (ui r Stmp4)),
      set_ui Sa11 (\<lambda>r. (ui r Sa11) XOR (ui r Stmp5)),
      set_ui Sa12 (\<lambda>r. (ui r Sa12) XOR (ui r Stmp5)),
      set_ui Stmp5 (\<lambda>r. (ui r Sa21) XOR (ui r Sa22)),
      set_ui Stmp5 (\<lambda>r. (ui r Stmp5) AND (ui r Stmp4)),
      set_ui Sa21 (\<lambda>r. (ui r Sa21) XOR (ui r Stmp5)),
      set_ui Sa22 (\<lambda>r. (ui r Sa22) XOR (ui r Stmp5)),
      set_ui Stmp5 (\<lambda>r. (ui r Sa31) XOR (ui r Sa32)),
      set_ui Stmp5 (\<lambda>r. (ui r Stmp5) AND (ui r Stmp4)),
      set_ui Sa31 (\<lambda>r. (ui r Sa31) XOR (ui r Stmp5)),
      set_ui Sa32 (\<lambda>r. (ui r Sa32) XOR (ui r Stmp5)),
      set_ui Stmp5 (\<lambda>r. (ui r Sv11) XOR (ui r Sv12)),
      set_ui Stmp5 (\<lambda>r. (ui r Stmp5) AND (ui r Stmp4)),
      set_ui Sv11 (\<lambda>r. (ui r Sv11) XOR (ui r Stmp5)),
      set_ui Sv12 (\<lambda>r. (ui r Sv12) XOR (ui r Stmp5)),
      set_ui Stmp5 (\<lambda>r. (ui r Sv21) XOR (ui r Sv22)),
      set_ui Stmp5 (\<lambda>r. (ui r Stmp5) AND (ui r Stmp4)),
      set_ui Sv21 (\<lambda>r. (ui r Sv21) XOR (ui r Stmp5)),
      set_ui Sv22 (\<lambda>r. (ui r Sv22) XOR (ui r Stmp5)),
      set_ui Stmp5 (\<lambda>r. (ui r Sv31) XOR (ui r Sv32)),
      set_ui Stmp5 (\<lambda>r. (ui r Stmp5) AND (ui r Stmp4)),
      set_ui Sv31 (\<lambda>r. (ui r Sv31) XOR (ui r Stmp5)),
      set_ui Sv32 (\<lambda>r. (ui r Sv32) XOR (ui r Stmp5)),
      set_ui Stmp5 (\<lambda>r. (ui r Stmp1) XOR (ui r Stmp2)),
      set_ui Stmp5 (\<lambda>r. (ui r Stmp5) AND (ui r Stmp4)),
      set_ui Stmp1 (\<lambda>r. (ui r Stmp1) XOR (ui r Stmp5)),
      set_ui Stmp2 (\<lambda>r. (ui r Stmp2) XOR (ui r Stmp5)),
      set_f Stmp5 (\<lambda>r. float_minus_two),
      set_ui Stmp5 (\<lambda>r. (ui r Stmp5) AND (ui r Stmp4)),
      set_f Stmp4 (\<lambda>r. float_one),
      set_f Stmp4 (\<lambda>r. fadd_rn ops (r Stmp4) (r Stmp5)),
      set_f Sa12 (\<lambda>r. fmul32 ops (r Sa12) (r Stmp4)),
      set_f Sa22 (\<lambda>r. fmul32 ops (r Sa22) (r Stmp4)),
      set_f Sa32 (\<lambda>r. fmul32 ops (r Sa32) (r Stmp4)),
      set_f Sv12 (\<lambda>r. fmul32 ops (r Sv12) (r Stmp4)),
      set_f Sv22 (\<lambda>r. fmul32 ops (r Sv22) (r Stmp4)),
      set_f Sv32 (\<lambda>r. fmul32 ops (r Sv32) (r Stmp4)),
      set_ui Stmp4 (\<lambda>r. if flt32 ops (r Stmp1) (r Stmp3) then 0xffffffff else 0),
      set_ui Stmp5 (\<lambda>r. (ui r Sa11) XOR (ui r Sa13)),
      set_ui Stmp5 (\<lambda>r. (ui r Stmp5) AND (ui r Stmp4)),
      set_ui Sa11 (\<lambda>r. (ui r Sa11) XOR (ui r Stmp5)),
      set_ui Sa13 (\<lambda>r. (ui r Sa13) XOR (ui r Stmp5)),
      set_ui Stmp5 (\<lambda>r. (ui r Sa21) XOR (ui r Sa23)),
      set_ui Stmp5 (\<lambda>r. (ui r Stmp5) AND (ui r Stmp4)),
      set_ui Sa21 (\<lambda>r. (ui r Sa21) XOR (ui r Stmp5)),
      set_ui Sa23 (\<lambda>r. (ui r Sa23) XOR (ui r Stmp5)),
      set_ui Stmp5 (\<lambda>r. (ui r Sa31) XOR (ui r Sa33)),
      set_ui Stmp5 (\<lambda>r. (ui r Stmp5) AND (ui r Stmp4)),
      set_ui Sa31 (\<lambda>r. (ui r Sa31) XOR (ui r Stmp5)),
      set_ui Sa33 (\<lambda>r. (ui r Sa33) XOR (ui r Stmp5)),
      set_ui Stmp5 (\<lambda>r. (ui r Sv11) XOR (ui r Sv13)),
      set_ui Stmp5 (\<lambda>r. (ui r Stmp5) AND (ui r Stmp4)),
      set_ui Sv11 (\<lambda>r. (ui r Sv11) XOR (ui r Stmp5)),
      set_ui Sv13 (\<lambda>r. (ui r Sv13) XOR (ui r Stmp5)),
      set_ui Stmp5 (\<lambda>r. (ui r Sv21) XOR (ui r Sv23)),
      set_ui Stmp5 (\<lambda>r. (ui r Stmp5) AND (ui r Stmp4)),
      set_ui Sv21 (\<lambda>r. (ui r Sv21) XOR (ui r Stmp5)),
      set_ui Sv23 (\<lambda>r. (ui r Sv23) XOR (ui r Stmp5)),
      set_ui Stmp5 (\<lambda>r. (ui r Sv31) XOR (ui r Sv33)),
      set_ui Stmp5 (\<lambda>r. (ui r Stmp5) AND (ui r Stmp4)),
      set_ui Sv31 (\<lambda>r. (ui r Sv31) XOR (ui r Stmp5)),
      set_ui Sv33 (\<lambda>r. (ui r Sv33) XOR (ui r Stmp5)),
      set_ui Stmp5 (\<lambda>r. (ui r Stmp1) XOR (ui r Stmp3)),
      set_ui Stmp5 (\<lambda>r. (ui r Stmp5) AND (ui r Stmp4)),
      set_ui Stmp1 (\<lambda>r. (ui r Stmp1) XOR (ui r Stmp5)),
      set_ui Stmp3 (\<lambda>r. (ui r Stmp3) XOR (ui r Stmp5)),
      set_f Stmp5 (\<lambda>r. float_minus_two),
      set_ui Stmp5 (\<lambda>r. (ui r Stmp5) AND (ui r Stmp4)),
      set_f Stmp4 (\<lambda>r. float_one),
      set_f Stmp4 (\<lambda>r. fadd_rn ops (r Stmp4) (r Stmp5)),
      set_f Sa11 (\<lambda>r. fmul32 ops (r Sa11) (r Stmp4)),
      set_f Sa21 (\<lambda>r. fmul32 ops (r Sa21) (r Stmp4)),
      set_f Sa31 (\<lambda>r. fmul32 ops (r Sa31) (r Stmp4)),
      set_f Sv11 (\<lambda>r. fmul32 ops (r Sv11) (r Stmp4)),
      set_f Sv21 (\<lambda>r. fmul32 ops (r Sv21) (r Stmp4)),
      set_f Sv31 (\<lambda>r. fmul32 ops (r Sv31) (r Stmp4)),
      set_ui Stmp4 (\<lambda>r. if flt32 ops (r Stmp2) (r Stmp3) then 0xffffffff else 0),
      set_ui Stmp5 (\<lambda>r. (ui r Sa12) XOR (ui r Sa13)),
      set_ui Stmp5 (\<lambda>r. (ui r Stmp5) AND (ui r Stmp4)),
      set_ui Sa12 (\<lambda>r. (ui r Sa12) XOR (ui r Stmp5)),
      set_ui Sa13 (\<lambda>r. (ui r Sa13) XOR (ui r Stmp5)),
      set_ui Stmp5 (\<lambda>r. (ui r Sa22) XOR (ui r Sa23)),
      set_ui Stmp5 (\<lambda>r. (ui r Stmp5) AND (ui r Stmp4)),
      set_ui Sa22 (\<lambda>r. (ui r Sa22) XOR (ui r Stmp5)),
      set_ui Sa23 (\<lambda>r. (ui r Sa23) XOR (ui r Stmp5)),
      set_ui Stmp5 (\<lambda>r. (ui r Sa32) XOR (ui r Sa33)),
      set_ui Stmp5 (\<lambda>r. (ui r Stmp5) AND (ui r Stmp4)),
      set_ui Sa32 (\<lambda>r. (ui r Sa32) XOR (ui r Stmp5)),
      set_ui Sa33 (\<lambda>r. (ui r Sa33) XOR (ui r Stmp5)),
      set_ui Stmp5 (\<lambda>r. (ui r Sv12) XOR (ui r Sv13)),
      set_ui Stmp5 (\<lambda>r. (ui r Stmp5) AND (ui r Stmp4)),
      set_ui Sv12 (\<lambda>r. (ui r Sv12) XOR (ui r Stmp5)),
      set_ui Sv13 (\<lambda>r. (ui r Sv13) XOR (ui r Stmp5)),
      set_ui Stmp5 (\<lambda>r. (ui r Sv22) XOR (ui r Sv23)),
      set_ui Stmp5 (\<lambda>r. (ui r Stmp5) AND (ui r Stmp4)),
      set_ui Sv22 (\<lambda>r. (ui r Sv22) XOR (ui r Stmp5)),
      set_ui Sv23 (\<lambda>r. (ui r Sv23) XOR (ui r Stmp5)),
      set_ui Stmp5 (\<lambda>r. (ui r Sv32) XOR (ui r Sv33)),
      set_ui Stmp5 (\<lambda>r. (ui r Stmp5) AND (ui r Stmp4)),
      set_ui Sv32 (\<lambda>r. (ui r Sv32) XOR (ui r Stmp5)),
      set_ui Sv33 (\<lambda>r. (ui r Sv33) XOR (ui r Stmp5)),
      set_ui Stmp5 (\<lambda>r. (ui r Stmp2) XOR (ui r Stmp3)),
      set_ui Stmp5 (\<lambda>r. (ui r Stmp5) AND (ui r Stmp4)),
      set_ui Stmp2 (\<lambda>r. (ui r Stmp2) XOR (ui r Stmp5)),
      set_ui Stmp3 (\<lambda>r. (ui r Stmp3) XOR (ui r Stmp5)),
      set_f Stmp5 (\<lambda>r. float_minus_two),
      set_ui Stmp5 (\<lambda>r. (ui r Stmp5) AND (ui r Stmp4)),
      set_f Stmp4 (\<lambda>r. float_one),
      set_f Stmp4 (\<lambda>r. fadd_rn ops (r Stmp4) (r Stmp5)),
      set_f Sa13 (\<lambda>r. fmul32 ops (r Sa13) (r Stmp4)),
      set_f Sa23 (\<lambda>r. fmul32 ops (r Sa23) (r Stmp4)),
      set_f Sa33 (\<lambda>r. fmul32 ops (r Sa33) (r Stmp4)),
      set_f Sv13 (\<lambda>r. fmul32 ops (r Sv13) (r Stmp4)),
      set_f Sv23 (\<lambda>r. fmul32 ops (r Sv23) (r Stmp4)),
      set_f Sv33 (\<lambda>r. fmul32 ops (r Sv33) (r Stmp4))]"

text \<open>Lines 1874 to 1989: first Givens rotation of the QR factorization of A V.\<close>

definition svd_givens_first_float :: "fpu32 \<Rightarrow> (regs32 \<Rightarrow> regs32) list" where
  "svd_givens_first_float ops =
     [set_f Su11 (\<lambda>r. float_one),
      set_f Su12 (\<lambda>r. float_zero),
      set_f Su13 (\<lambda>r. float_zero),
      set_f Su21 (\<lambda>r. float_zero),
      set_f Su22 (\<lambda>r. float_one),
      set_f Su23 (\<lambda>r. float_zero),
      set_f Su31 (\<lambda>r. float_zero),
      set_f Su32 (\<lambda>r. float_zero),
      set_f Su33 (\<lambda>r. float_one),
      set_f Ssh (\<lambda>r. fmul32 ops (r Sa21) (r Sa21)),
      set_ui Ssh (\<lambda>r. if fge32 ops (r Ssh) gsmall_number_float then 0xffffffff else 0),
      set_ui Ssh (\<lambda>r. (ui r Ssh) AND (ui r Sa21)),
      set_f Stmp5 (\<lambda>r. float_zero),
      set_f Sch (\<lambda>r. fsub_rn ops (r Stmp5) (r Sa11)),
      set_f Sch (\<lambda>r. fmax32 ops (r Sch) (r Sa11)),
      set_f Sch (\<lambda>r. fmax32 ops (r Sch) gsmall_number_float),
      set_ui Stmp5 (\<lambda>r. if fge32 ops (r Sa11) (r Stmp5) then 0xffffffff else 0),
      set_f Stmp1 (\<lambda>r. fmul32 ops (r Sch) (r Sch)),
      set_f Stmp2 (\<lambda>r. fmul32 ops (r Ssh) (r Ssh)),
      set_f Stmp2 (\<lambda>r. fadd_rn ops (r Stmp1) (r Stmp2)),
      set_f Stmp1 (\<lambda>r. frsqrt_rn ops (r Stmp2)),
      set_f Stmp4 (\<lambda>r. fmul32 ops (r Stmp1) float_half),
      set_f Stmp3 (\<lambda>r. fmul32 ops (r Stmp1) (r Stmp4)),
      set_f Stmp3 (\<lambda>r. fmul32 ops (r Stmp1) (r Stmp3)),
      set_f Stmp3 (\<lambda>r. fmul32 ops (r Stmp2) (r Stmp3)),
      set_f Stmp1 (\<lambda>r. fadd_rn ops (r Stmp1) (r Stmp4)),
      set_f Stmp1 (\<lambda>r. fsub_rn ops (r Stmp1) (r Stmp3)),
      set_f Stmp1 (\<lambda>r. fmul32 ops (r Stmp1) (r Stmp2)),
      set_f Sch (\<lambda>r. fadd_rn ops (r Sch) (r Stmp1)),
      set_ui Stmp1 (\<lambda>r. NOT (ui r Stmp5) AND (ui r Ssh)),
      set_ui Stmp2 (\<lambda>r. NOT (ui r Stmp5) AND (ui r Sch)),
      set_ui Sch (\<lambda>r. (ui r Stmp5) AND (ui r Sch)),
      set_ui Ssh (\<lambda>r. (ui r Stmp5) AND (ui r Ssh)),
      set_ui Sch (\<lambda>r. (ui r Sch) OR (ui r Stmp1)),
      set_ui Ssh (\<lambda>r. (ui r Ssh) OR (ui r Stmp2)),
      set_f Stmp1 (\<lambda>r. fmul32 ops (r Sch) (r Sch)),
      set_f Stmp2 (\<lambda>r. fmul32 ops (r Ssh) (r Ssh)),
      set_f Stmp2 (\<lambda>r. fadd_rn ops (r Stmp1) (r Stmp2)),
      set_f Stmp1 (\<lambda>r. frsqrt_rn ops (r Stmp2)),
      set_f Stmp4 (\<lambda>r. fmul32 ops (r Stmp1) float_half),
      set_f Stmp3 (\<lambda>r. fmul32 ops (r Stmp1) (r Stmp4)),
      set_f Stmp3 (\<lambda>r. fmul32 ops (r Stmp1) (r Stmp3)),
      set_f Stmp3 (\<lambda>r. fmul32 ops (r Stmp2) (r Stmp3)),
      set_f Stmp1 (\<lambda>r. fadd_rn ops (r Stmp1) (r Stmp4)),
      set_f Stmp1 (\<lambda>r. fsub_rn ops (r Stmp1) (r Stmp3)),
      set_f Sch (\<lambda>r. fmul32 ops (r Sch) (r Stmp1)),
      set_f Ssh (\<lambda>r. fmul32 ops (r Ssh) (r Stmp1)),
      set_f Sc (\<lambda>r. fmul32 ops (r Sch) (r Sch)),
      set_f Ss (\<lambda>r. fmul32 ops (r Ssh) (r Ssh)),
      set_f Sc (\<lambda>r. fsub_rn ops (r Sc) (r Ss)),
      set_f Ss (\<lambda>r. fmul32 ops (r Ssh) (r Sch)),
      set_f Ss (\<lambda>r. fadd_rn ops (r Ss) (r Ss)),
      set_f Stmp1 (\<lambda>r. fmul32 ops (r Ss) (r Sa11)),
      set_f Stmp2 (\<lambda>r. fmul32 ops (r Ss) (r Sa21)),
      set_f Sa11 (\<lambda>r. fmul32 ops (r Sc) (r Sa11)),
      set_f Sa21 (\<lambda>r. fmul32 ops (r Sc) (r Sa21)),
      set_f Sa11 (\<lambda>r. fadd_rn ops (r Sa11) (r Stmp2)),
      set_f Sa21 (\<lambda>r. fsub_rn ops (r Sa21) (r Stmp1)),
      set_f Stmp1 (\<lambda>r. fmul32 ops (r Ss) (r Sa12)),
      set_f Stmp2 (\<lambda>r. fmul32 ops (r Ss) (r Sa22)),
      set_f Sa12 (\<lambda>r. fmul32 ops (r Sc) (r Sa12)),
      set_f Sa22 (\<lambda>r. fmul32 ops (r Sc) (r Sa22)),
      set_f Sa12 (\<lambda>r. fadd_rn ops (r Sa12) (r Stmp2)),
      set_f Sa22 (\<lambda>r. fsub_rn ops (r Sa22) (r Stmp1)),
      set_f Stmp1 (\<lambda>r. fmul32 ops (r Ss) (r Sa13)),
      set_f Stmp2 (\<lambda>r. fmul32 ops (r Ss) (r Sa23)),
      set_f Sa13 (\<lambda>r. fmul32 ops (r Sc) (r Sa13)),
      set_f Sa23 (\<lambda>r. fmul32 ops (r Sc) (r Sa23)),
      set_f Sa13 (\<lambda>r. fadd_rn ops (r Sa13) (r Stmp2)),
      set_f Sa23 (\<lambda>r. fsub_rn ops (r Sa23) (r Stmp1)),
      set_f Stmp1 (\<lambda>r. fmul32 ops (r Ss) (r Su11)),
      set_f Stmp2 (\<lambda>r. fmul32 ops (r Ss) (r Su12)),
      set_f Su11 (\<lambda>r. fmul32 ops (r Sc) (r Su11)),
      set_f Su12 (\<lambda>r. fmul32 ops (r Sc) (r Su12)),
      set_f Su11 (\<lambda>r. fadd_rn ops (r Su11) (r Stmp2)),
      set_f Su12 (\<lambda>r. fsub_rn ops (r Su12) (r Stmp1)),
      set_f Stmp1 (\<lambda>r. fmul32 ops (r Ss) (r Su21)),
      set_f Stmp2 (\<lambda>r. fmul32 ops (r Ss) (r Su22)),
      set_f Su21 (\<lambda>r. fmul32 ops (r Sc) (r Su21)),
      set_f Su22 (\<lambda>r. fmul32 ops (r Sc) (r Su22)),
      set_f Su21 (\<lambda>r. fadd_rn ops (r Su21) (r Stmp2)),
      set_f Su22 (\<lambda>r. fsub_rn ops (r Su22) (r Stmp1)),
      set_f Stmp1 (\<lambda>r. fmul32 ops (r Ss) (r Su31)),
      set_f Stmp2 (\<lambda>r. fmul32 ops (r Ss) (r Su32)),
      set_f Su31 (\<lambda>r. fmul32 ops (r Sc) (r Su31)),
      set_f Su32 (\<lambda>r. fmul32 ops (r Sc) (r Su32)),
      set_f Su31 (\<lambda>r. fadd_rn ops (r Su31) (r Stmp2)),
      set_f Su32 (\<lambda>r. fsub_rn ops (r Su32) (r Stmp1))]"

text \<open>Lines 1990 to 2094: second Givens rotation.\<close>

definition svd_givens_second_float :: "fpu32 \<Rightarrow> (regs32 \<Rightarrow> regs32) list" where
  "svd_givens_second_float ops =
     [set_f Ssh (\<lambda>r. fmul32 ops (r Sa31) (r Sa31)),
      set_ui Ssh (\<lambda>r. if fge32 ops (r Ssh) gsmall_number_float then 0xffffffff else 0),
      set_ui Ssh (\<lambda>r. (ui r Ssh) AND (ui r Sa31)),
      set_f Stmp5 (\<lambda>r. float_zero),
      set_f Sch (\<lambda>r. fsub_rn ops (r Stmp5) (r Sa11)),
      set_f Sch (\<lambda>r. fmax32 ops (r Sch) (r Sa11)),
      set_f Sch (\<lambda>r. fmax32 ops (r Sch) gsmall_number_float),
      set_ui Stmp5 (\<lambda>r. if fge32 ops (r Sa11) (r Stmp5) then 0xffffffff else 0),
      set_f Stmp1 (\<lambda>r. fmul32 ops (r Sch) (r Sch)),
      set_f Stmp2 (\<lambda>r. fmul32 ops (r Ssh) (r Ssh)),
      set_f Stmp2 (\<lambda>r. fadd_rn ops (r Stmp1) (r Stmp2)),
      set_f Stmp1 (\<lambda>r. frsqrt_rn ops (r Stmp2)),
      set_f Stmp4 (\<lambda>r. fmul32 ops (r Stmp1) float_half),
      set_f Stmp3 (\<lambda>r. fmul32 ops (r Stmp1) (r Stmp4)),
      set_f Stmp3 (\<lambda>r. fmul32 ops (r Stmp1) (r Stmp3)),
      set_f Stmp3 (\<lambda>r. fmul32 ops (r Stmp2) (r Stmp3)),
      set_f Stmp1 (\<lambda>r. fadd_rn ops (r Stmp1) (r Stmp4)),
      set_f Stmp1 (\<lambda>r. fsub_rn ops (r Stmp1) (r Stmp3)),
      set_f Stmp1 (\<lambda>r. fmul32 ops (r Stmp1) (r Stmp2)),
      set_f Sch (\<lambda>r. fadd_rn ops (r Sch) (r Stmp1)),
      set_ui Stmp1 (\<lambda>r. NOT (ui r Stmp5) AND (ui r Ssh)),
      set_ui Stmp2 (\<lambda>r. NOT (ui r Stmp5) AND (ui r Sch)),
      set_ui Sch (\<lambda>r. (ui r Stmp5) AND (ui r Sch)),
      set_ui Ssh (\<lambda>r. (ui r Stmp5) AND (ui r Ssh)),
      set_ui Sch (\<lambda>r. (ui r Sch) OR (ui r Stmp1)),
      set_ui Ssh (\<lambda>r. (ui r Ssh) OR (ui r Stmp2)),
      set_f Stmp1 (\<lambda>r. fmul32 ops (r Sch) (r Sch)),
      set_f Stmp2 (\<lambda>r. fmul32 ops (r Ssh) (r Ssh)),
      set_f Stmp2 (\<lambda>r. fadd_rn ops (r Stmp1) (r Stmp2)),
      set_f Stmp1 (\<lambda>r. frsqrt_rn ops (r Stmp2)),
      set_f Stmp4 (\<lambda>r. fmul32 ops (r Stmp1) float_half),
      set_f Stmp3 (\<lambda>r. fmul32 ops (r Stmp1) (r Stmp4)),
      set_f Stmp3 (\<lambda>r. fmul32 ops (r Stmp1) (r Stmp3)),
      set_f Stmp3 (\<lambda>r. fmul32 ops (r Stmp2) (r Stmp3)),
      set_f Stmp1 (\<lambda>r. fadd_rn ops (r Stmp1) (r Stmp4)),
      set_f Stmp1 (\<lambda>r. fsub_rn ops (r Stmp1) (r Stmp3)),
      set_f Sch (\<lambda>r. fmul32 ops (r Sch) (r Stmp1)),
      set_f Ssh (\<lambda>r. fmul32 ops (r Ssh) (r Stmp1)),
      set_f Sc (\<lambda>r. fmul32 ops (r Sch) (r Sch)),
      set_f Ss (\<lambda>r. fmul32 ops (r Ssh) (r Ssh)),
      set_f Sc (\<lambda>r. fsub_rn ops (r Sc) (r Ss)),
      set_f Ss (\<lambda>r. fmul32 ops (r Ssh) (r Sch)),
      set_f Ss (\<lambda>r. fadd_rn ops (r Ss) (r Ss)),
      set_f Stmp1 (\<lambda>r. fmul32 ops (r Ss) (r Sa11)),
      set_f Stmp2 (\<lambda>r. fmul32 ops (r Ss) (r Sa31)),
      set_f Sa11 (\<lambda>r. fmul32 ops (r Sc) (r Sa11)),
      set_f Sa31 (\<lambda>r. fmul32 ops (r Sc) (r Sa31)),
      set_f Sa11 (\<lambda>r. fadd_rn ops (r Sa11) (r Stmp2)),
      set_f Sa31 (\<lambda>r. fsub_rn ops (r Sa31) (r Stmp1)),
      set_f Stmp1 (\<lambda>r. fmul32 ops (r Ss) (r Sa12)),
      set_f Stmp2 (\<lambda>r. fmul32 ops (r Ss) (r Sa32)),
      set_f Sa12 (\<lambda>r. fmul32 ops (r Sc) (r Sa12)),
      set_f Sa32 (\<lambda>r. fmul32 ops (r Sc) (r Sa32)),
      set_f Sa12 (\<lambda>r. fadd_rn ops (r Sa12) (r Stmp2)),
      set_f Sa32 (\<lambda>r. fsub_rn ops (r Sa32) (r Stmp1)),
      set_f Stmp1 (\<lambda>r. fmul32 ops (r Ss) (r Sa13)),
      set_f Stmp2 (\<lambda>r. fmul32 ops (r Ss) (r Sa33)),
      set_f Sa13 (\<lambda>r. fmul32 ops (r Sc) (r Sa13)),
      set_f Sa33 (\<lambda>r. fmul32 ops (r Sc) (r Sa33)),
      set_f Sa13 (\<lambda>r. fadd_rn ops (r Sa13) (r Stmp2)),
      set_f Sa33 (\<lambda>r. fsub_rn ops (r Sa33) (r Stmp1)),
      set_f Stmp1 (\<lambda>r. fmul32 ops (r Ss) (r Su11)),
      set_f Stmp2 (\<lambda>r. fmul32 ops (r Ss) (r Su13)),
      set_f Su11 (\<lambda>r. fmul32 ops (r Sc) (r Su11)),
      set_f Su13 (\<lambda>r. fmul32 ops (r Sc) (r Su13)),
      set_f Su11 (\<lambda>r. fadd_rn ops (r Su11) (r Stmp2)),
      set_f Su13 (\<lambda>r. fsub_rn ops (r Su13) (r Stmp1)),
      set_f Stmp1 (\<lambda>r. fmul32 ops (r Ss) (r Su21)),
      set_f Stmp2 (\<lambda>r. fmul32 ops (r Ss) (r Su23)),
      set_f Su21 (\<lambda>r. fmul32 ops (r Sc) (r Su21)),
      set_f Su23 (\<lambda>r. fmul32 ops (r Sc) (r Su23)),
      set_f Su21 (\<lambda>r. fadd_rn ops (r Su21) (r Stmp2)),
      set_f Su23 (\<lambda>r. fsub_rn ops (r Su23) (r Stmp1)),
      set_f Stmp1 (\<lambda>r. fmul32 ops (r Ss) (r Su31)),
      set_f Stmp2 (\<lambda>r. fmul32 ops (r Ss) (r Su33)),
      set_f Su31 (\<lambda>r. fmul32 ops (r Sc) (r Su31)),
      set_f Su33 (\<lambda>r. fmul32 ops (r Sc) (r Su33)),
      set_f Su31 (\<lambda>r. fadd_rn ops (r Su31) (r Stmp2)),
      set_f Su33 (\<lambda>r. fsub_rn ops (r Su33) (r Stmp1))]"

text \<open>Lines 2095 to 2198: third Givens rotation.\<close>

definition svd_givens_third_float :: "fpu32 \<Rightarrow> (regs32 \<Rightarrow> regs32) list" where
  "svd_givens_third_float ops =
     [set_f Ssh (\<lambda>r. fmul32 ops (r Sa32) (r Sa32)),
      set_ui Ssh (\<lambda>r. if fge32 ops (r Ssh) gsmall_number_float then 0xffffffff else 0),
      set_ui Ssh (\<lambda>r. (ui r Ssh) AND (ui r Sa32)),
      set_f Stmp5 (\<lambda>r. float_zero),
      set_f Sch (\<lambda>r. fsub_rn ops (r Stmp5) (r Sa22)),
      set_f Sch (\<lambda>r. fmax32 ops (r Sch) (r Sa22)),
      set_f Sch (\<lambda>r. fmax32 ops (r Sch) gsmall_number_float),
      set_ui Stmp5 (\<lambda>r. if fge32 ops (r Sa22) (r Stmp5) then 0xffffffff else 0),
      set_f Stmp1 (\<lambda>r. fmul32 ops (r Sch) (r Sch)),
      set_f Stmp2 (\<lambda>r. fmul32 ops (r Ssh) (r Ssh)),
      set_f Stmp2 (\<lambda>r. fadd_rn ops (r Stmp1) (r Stmp2)),
      set_f Stmp1 (\<lambda>r. frsqrt_rn ops (r Stmp2)),
      set_f Stmp4 (\<lambda>r. fmul32 ops (r Stmp1) float_half),
      set_f Stmp3 (\<lambda>r. fmul32 ops (r Stmp1) (r Stmp4)),
      set_f Stmp3 (\<lambda>r. fmul32 ops (r Stmp1) (r Stmp3)),
      set_f Stmp3 (\<lambda>r. fmul32 ops (r Stmp2) (r Stmp3)),
      set_f Stmp1 (\<lambda>r. fadd_rn ops (r Stmp1) (r Stmp4)),
      set_f Stmp1 (\<lambda>r. fsub_rn ops (r Stmp1) (r Stmp3)),
      set_f Stmp1 (\<lambda>r. fmul32 ops (r Stmp1) (r Stmp2)),
      set_f Sch (\<lambda>r. fadd_rn ops (r Sch) (r Stmp1)),
      set_ui Stmp1 (\<lambda>r. NOT (ui r Stmp5) AND (ui r Ssh)),
      set_ui Stmp2 (\<lambda>r. NOT (ui r Stmp5) AND (ui r Sch)),
      set_ui Sch (\<lambda>r. (ui r Stmp5) AND (ui r Sch)),
      set_ui Ssh (\<lambda>r. (ui r Stmp5) AND (ui r Ssh)),
      set_ui Sch (\<lambda>r. (ui r Sch) OR (ui r Stmp1)),
      set_ui Ssh (\<lambda>r. (ui r Ssh) OR (ui r Stmp2)),
      set_f Stmp1 (\<lambda>r. fmul32 ops (r Sch) (r Sch)),
      set_f Stmp2 (\<lambda>r. fmul32 ops (r Ssh) (r Ssh)),
      set_f Stmp2 (\<lambda>r. fadd_rn ops (r Stmp1) (r Stmp2)),
      set_f Stmp1 (\<lambda>r. frsqrt_rn ops (r Stmp2)),
      set_f Stmp4 (\<lambda>r. fmul32 ops (r Stmp1) float_half),
      set_f Stmp3 (\<lambda>r. fmul32 ops (r Stmp1) (r Stmp4)),
      set_f Stmp3 (\<lambda>r. fmul32 ops (r Stmp1) (r Stmp3)),
      set_f Stmp3 (\<lambda>r. fmul32 ops (r Stmp2) (r Stmp3)),
      set_f Stmp1 (\<lambda>r. fadd_rn ops (r Stmp1) (r Stmp4)),
      set_f Stmp1 (\<lambda>r. fsub_rn ops (r Stmp1) (r Stmp3)),
      set_f Sch (\<lambda>r. fmul32 ops (r Sch) (r Stmp1)),
      set_f Ssh (\<lambda>r. fmul32 ops (r Ssh) (r Stmp1)),
      set_f Sc (\<lambda>r. fmul32 ops (r Sch) (r Sch)),
      set_f Ss (\<lambda>r. fmul32 ops (r Ssh) (r Ssh)),
      set_f Sc (\<lambda>r. fsub_rn ops (r Sc) (r Ss)),
      set_f Ss (\<lambda>r. fmul32 ops (r Ssh) (r Sch)),
      set_f Ss (\<lambda>r. fadd_rn ops (r Ss) (r Ss)),
      set_f Stmp1 (\<lambda>r. fmul32 ops (r Ss) (r Sa21)),
      set_f Stmp2 (\<lambda>r. fmul32 ops (r Ss) (r Sa31)),
      set_f Sa21 (\<lambda>r. fmul32 ops (r Sc) (r Sa21)),
      set_f Sa31 (\<lambda>r. fmul32 ops (r Sc) (r Sa31)),
      set_f Sa21 (\<lambda>r. fadd_rn ops (r Sa21) (r Stmp2)),
      set_f Sa31 (\<lambda>r. fsub_rn ops (r Sa31) (r Stmp1)),
      set_f Stmp1 (\<lambda>r. fmul32 ops (r Ss) (r Sa22)),
      set_f Stmp2 (\<lambda>r. fmul32 ops (r Ss) (r Sa32)),
      set_f Sa22 (\<lambda>r. fmul32 ops (r Sc) (r Sa22)),
      set_f Sa32 (\<lambda>r. fmul32 ops (r Sc) (r Sa32)),
      set_f Sa22 (\<lambda>r. fadd_rn ops (r Sa22) (r Stmp2)),
      set_f Sa32 (\<lambda>r. fsub_rn ops (r Sa32) (r Stmp1)),
      set_f Stmp1 (\<lambda>r. fmul32 ops (r Ss) (r Sa23)),
      set_f Stmp2 (\<lambda>r. fmul32 ops (r Ss) (r Sa33)),
      set_f Sa23 (\<lambda>r. fmul32 ops (r Sc) (r Sa23)),
      set_f Sa33 (\<lambda>r. fmul32 ops (r Sc) (r Sa33)),
      set_f Sa23 (\<lambda>r. fadd_rn ops (r Sa23) (r Stmp2)),
      set_f Sa33 (\<lambda>r. fsub_rn ops (r Sa33) (r Stmp1)),
      set_f Stmp1 (\<lambda>r. fmul32 ops (r Ss) (r Su12)),
      set_f Stmp2 (\<lambda>r. fmul32 ops (r Ss) (r Su13)),
      set_f Su12 (\<lambda>r. fmul32 ops (r Sc) (r Su12)),
      set_f Su13 (\<lambda>r. fmul32 ops (r Sc) (r Su13)),
      set_f Su12 (\<lambda>r. fadd_rn ops (r Su12) (r Stmp2)),
      set_f Su13 (\<lambda>r. fsub_rn ops (r Su13) (r Stmp1)),
      set_f Stmp1 (\<lambda>r. fmul32 ops (r Ss) (r Su22)),
      set_f Stmp2 (\<lambda>r. fmul32 ops (r Ss) (r Su23)),
      set_f Su22 (\<lambda>r. fmul32 ops (r Sc) (r Su22)),
      set_f Su23 (\<lambda>r. fmul32 ops (r Sc) (r Su23)),
      set_f Su22 (\<lambda>r. fadd_rn ops (r Su22) (r Stmp2)),
      set_f Su23 (\<lambda>r. fsub_rn ops (r Su23) (r Stmp1)),
      set_f Stmp1 (\<lambda>r. fmul32 ops (r Ss) (r Su32)),
      set_f Stmp2 (\<lambda>r. fmul32 ops (r Ss) (r Su33)),
      set_f Su32 (\<lambda>r. fmul32 ops (r Sc) (r Su32)),
      set_f Su33 (\<lambda>r. fmul32 ops (r Sc) (r Su33)),
      set_f Su32 (\<lambda>r. fadd_rn ops (r Su32) (r Stmp2)),
      set_f Su33 (\<lambda>r. fsub_rn ops (r Su33) (r Stmp1))]"

text \<open>
  One sweep is the body of the loop at line 1261, \<open>for (int i = 0; i < 4; i++)\<close>. The
  body does not assign \<open>i\<close> and has no \<open>break\<close>, \<open>continue\<close> or \<open>return\<close>. The
  function returns the value of \<open>i\<close> at exit next to the locals.
\<close>

definition jacobi_sweep_float :: "fpu32 \<Rightarrow> regs32 \<Rightarrow> regs32" where
  "jacobi_sweep_float ops r =
     run (jacobi_conjugation_c_float ops)
       (run (jacobi_conjugation_b_float ops) (run (jacobi_conjugation_a_float ops) r))"

function jacobi_iteration_float :: "fpu32 \<Rightarrow> int \<Rightarrow> regs32 \<Rightarrow> int \<times> regs32" where
  "jacobi_iteration_float ops i r =
     (if i < 4 then jacobi_iteration_float ops (i + 1) (jacobi_sweep_float ops r) else (i, r))"
  by pat_completeness auto
termination
  by (relation "measure (\<lambda>(ops, i, r). nat (4 - i))") auto

type_synonym mat3_bits_float =
  "32 word \<times> 32 word \<times> 32 word \<times> 32 word \<times> 32 word \<times> 32 word \<times> 32 word \<times> 32 word \<times> 32 word"

definition svd_load_float :: "regs32 \<Rightarrow> mat3_bits_float \<Rightarrow> regs32" where
  "svd_load_float uninit A =
     (case A of (a11, a12, a13, a21, a22, a23, a31, a32, a33) \<Rightarrow>
        uninit(Sa11 := a11, Sa12 := a12, Sa13 := a13, Sa21 := a21, Sa22 := a22,
               Sa23 := a23, Sa31 := a31, Sa32 := a32, Sa33 := a33))"

definition svd_store_float ::
  "regs32 \<Rightarrow> mat3_bits_float \<times> (32 word \<times> 32 word \<times> 32 word) \<times> mat3_bits_float" where
  "svd_store_float r =
     ((r Su11, r Su12, r Su13, r Su21, r Su22, r Su23, r Su31, r Su32, r Su33),
      (r Sa11, r Sa22, r Sa33),
      (r Sv11, r Sv12, r Sv13, r Sv21, r Sv22, r Sv23, r Sv31, r Sv32, r Sv33))"

definition svd_float ::
  "fpu32 \<Rightarrow> regs32 \<Rightarrow> mat3_bits_float
     \<Rightarrow> mat3_bits_float \<times> (32 word \<times> 32 word \<times> 32 word) \<times> mat3_bits_float" where
  "svd_float ops uninit A =
     (let r = svd_load_float uninit A;
          r = run (svd_normal_equations_float ops) r;
          (i, r) = jacobi_iteration_float ops 0 r;
          r = run (svd_normalize_quaternion_float ops) r;
          r = run (svd_quaternion_to_matrix_float ops) r;
          r = run (svd_multiply_with_V_float ops) r;
          r = run (svd_sort_columns_float ops) r;
          r = run (svd_givens_first_float ops) r;
          r = run (svd_givens_second_float ops) r;
          r = run (svd_givens_third_float ops) r
      in svd_store_float r)"

text \<open>The statements of the routine in the order of a run with four sweeps.\<close>

definition svd_statements_float :: "fpu32 \<Rightarrow> (regs32 \<Rightarrow> regs32) list" where
  "svd_statements_float ops =
     svd_normal_equations_float ops
     @ concat (replicate 4 (jacobi_conjugation_a_float ops @ jacobi_conjugation_b_float ops
                             @ jacobi_conjugation_c_float ops))
     @ svd_normalize_quaternion_float ops @ svd_quaternion_to_matrix_float ops
     @ svd_multiply_with_V_float ops @ svd_sort_columns_float ops @ svd_givens_first_float ops
     @ svd_givens_second_float ops @ svd_givens_third_float ops"

section \<open>The 3x3 solver (solve_svd3x3)\<close>

text \<open>
  \<open>matmul3x3_3x1\<close> and \<open>matmul3x3_3x3\<close> as the header has them, on values that may
  fail to be numbers. The decomposition \<open>svd\<close> called by the solver is a parameter here:
  it maps the matrix \<open>A\<close> to \<open>(U, S, V)\<close>, all stored row by row, and what the solver
  does with them does not depend on how they were computed.
\<close>

definition matmul3x3_3x1 ::
  "fp \<Rightarrow> fp \<Rightarrow> fp \<Rightarrow> fp \<Rightarrow> fp \<Rightarrow> fp \<Rightarrow> fp \<Rightarrow> fp \<Rightarrow> fp \<Rightarrow> fp \<Rightarrow> fp \<Rightarrow> fp \<Rightarrow> fp \<times> fp \<times> fp" where
  "matmul3x3_3x1 m00 m01 m02 m10 m11 m12 m20 m21 m22 v0 v1 v2 =
     (let o0 = fp_add (fp_add (fp_mul m00 v0) (fp_mul m01 v1)) (fp_mul m02 v2);
          o1 = fp_add (fp_add (fp_mul m10 v0) (fp_mul m11 v1)) (fp_mul m12 v2);
          o2 = fp_add (fp_add (fp_mul m20 v0) (fp_mul m21 v1)) (fp_mul m22 v2)
      in (o0, o1, o2))"

definition matmul3x3_3x3 ::
  "fp \<Rightarrow> fp \<Rightarrow> fp \<Rightarrow> fp \<Rightarrow> fp \<Rightarrow> fp \<Rightarrow> fp \<Rightarrow> fp \<Rightarrow> fp \<Rightarrow>
   fp \<Rightarrow> fp \<Rightarrow> fp \<Rightarrow> fp \<Rightarrow> fp \<Rightarrow> fp \<Rightarrow> fp \<Rightarrow> fp \<Rightarrow> fp \<Rightarrow> fp list" where
  "matmul3x3_3x3 a00 a01 a02 a10 a11 a12 a20 a21 a22
                 b00 b01 b02 b10 b11 b12 b20 b21 b22 =
     (let (c00, c10, c20) = matmul3x3_3x1 a00 a01 a02 a10 a11 a12 a20 a21 a22 b00 b10 b20;
          (c01, c11, c21) = matmul3x3_3x1 a00 a01 a02 a10 a11 a12 a20 a21 a22 b01 b11 b21;
          (c02, c12, c22) = matmul3x3_3x1 a00 a01 a02 a10 a11 a12 a20 a21 a22 b02 b12 b22
      in [c00, c01, c02, c10, c11, c12, c20, c21, c22])"

fun entries :: "mat3 \<Rightarrow> real list" where
  "entries (Mat3 m00 m01 m02 m10 m11 m12 m20 m21 m22) =
     [m00, m01, m02, m10, m11, m12, m20, m21, m22]"

type_synonym svd3 = "mat3 \<Rightarrow> mat3 \<times> vec3 \<times> mat3"

definition solve_svd3x3 ::
  "svd3 \<Rightarrow> real \<Rightarrow> real \<Rightarrow> real \<Rightarrow> real \<Rightarrow> real \<Rightarrow> real \<Rightarrow> real \<Rightarrow> real \<Rightarrow> real \<Rightarrow>
   real \<Rightarrow> real \<Rightarrow> real \<Rightarrow> fp \<times> fp \<times> fp" where
  "solve_svd3x3 svd a11 a12 a13 a21 a22 a23 a31 a32 a33 b1 b2 b3 =
     (case svd (Mat3 a11 a12 a13 a21 a22 a23 a31 a32 a33) of
        (Um, (s11, s22, s33), Vm) \<Rightarrow>
          (let U = entries Um; V = entries Vm; S = [Some s11, Some s22, Some s33];
               epsilon = 1 / 1000000;
               S = S[0 := if s11 < epsilon then Some 0 else fp_div (Some 1) (S ! 0)];
               S = S[1 := if s22 < epsilon then Some 0 else fp_div (Some 1) (S ! 1)];
               S = S[2 := if s33 < epsilon then Some 0 else fp_div (Some 1) (S ! 2)];
               Ainv = matmul3x3_3x3
                        (Some (V ! 0)) (Some (V ! 1)) (Some (V ! 2))
                        (Some (V ! 3)) (Some (V ! 4)) (Some (V ! 5))
                        (Some (V ! 6)) (Some (V ! 7)) (Some (V ! 8))
                        (fp_mul (Some (U ! 0)) (S ! 0)) (fp_mul (Some (U ! 3)) (S ! 0))
                        (fp_mul (Some (U ! 6)) (S ! 0)) (fp_mul (Some (U ! 1)) (S ! 1))
                        (fp_mul (Some (U ! 4)) (S ! 1)) (fp_mul (Some (U ! 7)) (S ! 1))
                        (fp_mul (Some (U ! 2)) (S ! 2)) (fp_mul (Some (U ! 5)) (S ! 2))
                        (fp_mul (Some (U ! 8)) (S ! 2))
           in matmul3x3_3x1 (Ainv ! 0) (Ainv ! 1) (Ainv ! 2) (Ainv ! 3) (Ainv ! 4)
                (Ainv ! 5) (Ainv ! 6) (Ainv ! 7) (Ainv ! 8) (Some b1) (Some b2) (Some b3)))"

text \<open>
  The specification's words: the reciprocal of a singular value is 0 below the threshold
  \<open>1e-6\<close>, and the solution is \<open>V * diag(S\<^sup>+) * U\<^sup>T * b\<close>.
\<close>

definition pseudo_reciprocal :: "real \<Rightarrow> real" where
  "pseudo_reciprocal s = (if s < 1 / 1000000 then 0 else 1 / s)"

definition pseudo_inverse_solution :: "mat3 \<Rightarrow> vec3 \<Rightarrow> mat3 \<Rightarrow> vec3 \<Rightarrow> vec3" where
  "pseudo_inverse_solution U S V b =
     (case S of (s1, s2, s3) \<Rightarrow>
        Matvec (Matmul V (Matmul (diag3 (pseudo_reciprocal s1) (pseudo_reciprocal s2)
                                        (pseudo_reciprocal s3)) (T U))) b)"

definition number3 :: "vec3 \<Rightarrow> fp \<times> fp \<times> fp" where
  "number3 v = (case v of (x1, x2, x3) \<Rightarrow> (Some x1, Some x2, Some x3))"

text \<open>A decomposition routine that reports singular values 2, 1 and 0.\<close>

definition ex_svd3 :: svd3 where
  "ex_svd3 A = (Eye, (2, 1, 0), Eye)"

section \<open>Point-wise estimators\<close>

text \<open>
  The neighbour search is an external collaborator: its results, the flat array of
  neighbour indices (\<open>max_nn\<close> slots per point) and the neighbour counts, are inputs of
  the model, and so is the answer \<open>check\<close> of \<open>HybridIndex\<close>. When the index is not
  set the estimators log an error, which ends the call.
\<close>

datatype estimator_error = IndexNotSet

function neighbour_loop ::
  "real ptr \<Rightarrow> real ptr \<Rightarrow> int ptr \<Rightarrow> int \<Rightarrow> int \<Rightarrow> real list \<Rightarrow> real list \<Rightarrow> real \<Rightarrow> real
     \<Rightarrow> int \<Rightarrow> real list \<Rightarrow> real list \<Rightarrow> int \<times> real list \<times> real list" where
  "neighbour_loop points_ptr colors_ptr neighbour_indices_ptr neighbour_offset
       neighbour_count vt nt it s i AtA Atb =
     (if i < neighbour_count then
        (let neighbour_idx = 3 * neighbour_indices_ptr (neighbour_offset + i) in
         if neighbour_idx = - 1 then (i, AtA, Atb)
         else
           (let vt_adj = [points_ptr neighbour_idx, points_ptr (neighbour_idx + 1),
                          points_ptr (neighbour_idx + 2)];
                d = vt_adj ! 0 * nt ! 0 + vt_adj ! 1 * nt ! 1 + vt_adj ! 2 * nt ! 2 - s;
                vt_proj = [vt_adj ! 0 - d * nt ! 0, vt_adj ! 1 - d * nt ! 1,
                           vt_adj ! 2 - d * nt ! 2];
                it_adj = (colors_ptr (neighbour_idx + 0) + colors_ptr (neighbour_idx + 1)
                            + colors_ptr (neighbour_idx + 2)) / 3;
                A = [vt_proj ! 0 - vt ! 0, vt_proj ! 1 - vt ! 1, vt_proj ! 2 - vt ! 2];
                AtA = AtA[0 := AtA ! 0 + A ! 0 * A ! 0,
                          1 := AtA ! 1 + A ! 1 * A ! 0,
                          2 := AtA ! 2 + A ! 2 * A ! 0,
                          4 := AtA ! 4 + A ! 1 * A ! 1,
                          5 := AtA ! 5 + A ! 2 * A ! 1,
                          8 := AtA ! 8 + A ! 2 * A ! 2];
                b = it_adj - it;
                Atb = Atb[0 := Atb ! 0 + A ! 0 * b,
                          1 := Atb ! 1 + A ! 1 * b,
                          2 := Atb ! 2 + A ! 2 * b]
            in neighbour_loop points_ptr colors_ptr neighbour_indices_ptr neighbour_offset
                 neighbour_count vt nt it s (i + 1) AtA Atb))
      else (i, AtA, Atb))"
  by pat_completeness auto
termination
  by (relation "measure (\<lambda>(points_ptr, colors_ptr, neighbour_indices_ptr, neighbour_offset,
                            neighbour_count, vt, nt, it, s, i, AtA, Atb).
                          nat (neighbour_count - i))") auto

text \<open>
  The body of the loop over the points, for a point with at least four neighbours, up to
  the call of the solver: the system \<open>(AtA, Atb)\<close> that is handed to \<open>solve_svd3x3\<close>.
\<close>

definition color_gradient_system ::
  "real ptr \<Rightarrow> real ptr \<Rightarrow> real ptr \<Rightarrow> int ptr \<Rightarrow> int ptr \<Rightarrow> int \<Rightarrow> int
     \<Rightarrow> real list \<times> real list" where
  "color_gradient_system points_ptr normals_ptr colors_ptr neighbour_indices_ptr
       neighbour_counts_ptr max_nn workload_idx =
     (let neighbour_offset = max_nn * workload_idx;
          neighbour_count = neighbour_counts_ptr workload_idx;
          point_idx = 3 * workload_idx;
          vt = [points_ptr point_idx, points_ptr (point_idx + 1), points_ptr (point_idx + 2)];
          nt = [normals_ptr point_idx, normals_ptr (point_idx + 1),
                normals_ptr (point_idx + 2)];
          it = (colors_ptr point_idx + colors_ptr (point_idx + 1)
                  + colors_ptr (point_idx + 2)) / 3;
          AtA = replicate 9 0;
          Atb = replicate 3 0;
          s = vt ! 0 * nt ! 0 + vt ! 1 * nt ! 1 + vt ! 2 * nt ! 2;
          (i, AtA, Atb) = neighbour_loop points_ptr colors_ptr neighbour_indices_ptr
                            neighbour_offset neighbour_count vt nt it s 1 AtA Atb;
          A = [real_of_int (i - 1) * nt ! 0, real_of_int (i - 1) * nt ! 1,
               real_of_int (i - 1) * nt ! 2];
          AtA = AtA[0 := AtA ! 0 + A ! 0 * A ! 0,
                    1 := AtA ! 1 + A ! 0 * A ! 1,
                    2 := AtA ! 2 + A ! 0 * A ! 2,
                    4 := AtA ! 4 + A ! 1 * A ! 1,
                    5 := AtA ! 5 + A ! 1 * A ! 2,
                    8 := AtA ! 8 + A ! 2 * A ! 2];
          AtA = AtA[3 := AtA ! 1];
          AtA = AtA[6 := AtA ! 2];
          AtA = AtA[7 := AtA ! 5]
      in (AtA, Atb))"

definition EstimatePointWiseColorGradientCPU ::
  "svd3 \<Rightarrow> bool \<Rightarrow> real ptr \<Rightarrow> real ptr \<Rightarrow> real ptr \<Rightarrow> fp ptr \<Rightarrow> int ptr \<Rightarrow> int ptr \<Rightarrow> int
     \<Rightarrow> int \<Rightarrow> estimator_error + fp ptr" where
  "EstimatePointWiseColorGradientCPU svd check points_ptr normals_ptr colors_ptr
       color_gradients_ptr neighbour_indices_ptr neighbour_counts_ptr n max_nn =
     (if \<not> check then Inl IndexNotSet
      else Inr (foldl (\<lambda>color_gradients_ptr workload_idx.
        let neighbour_count = neighbour_counts_ptr workload_idx;
            point_idx = 3 * workload_idx
        in if neighbour_count \<ge> 4 then
             (let (AtA, Atb) = color_gradient_system points_ptr normals_ptr colors_ptr
                                 neighbour_indices_ptr neighbour_counts_ptr max_nn
                                 workload_idx;
                  (x1, x2, x3) = solve_svd3x3 svd (AtA ! 0) (AtA ! 1) (AtA ! 2) (AtA ! 3)
                                   (AtA ! 4) (AtA ! 5) (AtA ! 6) (AtA ! 7) (AtA ! 8)
                                   (Atb ! 0) (Atb ! 1) (Atb ! 2)
              in color_gradients_ptr(point_idx + 0 := x1, point_idx + 1 := x2,
                                     point_idx + 2 := x3))
           else color_gradients_ptr(point_idx := Some 0, point_idx + 1 := Some 0,
                                    point_idx + 2 := Some 0))
        color_gradients_ptr [0..n - 1]))"

text \<open>
  Modelled from the spec: \<open>EstimatePointWiseCovarianceKernel\<close> is called by the
  covariance estimator but is not among the sources. The specification (4.4) says that it
  computes the local 3x3 covariance matrix of the neighbour positions of the point; it
  is taken to store these nine numbers in the point's own slot of the output. The nine
  numbers are the parameter \<open>cov\<close>.
\<close>

definition EstimatePointWiseCovarianceKernel ::
  "(real ptr \<Rightarrow> int ptr \<Rightarrow> int \<Rightarrow> int \<Rightarrow> real list) \<Rightarrow> real ptr \<Rightarrow> int ptr \<Rightarrow> int
     \<Rightarrow> real ptr \<Rightarrow> int \<Rightarrow> int \<Rightarrow> real ptr" where
  "EstimatePointWiseCovarianceKernel cov points_ptr neighbour_indices_ptr neighbour_count
       covariances_ptr neighbour_offset covariances_offset =
     (\<lambda>j. if covariances_offset \<le> j \<and> j < covariances_offset + 9
          then cov points_ptr neighbour_indices_ptr neighbour_count neighbour_offset
                 ! nat (j - covariances_offset)
          else covariances_ptr j)"

definition EstimatePointWiseCovarianceCPU ::
  "(real ptr \<Rightarrow> int ptr \<Rightarrow> int \<Rightarrow> int \<Rightarrow> real list) \<Rightarrow> bool \<Rightarrow> real ptr \<Rightarrow> real ptr
     \<Rightarrow> int ptr \<Rightarrow> int ptr \<Rightarrow> int \<Rightarrow> int \<Rightarrow> estimator_error + real ptr" where
  "EstimatePointWiseCovarianceCPU cov check points_ptr covariances_ptr
       neighbour_indices_ptr neighbour_counts_ptr n max_nn =
     (if \<not> check then Inl IndexNotSet
      else Inr (foldl (\<lambda>covariances_ptr workload_idx.
        let neighbour_offset = max_nn * workload_idx;
            neighbour_count = neighbour_counts_ptr workload_idx;
            covariances_offset = 9 * workload_idx
        in if neighbour_count \<ge> 3 then
             EstimatePointWiseCovarianceKernel cov points_ptr neighbour_indices_ptr
               neighbour_count covariances_ptr neighbour_offset covariances_offset
           else covariances_ptr(covariances_offset := 1,
                                covariances_offset + 1 := 0,
                                covariances_offset + 2 := 0,
                                covariances_offset + 3 := 0,
                                covariances_offset + 4 := 1,
                                covariances_offset + 5 := 0,
                                covariances_offset + 6 := 0,
                                covariances_offset + 7 := 0,
                                covariances_offset + 8 := 1))
        covariances_ptr [0..n - 1]))"

text \<open>
  The specification's words for the gradient system: each neighbour is projected onto the
  tangent plane of the point, the design row is the projected neighbour minus the point,
  the right-hand side is the difference of the intensities, a regularization row along
  the normal with right-hand side 0 is added, and the normal equations of these rows are
  solved.
\<close>

definition tangent_row :: "real ptr \<Rightarrow> real ptr \<Rightarrow> int \<Rightarrow> int \<Rightarrow> real list" where
  "tangent_row points_ptr normals_ptr point_idx neighbour_idx =
     (let dist = (\<Sum>k\<leftarrow>[0, 1, 2]. (points_ptr (neighbour_idx + k) - points_ptr (point_idx + k))
                                   * normals_ptr (point_idx + k))
      in map (\<lambda>k. (points_ptr (neighbour_idx + k) - dist * normals_ptr (point_idx + k))
                    - points_ptr (point_idx + k)) [0, 1, 2])"

definition intensity :: "real ptr \<Rightarrow> int \<Rightarrow> real" where
  "intensity colors_ptr point_idx =
     (colors_ptr point_idx + colors_ptr (point_idx + 1) + colors_ptr (point_idx + 2)) / 3"

definition neighbour_slots :: "int \<Rightarrow> int list" where
  "neighbour_slots neighbour_count = [1..neighbour_count - 1]"

definition gradient_rows :: "real ptr \<Rightarrow> real ptr \<Rightarrow> int ptr \<Rightarrow> int \<Rightarrow> int \<Rightarrow> int \<Rightarrow> real list list" where
  "gradient_rows points_ptr normals_ptr neighbour_indices_ptr max_nn neighbour_count
       workload_idx =
     map (\<lambda>i. tangent_row points_ptr normals_ptr (3 * workload_idx)
                 (3 * neighbour_indices_ptr (max_nn * workload_idx + i)))
         (neighbour_slots neighbour_count)"

definition gradient_rhs :: "real ptr \<Rightarrow> int ptr \<Rightarrow> int \<Rightarrow> int \<Rightarrow> int \<Rightarrow> real list" where
  "gradient_rhs colors_ptr neighbour_indices_ptr max_nn neighbour_count workload_idx =
     map (\<lambda>i. intensity colors_ptr (3 * neighbour_indices_ptr (max_nn * workload_idx + i))
               - intensity colors_ptr (3 * workload_idx))
         (neighbour_slots neighbour_count)"

definition regularization_row :: "real ptr \<Rightarrow> int \<Rightarrow> real \<Rightarrow> real list" where
  "regularization_row normals_ptr workload_idx c =
     map (\<lambda>k. c * normals_ptr (3 * workload_idx + k)) [0, 1, 2]"

definition normal_equations :: "real list list \<Rightarrow> real list \<Rightarrow> real list \<times> real list" where
  "normal_equations rows rhs =
     (map (\<lambda>m. \<Sum>row\<leftarrow>rows. row ! (m div 3) * row ! (m mod 3)) [0..<9],
      map (\<lambda>j. \<Sum>(row, b)\<leftarrow>zip rows rhs. row ! j * b) [0..<3])"

text \<open>
  Four points on the plane \<open>z = 0\<close> with normal \<open>(0, 0, 1)\<close> and colour 0: the corners
  \<open>(0,0,0)\<close>, \<open>(1,0,0)\<close>, \<open>(0,1,0)\<close>, \<open>(1,1,0)\<close>. The search reports for point 0 the
  four neighbours 0, 1, 2, 3 and for point 1 the two neighbours 1, 0.
\<close>

definition ex_points :: "real ptr" where
  "ex_points j = (if j = 3 \<or> j = 7 \<or> j = 9 \<or> j = 10 then 1 else 0)"

definition ex_normals :: "real ptr" where
  "ex_normals j = (if j mod 3 = 2 then 1 else 0)"

definition ex_colors :: "real ptr" where
  "ex_colors j = 0"

definition ex_neighbour_indices :: "int ptr" where
  "ex_neighbour_indices j =
     (if 0 \<le> j \<and> j < 4 then j else if j = 4 then 1 else if j = 5 then 0 else - 1)"

definition ex_neighbour_counts :: "int ptr" where
  "ex_neighbour_counts w = (if w = 0 then 4 else if w = 1 then 2 else 0)"

definition ex_cov :: "real ptr \<Rightarrow> int ptr \<Rightarrow> int \<Rightarrow> int \<Rightarrow> real list" where
  "ex_cov points_ptr neighbour_indices_ptr neighbour_count neighbour_offset = replicate 9 5"

text \<open>Proof devices: the row and right-hand side the loop forms for one neighbour, and
  the two accumulation steps.\<close>

definition loop_row :: "real ptr \<Rightarrow> real list \<Rightarrow> real list \<Rightarrow> real \<Rightarrow> int \<Rightarrow> real list" where
  "loop_row points_ptr vt nt s neighbour_idx =
     (let vt_adj = [points_ptr neighbour_idx, points_ptr (neighbour_idx + 1),
                    points_ptr (neighbour_idx + 2)];
          d = vt_adj ! 0 * nt ! 0 + vt_adj ! 1 * nt ! 1 + vt_adj ! 2 * nt ! 2 - s;
          vt_proj = [vt_adj ! 0 - d * nt ! 0, vt_adj ! 1 - d * nt ! 1,
                     vt_adj ! 2 - d * nt ! 2]
      in [vt_proj ! 0 - vt ! 0, vt_proj ! 1 - vt ! 1, vt_proj ! 2 - vt ! 2])"

definition loop_rhs :: "real ptr \<Rightarrow> real \<Rightarrow> int \<Rightarrow> real" where
  "loop_rhs colors_ptr it neighbour_idx =
     (colors_ptr (neighbour_idx + 0) + colors_ptr (neighbour_idx + 1)
        + colors_ptr (neighbour_idx + 2)) / 3 - it"

definition accumulate_row :: "real list \<Rightarrow> real list \<Rightarrow> real list" where
  "accumulate_row AtA A =
     AtA[0 := AtA ! 0 + A ! 0 * A ! 0,
         1 := AtA ! 1 + A ! 1 * A ! 0,
         2 := AtA ! 2 + A ! 2 * A ! 0,
         4 := AtA ! 4 + A ! 1 * A ! 1,
         5 := AtA ! 5 + A ! 2 * A ! 1,
         8 := AtA ! 8 + A ! 2 * A ! 2]"

definition accumulate_rhs :: "real list \<Rightarrow> real list \<Rightarrow> real \<Rightarrow> real list" where
  "accumulate_rhs Atb A b =
     Atb[0 := Atb ! 0 + A ! 0 * b,
         1 := Atb ! 1 + A ! 1 * b,
         2 := Atb ! 2 + A ! 2 * b]"

definition gradient_value ::
  "svd3 \<Rightarrow> real ptr \<Rightarrow> real ptr \<Rightarrow> real ptr \<Rightarrow> int ptr \<Rightarrow> int ptr \<Rightarrow> int \<Rightarrow> int \<Rightarrow> fp \<times> fp \<times> fp" where
  "gradient_value svd points_ptr normals_ptr colors_ptr neighbour_indices_ptr
       neighbour_counts_ptr max_nn workload_idx =
     (if neighbour_counts_ptr workload_idx \<ge> 4 then
        (case color_gradient_system points_ptr normals_ptr colors_ptr
                neighbour_indices_ptr neighbour_counts_ptr max_nn workload_idx of
           (AtA, Atb) \<Rightarrow>
             solve_svd3x3 svd (AtA ! 0) (AtA ! 1) (AtA ! 2) (AtA ! 3)
               (AtA ! 4) (AtA ! 5) (AtA ! 6) (AtA ! 7) (AtA ! 8)
               (Atb ! 0) (Atb ! 1) (Atb ! 2))
      else (Some 0, Some 0, Some 0))"

definition covariance_value ::
  "(real ptr \<Rightarrow> int ptr \<Rightarrow> int \<Rightarrow> int \<Rightarrow> real list) \<Rightarrow> real ptr \<Rightarrow> int ptr \<Rightarrow> int ptr \<Rightarrow> int
     \<Rightarrow> int \<Rightarrow> real list" where
  "covariance_value cov points_ptr neighbour_indices_ptr neighbour_counts_ptr max_nn
       workload_idx =
     (if neighbour_counts_ptr workload_idx \<ge> 3 then
        cov points_ptr neighbour_indices_ptr (neighbour_counts_ptr workload_idx)
          (max_nn * workload_idx)
      else [1, 0, 0, 0, 1, 0, 0, 0, 1])"

lemma concat_blocked_range: "concat (blocked_range cuts xs) = xs"
  by (induction cuts arbitrary: xs) simp_all

lemma length_vector_sum: "length (vector_sum m a b) = m"
  by (simp add: vector_sum_def)

lemma nth_vector_sum: "k < m \<Longrightarrow> vector_sum m a b ! k = a ! k + b ! k"
  by (simp add: vector_sum_def)

lemma foldl_accumulate:
  assumes step: "\<And>acc i. length acc = m \<Longrightarrow> step acc i = vector_sum m acc (g i)"
  shows "length acc = m \<Longrightarrow>
         foldl step acc r = map (\<lambda>k. acc ! k + (\<Sum>i\<leftarrow>r. g i ! k)) [0..<m]"
proof (induction r arbitrary: acc)
  case Nil
  then show ?case by (simp add: list_eq_iff_nth_eq)
next
  case (Cons x r)
  have len: "length (vector_sum m acc (g x)) = m" by (rule length_vector_sum)
  show ?case
    using Cons.prems Cons.IH [OF len]
    by (simp add: step nth_vector_sum add.assoc)
qed

lemma parallel_reduce_accumulate:
  assumes step: "\<And>acc i. length acc = m \<Longrightarrow> step acc i = vector_sum m acc (g i)"
  shows "parallel_reduce cuts n (replicate m 0) (\<lambda>r acc. foldl step acc r) (vector_sum m)
         = map (\<lambda>k. \<Sum>i\<leftarrow>[0..n - 1]. g i ! k) [0..<m]"
proof -
  let ?z = "replicate m (0::real)"
  have body: "foldl step ?z r = map (\<lambda>k. \<Sum>i\<leftarrow>r. g i ! k) [0..<m]" for r
    using foldl_accumulate [of m step g ?z r, OF step] by simp
  have join: "foldl (vector_sum m) ?z ps = map (\<lambda>k. \<Sum>p\<leftarrow>ps. p ! k) [0..<m]" for ps
    using foldl_accumulate [of m "vector_sum m" "\<lambda>p. p" ?z ps] by simp
  have "(\<Sum>p\<leftarrow>map (\<lambda>r. map (\<lambda>k. \<Sum>i\<leftarrow>r. g i ! k) [0..<m]) bs. p ! k)
        = (\<Sum>i\<leftarrow>concat bs. g i ! k)" if "k < m" for k bs
    using that by (induction bs) simp_all
  then show ?thesis
    by (simp add: parallel_reduce_def body join concat_blocked_range)
qed

lemma list7: "length xs = 7 \<Longrightarrow> \<exists>a b c d e f g. xs = [a, b, c, d, e, f, g]"
  by (simp add: eval_nat_numeral length_Suc_conv) blast

lemma upt_7: "[0..<7] = [0, 1, 2, 3, 4, 5, 6]"
  by (simp add: eval_nat_numeral upt_rec)

lemma upt_9: "[0..<9] = [0, 1, 2, 3, 4, 5, 6, 7, 8]"
  by (simp add: eval_nat_numeral upt_rec)

lemma mean_body_step:
  assumes "length acc = 7"
  shows "(if corr i \<noteq> - 1 then
            acc [0 := acc ! 0 + src (3 * i),
                 1 := acc ! 1 + src (3 * i + 1),
                 2 := acc ! 2 + src (3 * i + 2),
                 3 := acc ! 3 + tgt (3 * corr i),
                 4 := acc ! 4 + tgt (3 * corr i + 1),
                 5 := acc ! 5 + tgt (3 * corr i + 2),
                 6 := acc ! 6 + 1]
          else acc) = vector_sum 7 acc (mean_contribution src tgt corr i)"
proof -
  from list7 [OF assms] obtain a b c d e f g where "acc = [a, b, c, d, e, f, g]" by blast
  then show ?thesis
    by (simp add: vector_sum_def mean_contribution_def upt_7)
qed

lemma mean_sums_eq:
  "mean_sums cuts src tgt corr n
   = map (\<lambda>k. \<Sum>i\<leftarrow>[0..n - 1]. mean_contribution src tgt corr i ! k) [0..<7]"
proof -
  have "mean_body src tgt corr = (\<lambda>r acc. foldl (\<lambda>acc i.
          if corr i \<noteq> - 1 then
            acc [0 := acc ! 0 + src (3 * i),
                 1 := acc ! 1 + src (3 * i + 1),
                 2 := acc ! 2 + src (3 * i + 2),
                 3 := acc ! 3 + tgt (3 * corr i),
                 4 := acc ! 4 + tgt (3 * corr i + 1),
                 5 := acc ! 5 + tgt (3 * corr i + 2),
                 6 := acc ! 6 + 1]
          else acc) acc r)"
    unfolding mean_body_def Let_def by (rule refl)
  then show ?thesis
    unfolding mean_sums_def Let_def
    using parallel_reduce_accumulate [of 7 _ "mean_contribution src tgt corr" cuts n,
             OF mean_body_step]
    by simp
qed

lemma sum_list_valid:
  "(\<Sum>i\<leftarrow>[0..n - 1]. if corr i \<noteq> - 1 then f i else (0::real))
   = (\<Sum>i\<leftarrow>valid_pairs corr n. f i)"
  by (simp add: valid_pairs_def sum_list_map_filter')

lemma mean_sums_nth:
  "mean_sums cuts src tgt corr n ! 0 = (\<Sum>i\<leftarrow>valid_pairs corr n. src (3 * i))"
  "mean_sums cuts src tgt corr n ! 1 = (\<Sum>i\<leftarrow>valid_pairs corr n. src (3 * i + 1))"
  "mean_sums cuts src tgt corr n ! 2 = (\<Sum>i\<leftarrow>valid_pairs corr n. src (3 * i + 2))"
  "mean_sums cuts src tgt corr n ! 3 = (\<Sum>i\<leftarrow>valid_pairs corr n. tgt (3 * corr i))"
  "mean_sums cuts src tgt corr n ! 4 = (\<Sum>i\<leftarrow>valid_pairs corr n. tgt (3 * corr i + 1))"
  "mean_sums cuts src tgt corr n ! 5 = (\<Sum>i\<leftarrow>valid_pairs corr n. tgt (3 * corr i + 2))"
  "mean_sums cuts src tgt corr n ! 6 = real (length (valid_pairs corr n))"
proof -
  have c: "mean_contribution src tgt corr i ! k
        = (if corr i \<noteq> - 1 then [src (3 * i), src (3 * i + 1), src (3 * i + 2),
            tgt (3 * corr i), tgt (3 * corr i + 1), tgt (3 * corr i + 2), 1] ! k else 0)"
    if "k < 7" for i k
    using that by (simp add: mean_contribution_def)
  show "mean_sums cuts src tgt corr n ! 0 = (\<Sum>i\<leftarrow>valid_pairs corr n. src (3 * i))"
    by (simp add: mean_sums_eq c sum_list_valid)
  show "mean_sums cuts src tgt corr n ! 1 = (\<Sum>i\<leftarrow>valid_pairs corr n. src (3 * i + 1))"
    by (simp add: mean_sums_eq c sum_list_valid)
  show "mean_sums cuts src tgt corr n ! 2 = (\<Sum>i\<leftarrow>valid_pairs corr n. src (3 * i + 2))"
    by (simp add: mean_sums_eq c sum_list_valid)
  show "mean_sums cuts src tgt corr n ! 3 = (\<Sum>i\<leftarrow>valid_pairs corr n. tgt (3 * corr i))"
    by (simp add: mean_sums_eq c sum_list_valid)
  show "mean_sums cuts src tgt corr n ! 4 = (\<Sum>i\<leftarrow>valid_pairs corr n. tgt (3 * corr i + 1))"
    by (simp add: mean_sums_eq c sum_list_valid)
  show "mean_sums cuts src tgt corr n ! 5 = (\<Sum>i\<leftarrow>valid_pairs corr n. tgt (3 * corr i + 2))"
    by (simp add: mean_sums_eq c sum_list_valid)
  show "mean_sums cuts src tgt corr n ! 6 = real (length (valid_pairs corr n))"
    by (simp add: mean_sums_eq c sum_list_valid sum_list_triv)
qed

lemma fp_simps [simp]:
  "fp_add (Some x) (Some y) = Some (x + y)"
  "fp_sub (Some x) (Some y) = Some (x - y)"
  "fp_mul (Some x) (Some y) = Some (x * y)"
  "y \<noteq> 0 \<Longrightarrow> fp_div (Some x) (Some y) = Some (x / y)"
  "fp_div a (Some 0) = None"
  by (simp_all add: fp_add_def fp_sub_def fp_mul_def fp_div_def split: option.splits)

lemma fp_vector_sum_Some:
  "length a = m \<Longrightarrow> length b = m \<Longrightarrow>
   fp_vector_sum m (map Some a) (map Some b) = map Some (vector_sum m a b)"
  by (simp add: fp_vector_sum_def vector_sum_def)

lemma foldl_accumulate_fp:
  assumes step: "\<And>acc i. length acc = m \<Longrightarrow>
                   step (map Some acc) i = map Some (vector_sum m acc (g i))"
  shows "length acc = m \<Longrightarrow>
         foldl step (map Some acc) r
         = map (\<lambda>k. Some (acc ! k + (\<Sum>i\<leftarrow>r. g i ! k))) [0..<m]"
proof (induction r arbitrary: acc)
  case Nil
  then show ?case by (simp add: list_eq_iff_nth_eq)
next
  case (Cons x r)
  have len: "length (vector_sum m acc (g x)) = m" by (rule length_vector_sum)
  show ?case
    using Cons.prems Cons.IH [OF len]
    by (simp add: step nth_vector_sum add.assoc)
qed

lemma parallel_reduce_accumulate_fp:
  assumes step: "\<And>acc i. length acc = m \<Longrightarrow>
                   step (map Some acc) i = map Some (vector_sum m acc (g i))"
  shows "parallel_reduce cuts n (replicate m (Some 0)) (\<lambda>r acc. foldl step acc r)
           (fp_vector_sum m)
         = map (\<lambda>k. Some (\<Sum>i\<leftarrow>[0..n - 1]. g i ! k)) [0..<m]"
proof -
  let ?z = "replicate m (0::real)"
  have z: "replicate m (Some (0::real)) = map Some ?z" by simp
  have body: "foldl step (map Some ?z) r = map Some (map (\<lambda>k. \<Sum>i\<leftarrow>r. g i ! k) [0..<m])"
    for r
    using foldl_accumulate_fp [of m step g ?z r, OF step] by simp
  have j: "fp_vector_sum m (map Some acc) (map Some (map (\<lambda>k. \<Sum>i\<leftarrow>r. g i ! k) [0..<m]))
           = map Some (vector_sum m acc (map (\<lambda>k. \<Sum>i\<leftarrow>r. g i ! k) [0..<m]))"
    if "length acc = m" for acc r
    using that by (intro fp_vector_sum_Some) simp_all
  have join: "foldl (fp_vector_sum m) (map Some ?z)
                (map (\<lambda>r. map Some (map (\<lambda>k. \<Sum>i\<leftarrow>r. g i ! k) [0..<m])) bs)
              = map (\<lambda>k. Some (\<Sum>r\<leftarrow>bs. (\<Sum>i\<leftarrow>r. g i ! k))) [0..<m]" for bs
    using foldl_accumulate_fp [of m "\<lambda>acc r. fp_vector_sum m acc
                 (map Some (map (\<lambda>k. \<Sum>i\<leftarrow>r. g i ! k) [0..<m]))"
               "\<lambda>r. map (\<lambda>k. \<Sum>i\<leftarrow>r. g i ! k) [0..<m]" ?z bs, OF j]
    by (simp add: foldl_map cong: map_cong)
  have "(\<Sum>r\<leftarrow>bs. (\<Sum>i\<leftarrow>r. g i ! k)) = (\<Sum>i\<leftarrow>concat bs. g i ! k)" for k bs
    by (induction bs) simp_all
  then show ?thesis
    unfolding parallel_reduce_def z body join
    by (simp add: concat_blocked_range)
qed


lemma sxy_body_eq:
  assumes "length m = 7"
  shows "sxy_sums cuts src tgt corr (map Some m) n
         = map (\<lambda>k. Some (\<Sum>i\<leftarrow>[0..n - 1]. sxy_contribution src tgt corr m i ! k)) [0..<9]"
proof -
  have b: "sxy_body src tgt corr (map Some m) = (\<lambda>r acc. foldl (\<lambda>sxy_1x9_reduction workload_idx.
          if corr workload_idx \<noteq> - 1 then
            map (\<lambda>i. let row = i mod 3; col = i div 3;
                         source_idx = int32 (3 * workload_idx + int row);
                         target_idx = int32 (3 * corr workload_idx + int col)
                     in fp_add (sxy_1x9_reduction ! i)
                          (fp_mul
                             (fp_sub (Some (src source_idx)) (map Some m ! row))
                             (fp_sub (Some (tgt target_idx))
                                     (map Some m ! (3 + col)))))
                [0..<9]
          else sxy_1x9_reduction) acc r)"
    unfolding sxy_body_def by (rule refl)
  show ?thesis
    unfolding sxy_sums_def Let_def b
    apply (rule parallel_reduce_accumulate_fp)
    using assms
    apply (simp add: list_eq_iff_nth_eq sxy_contribution_def vector_sum_def Let_def)
    done
qed

lemma length_mean_sums: "length (mean_sums cuts src tgt corr n) = 7"
  by (simp add: mean_sums_eq)

lemma valid_pairs_empty_iff:
  "valid_pairs corr n = [] \<longleftrightarrow> (\<forall>i. 0 \<le> i \<and> i < n \<longrightarrow> corr i = - 1)"
  by (auto simp: valid_pairs_def filter_empty_conv)

lemma mean_1x7_valid:
  assumes "valid_pairs corr n \<noteq> []"
  shows "mean_division (mean_sums cuts src tgt corr n)
         = map Some [mean_source src corr n 0, mean_source src corr n 1,
                     mean_source src corr n 2, mean_target tgt corr n 0,
                     mean_target tgt corr n 1, mean_target tgt corr n 2,
                     real (length (valid_pairs corr n))]"
  using assms
  by (simp add: mean_division_def upt_7 mean_sums_nth mean_sums_nth(2) [unfolded One_nat_def]
        mean_source_def mean_target_def)

lemma mean_1x7_sentinel:
  assumes "valid_pairs corr n = []"
  shows "mean_division (mean_sums cuts src tgt corr n)
         = [None, None, None, None, None, None, Some 0]"
  using assms
  by (simp add: mean_division_def upt_7 mean_sums_nth mean_sums_nth(2) [unfolded One_nat_def])

lemma sxy_body_sentinel:
  assumes "valid_pairs corr n = []"
  shows "sxy_sums cuts src tgt corr m n = replicate 9 (Some 0)"
proof -
  have all: "\<forall>i\<in>set [0..n - 1]. corr i = - 1"
    using assms by (simp add: valid_pairs_def filter_empty_conv)
  have body: "sxy_body src tgt corr m r acc = acc" if "set r \<subseteq> set [0..n - 1]" for r acc
    using that all unfolding sxy_body_def
    by (induction r arbitrary: acc) auto
  have sub: "\<forall>r\<in>set (blocked_range cuts xs). set r \<subseteq> set xs" for xs :: "int list"
  proof (induction cuts arbitrary: xs)
    case Nil
    then show ?case by simp
  next
    case (Cons k ks)
    show ?case
      using Cons.IH [of "drop k xs"] set_take_subset [of k xs] set_drop_subset [of k xs]
      by auto
  qed
  have join: "foldl (fp_vector_sum 9) (replicate 9 (Some 0)) (replicate l (replicate 9 (Some 0)))
              = replicate 9 (Some 0)" for l
    by (induction l) (simp_all add: fp_vector_sum_def upt_9 eval_nat_numeral)
  have "map (\<lambda>r. sxy_body src tgt corr m r (replicate 9 (Some 0))) (blocked_range cuts [0..n - 1])
        = replicate (length (blocked_range cuts [0..n - 1])) (replicate 9 (Some 0))"
    using sub [of "[0..n - 1]"] by (simp add: map_replicate_const [symmetric] body cong: map_cong)
  then show ?thesis
    by (simp add: sxy_sums_def parallel_reduce_def join)
qed

lemma upt_3: "[0..<3] = [0, 1, 2]"
  by (simp add: eval_nat_numeral upt_rec)

lemma Get3x3_sentinel:
  assumes "valid_pairs corr n = []"
  shows "Get3x3SxyLinearSystem cuts1 cuts2 src tgt corr n
         = \<lparr> Sxy = replicate 9 None, mean_t = replicate 3 None, mean_s = replicate 3 None,
             inlier_count = 0 \<rparr>"
  unfolding Get3x3SxyLinearSystem_def Let_def mean_1x7_sentinel [OF assms]
    sxy_body_sentinel [OF assms]
  apply (simp add: upt_9 upt_3 trunc_int_def)
  apply (simp add: eval_nat_numeral)
  done

lemma Get3x3_valid:
  assumes "valid_pairs corr n \<noteq> []"
  shows "Get3x3SxyLinearSystem cuts1 cuts2 src tgt corr n
         = \<lparr> Sxy = map (\<lambda>k. Some ((\<Sum>i\<leftarrow>valid_pairs corr n.
                          (src (int32 (3 * i + int (k mod 3))) - mean_source src corr n (k mod 3)) *
                          (tgt (int32 (3 * corr i + int (k div 3)))
                             - mean_target tgt corr n (k div 3)))
                        / real (length (valid_pairs corr n)))) [0..<9],
             mean_t = map (\<lambda>k. Some (mean_target tgt corr n k)) [0..<3],
             mean_s = map (\<lambda>k. Some (mean_source src corr n k)) [0..<3],
             inlier_count = int (length (valid_pairs corr n)) \<rparr>"
proof -
  let ?m = "[mean_source src corr n 0, mean_source src corr n 1,
             mean_source src corr n 2, mean_target tgt corr n 0,
             mean_target tgt corr n 1, mean_target tgt corr n 2,
             real (length (valid_pairs corr n))]"
  have len: "length ?m = 7" by simp
  have nz: "real (length (valid_pairs corr n)) \<noteq> 0" using assms by simp
  have m3: "?m ! (k mod 3) = mean_source src corr n (k mod 3)" for k
  proof -
    have "k mod 3 = 0 \<or> k mod 3 = 1 \<or> k mod 3 = 2" by arith
    then show ?thesis by auto
  qed
  have d3: "?m ! (3 + k div 3) = mean_target tgt corr n (k div 3)" if "k < 9" for k
  proof -
    have "k div 3 = 0 \<or> k div 3 = 1 \<or> k div 3 = 2" using that by arith
    then show ?thesis by auto
  qed
  have c: "(\<Sum>i\<leftarrow>[0..n - 1]. sxy_contribution src tgt corr ?m i ! k)
           = (\<Sum>i\<leftarrow>valid_pairs corr n.
                (src (int32 (3 * i + int (k mod 3))) - mean_source src corr n (k mod 3)) *
                (tgt (int32 (3 * corr i + int (k div 3))) - mean_target tgt corr n (k div 3)))"
    if "k < 9" for k
  proof -
    have "sxy_contribution src tgt corr ?m i ! k
          = (if corr i \<noteq> - 1 then
               (src (int32 (3 * i + int (k mod 3))) - mean_source src corr n (k mod 3)) *
               (tgt (int32 (3 * corr i + int (k div 3))) - mean_target tgt corr n (k div 3))
             else 0)" for i
      using that m3 [of k] d3 [OF that] by (simp add: sxy_contribution_def del: nth_Cons_numeral)
    then show ?thesis by (simp add: sum_list_valid)
  qed
  show ?thesis
    unfolding Get3x3SxyLinearSystem_def Let_def mean_1x7_valid [OF assms]
      sxy_body_eq [OF len]
    using nz by (simp add: c [unfolded One_nat_def] trunc_int_def upt_3 cong: map_cong)
qed

lemma Det_Matmul: "Det (Matmul A B) = Det A * Det B"
  by (cases A; cases B) (simp add: algebra_simps)

lemma Det_T: "Det (T A) = Det A"
  by (cases A) (simp add: algebra_simps)

lemma Det_Eye: "Det Eye = 1"
  by (simp add: Eye_def diag3_def)

lemma orthogonal_Det: "orthogonal M \<Longrightarrow> Det M = 1 \<or> Det M = - 1"
proof -
  assume "orthogonal M"
  then have "Det (Matmul (T M) M) = 1" by (simp add: orthogonal_def Det_Eye)
  then have "Det M * Det M = 1" by (simp add: Det_Matmul Det_T)
  then show ?thesis by (simp add: square_eq_1_iff)
qed

lemma those_map_Some: "those (map (\<lambda>k. Some (f k)) xs) = Some (map f xs)"
  by (induction xs) simp_all


lemma valid_pairs_nonempty: "0 \<le> i \<Longrightarrow> i < n \<Longrightarrow> corr i \<noteq> - 1 \<Longrightarrow> valid_pairs corr n \<noteq> []"
  by (auto simp: valid_pairs_empty_iff)


lemma valid_pairs_no: "valid_pairs no_corres n = []"
  by (simp add: valid_pairs_def no_corres_def)


lemma int32_wraps: "int32 (3 * 715827883 + 0) = - 2147483647"
  by (simp add: int32_def)






lemma set_last_Eye: "set_last Eye c = diag3 1 1 c"
  by (simp add: Eye_def diag3_def)

lemma Det_diag3: "Det (diag3 a b c) = a * b * c"
  by (simp add: diag3_def)

text \<open>
  Claim C1. Let the decomposition routine return orthogonal factors \<open>U\<close> and \<open>VT\<close>, as a
  singular value decomposition does. Then for every input with a valid correspondence the
  returned rotation is \<open>U * diag(1, 1, det U * det VT) * VT\<close> for the factors of the
  accumulated matrix, and its determinant is \<open>+1\<close>. Full rank is not needed for this.
\<close>
theorem rotation_is_proper:
  assumes "0 \<le> i" "i < n" "corr i \<noteq> - 1"
    and svd: "\<And>A. orthogonal (fst (svd A)) \<and> orthogonal (snd (snd (svd A)))"
  shows "\<exists>A U D VT R t c.
           those (Sxy (Get3x3SxyLinearSystem cuts1 cuts2 src tgt corr n)) = Some A \<and>
           svd (tensor3x3 A) = (U, D, VT) \<and>
           ComputeRtPointToPointCPU svd cuts1 cuts2 src tgt corr n = (Some R, t, c) \<and>
           R = Matmul U (Matmul (diag3 1 1 (Det U * Det VT)) VT) \<and>
           Det R = 1"
proof -
  have v: "valid_pairs corr n \<noteq> []"
    using assms(1-3) by (rule valid_pairs_nonempty)
  obtain A where A: "those (Sxy (Get3x3SxyLinearSystem cuts1 cuts2 src tgt corr n)) = Some A"
    unfolding Get3x3_valid [OF v] by (simp add: those_map_Some)
  obtain U D VT where s: "svd (tensor3x3 A) = (U, D, VT)"
    by (cases "svd (tensor3x3 A)") auto
  have oU: "orthogonal U" and oV: "orthogonal VT"
    using svd [of "tensor3x3 A"] by (simp_all add: s)
  let ?S = "if Det U * Det (T VT) < 0 then set_last Eye (- 1) else Eye"
  have S: "?S = diag3 1 1 (Det U * Det VT)"
    using orthogonal_Det [OF oU] orthogonal_Det [OF oV]
    by (auto simp: Det_T set_last_Eye) (simp_all add: Eye_def)
  have "Det (Matmul U (Matmul (diag3 1 1 (Det U * Det VT)) VT)) = 1"
    using orthogonal_Det [OF oU] orthogonal_Det [OF oV]
    by (auto simp: Det_Matmul Det_diag3)
  moreover have "\<exists>t c. ComputeRtPointToPointCPU svd cuts1 cuts2 src tgt corr n
                   = (Some (Matmul U (Matmul ?S VT)), t, c)"
    using A s unfolding ComputeRtPointToPointCPU_def Get3x3_valid [OF v] Let_def
    by (simp add: those_map_Some upt_3)
  ultimately show ?thesis
    using A s unfolding S by blast
qed

theorem rotation_is_proper_witness:
  "(0::int) \<le> 0 \<and> (0::int) < 2 \<and> ex_corres 0 \<noteq> - 1 \<and>
   (\<forall>A. orthogonal (fst (ex_svd A)) \<and> orthogonal (snd (snd (ex_svd A)))) \<and>
   (\<exists>A U D VT R t c.
           those (Sxy (Get3x3SxyLinearSystem [] [] ex_source ex_target ex_corres 2)) = Some A \<and>
           ex_svd (tensor3x3 A) = (U, D, VT) \<and>
           ComputeRtPointToPointCPU ex_svd [] [] ex_source ex_target ex_corres 2 = (Some R, t, c) \<and>
           R = Matmul U (Matmul (diag3 1 1 (Det U * Det VT)) VT) \<and>
           Det R = 1)"
proof -
  have h: "(0::int) \<le> 0" "(0::int) < 2" "ex_corres 0 \<noteq> - 1"
    by (simp_all add: ex_corres_def)
  have o: "orthogonal (fst (ex_svd A)) \<and> orthogonal (snd (snd (ex_svd A)))" for A
    by (simp add: ex_svd_def orthogonal_def Eye_def diag3_def)
  show ?thesis
    using h o rotation_is_proper [of 0 2 ex_corres ex_svd "[]" "[]" ex_source ex_target]
    by simp
qed

text \<open>
  Claim C10. The divisor of all fifteen quotients of \<open>Get3x3SxyLinearSystem\<close> (six means,
  nine matrix entries) is accumulator entry 6, the number of valid correspondences, and
  nothing guards it: the means are the coordinate sums of the first reduction divided by
  it, the matrix entries are the sums of the second reduction divided by it. It is
  nonzero exactly when some correspondence in range differs from \<open>-1\<close>, and when all are
  \<open>-1\<close> the sums of the second reduction are all 0 and every quotient is a division by
  zero, so that no entry of \<open>Sxy\<close>, \<open>mean_s\<close> and \<open>mean_t\<close> is a number.
\<close>
theorem count_division_unguarded:
  "mean_sums cuts1 src tgt corr n ! 6 = real (length (valid_pairs corr n)) \<and>
   (mean_sums cuts1 src tgt corr n ! 6 \<noteq> 0 \<longleftrightarrow> (\<exists>i. 0 \<le> i \<and> i < n \<and> corr i \<noteq> - 1)) \<and>
   mean_s (Get3x3SxyLinearSystem cuts1 cuts2 src tgt corr n)
     = map (\<lambda>k. fp_div (Some (mean_sums cuts1 src tgt corr n ! k))
                        (Some (mean_sums cuts1 src tgt corr n ! 6))) [0..<3] \<and>
   mean_t (Get3x3SxyLinearSystem cuts1 cuts2 src tgt corr n)
     = map (\<lambda>k. fp_div (Some (mean_sums cuts1 src tgt corr n ! (k + 3)))
                        (Some (mean_sums cuts1 src tgt corr n ! 6))) [0..<3] \<and>
   Sxy (Get3x3SxyLinearSystem cuts1 cuts2 src tgt corr n)
     = map (\<lambda>k. fp_div (sxy_sums cuts2 src tgt corr
                           (mean_division (mean_sums cuts1 src tgt corr n)) n ! k)
                        (Some (mean_sums cuts1 src tgt corr n ! 6))) [0..<9] \<and>
   ((\<forall>i. 0 \<le> i \<and> i < n \<longrightarrow> corr i = - 1) \<longrightarrow>
      sxy_sums cuts2 src tgt corr (mean_division (mean_sums cuts1 src tgt corr n)) n
        = replicate 9 (Some 0) \<and>
      Sxy (Get3x3SxyLinearSystem cuts1 cuts2 src tgt corr n) = replicate 9 None \<and>
      mean_s (Get3x3SxyLinearSystem cuts1 cuts2 src tgt corr n) = replicate 3 None \<and>
      mean_t (Get3x3SxyLinearSystem cuts1 cuts2 src tgt corr n) = replicate 3 None)"
proof (intro conjI impI)
  show c: "mean_sums cuts1 src tgt corr n ! 6 = real (length (valid_pairs corr n))"
    by (rule mean_sums_nth)
  show "mean_sums cuts1 src tgt corr n ! 6 \<noteq> 0 \<longleftrightarrow> (\<exists>i. 0 \<le> i \<and> i < n \<and> corr i \<noteq> - 1)"
    using valid_pairs_empty_iff [of corr n] by (auto simp: c)
  show "mean_s (Get3x3SxyLinearSystem cuts1 cuts2 src tgt corr n)
     = map (\<lambda>k. fp_div (Some (mean_sums cuts1 src tgt corr n ! k))
                        (Some (mean_sums cuts1 src tgt corr n ! 6))) [0..<3]"
    by (simp add: Get3x3SxyLinearSystem_def mean_division_def Let_def upt_3 upt_7)
  show "mean_t (Get3x3SxyLinearSystem cuts1 cuts2 src tgt corr n)
     = map (\<lambda>k. fp_div (Some (mean_sums cuts1 src tgt corr n ! (k + 3)))
                        (Some (mean_sums cuts1 src tgt corr n ! 6))) [0..<3]"
    by (simp add: Get3x3SxyLinearSystem_def mean_division_def Let_def upt_3 upt_7)
  show "Sxy (Get3x3SxyLinearSystem cuts1 cuts2 src tgt corr n)
     = map (\<lambda>k. fp_div (sxy_sums cuts2 src tgt corr
                           (mean_division (mean_sums cuts1 src tgt corr n)) n ! k)
                        (Some (mean_sums cuts1 src tgt corr n ! 6))) [0..<9]"
  proof -
    have h6: "mean_division (mean_sums cuts1 src tgt corr n) ! 6
              = Some (mean_sums cuts1 src tgt corr n ! 6)"
      by (simp add: mean_division_def)
    show ?thesis
      unfolding Get3x3SxyLinearSystem_def Let_def h6
      by (simp only: sxy_system.select_convs)
  qed
next
  assume "\<forall>i. 0 \<le> i \<and> i < n \<longrightarrow> corr i = - 1"
  then have v: "valid_pairs corr n = []" by (simp add: valid_pairs_empty_iff)
  show "sxy_sums cuts2 src tgt corr (mean_division (mean_sums cuts1 src tgt corr n)) n
        = replicate 9 (Some 0)"
    by (rule sxy_body_sentinel [OF v])
  show "Sxy (Get3x3SxyLinearSystem cuts1 cuts2 src tgt corr n) = replicate 9 None"
    and "mean_s (Get3x3SxyLinearSystem cuts1 cuts2 src tgt corr n) = replicate 3 None"
    and "mean_t (Get3x3SxyLinearSystem cuts1 cuts2 src tgt corr n) = replicate 3 None"
    by (simp_all add: Get3x3_sentinel [OF v])
qed

theorem count_division_unguarded_witness:
  "no_corres 0 = - 1 \<and> no_corres 1 = - 1 \<and>
   mean_sums [1] ex_source ex_target no_corres 2 ! 6 = 0 \<and>
   sxy_sums [1] ex_source ex_target no_corres
      (mean_division (mean_sums [1] ex_source ex_target no_corres 2)) 2
     = replicate 9 (Some 0) \<and>
   Sxy (Get3x3SxyLinearSystem [1] [1] ex_source ex_target no_corres 2) = replicate 9 None \<and>
   mean_s (Get3x3SxyLinearSystem [1] [1] ex_source ex_target no_corres 2) = replicate 3 None \<and>
   mean_t (Get3x3SxyLinearSystem [1] [1] ex_source ex_target no_corres 2) = replicate 3 None"
proof -
  have h: "\<forall>i. 0 \<le> i \<and> i < 2 \<longrightarrow> no_corres i = - 1"
    by (simp add: no_corres_def)
  note t = count_division_unguarded [of "[1]" ex_source ex_target no_corres 2 "[1]"]
  from t have a: "mean_sums [1] ex_source ex_target no_corres 2 ! 6
                  = real (length (valid_pairs no_corres 2))"
    by (rule conjunct1)
  from t h have b:
    "sxy_sums [1] ex_source ex_target no_corres
       (mean_division (mean_sums [1] ex_source ex_target no_corres 2)) 2
      = replicate 9 (Some 0) \<and>
     Sxy (Get3x3SxyLinearSystem [1] [1] ex_source ex_target no_corres 2) = replicate 9 None \<and>
     mean_s (Get3x3SxyLinearSystem [1] [1] ex_source ex_target no_corres 2) = replicate 3 None \<and>
     mean_t (Get3x3SxyLinearSystem [1] [1] ex_source ex_target no_corres 2) = replicate 3 None"
    by blast
  show ?thesis
    using a b by (simp add: valid_pairs_no no_corres_def)
qed

lemma upt_29:
  "[0..<29] = [0, 1, 2, 3, 4, 5, 6, 7, 8, 9, 10, 11, 12, 13, 14, 15, 16, 17, 18, 19, 20,
               21, 22, 23, 24, 25, 26, 27, 28]"
  by (simp add: eval_nat_numeral upt_rec)

lemma list29:
  assumes "length xs = 29"
  shows "[xs ! 0, xs ! 1, xs ! 2, xs ! 3, xs ! 4, xs ! 5, xs ! 6, xs ! 7, xs ! 8, xs ! 9, xs ! 10, xs ! 11, xs ! 12, xs ! 13, xs ! 14, xs ! 15, xs ! 16, xs ! 17, xs ! 18, xs ! 19, xs ! 20, xs ! 21, xs ! 22, xs ! 23, xs ! 24, xs ! 25, xs ! 26, xs ! 27, xs ! 28] = xs"
proof -
  have "map ((!) xs) [0..<29] = xs"
    using assms map_nth [of xs] by simp
  then show ?thesis
    unfolding upt_29 by simp
qed

lemma plane_update_explicit:
  fixes J_ij :: "real list" and w r :: real
  assumes A: "A = [a0, a1, a2, a3, a4, a5, a6, a7, a8, a9, a10, a11, a12, a13, a14, a15, a16, a17, a18, a19, a20, a21, a22, a23, a24, a25, a26, a27, a28]"
  shows "A[
                0 := A ! 0 + (J_ij ! 0 * w * J_ij ! 0),
                1 := A ! 1 + (J_ij ! 1 * w * J_ij ! 0),
                2 := A ! 2 + (J_ij ! 1 * w * J_ij ! 1),
                3 := A ! 3 + (J_ij ! 2 * w * J_ij ! 0),
                4 := A ! 4 + (J_ij ! 2 * w * J_ij ! 1),
                5 := A ! 5 + (J_ij ! 2 * w * J_ij ! 2),
                6 := A ! 6 + (J_ij ! 3 * w * J_ij ! 0),
                7 := A ! 7 + (J_ij ! 3 * w * J_ij ! 1),
                8 := A ! 8 + (J_ij ! 3 * w * J_ij ! 2),
                9 := A ! 9 + (J_ij ! 3 * w * J_ij ! 3),
                10 := A ! 10 + (J_ij ! 4 * w * J_ij ! 0),
                11 := A ! 11 + (J_ij ! 4 * w * J_ij ! 1),
                12 := A ! 12 + (J_ij ! 4 * w * J_ij ! 2),
                13 := A ! 13 + (J_ij ! 4 * w * J_ij ! 3),
                14 := A ! 14 + (J_ij ! 4 * w * J_ij ! 4),
                15 := A ! 15 + (J_ij ! 5 * w * J_ij ! 0),
                16 := A ! 16 + (J_ij ! 5 * w * J_ij ! 1),
                17 := A ! 17 + (J_ij ! 5 * w * J_ij ! 2),
                18 := A ! 18 + (J_ij ! 5 * w * J_ij ! 3),
                19 := A ! 19 + (J_ij ! 5 * w * J_ij ! 4),
                20 := A ! 20 + (J_ij ! 5 * w * J_ij ! 5),
                21 := A ! 21 + (J_ij ! 0 * w * r),
                22 := A ! 22 + (J_ij ! 1 * w * r),
                23 := A ! 23 + (J_ij ! 2 * w * r),
                24 := A ! 24 + (J_ij ! 3 * w * r),
                25 := A ! 25 + (J_ij ! 4 * w * r),
                26 := A ! 26 + (J_ij ! 5 * w * r),
                27 := A ! 27 + (r * r),
                28 := A ! 28 + (1)] = vector_sum 29 A
       [
        J_ij ! 0 * w * J_ij ! 0,
        J_ij ! 1 * w * J_ij ! 0,
        J_ij ! 1 * w * J_ij ! 1,
        J_ij ! 2 * w * J_ij ! 0,
        J_ij ! 2 * w * J_ij ! 1,
        J_ij ! 2 * w * J_ij ! 2,
        J_ij ! 3 * w * J_ij ! 0,
        J_ij ! 3 * w * J_ij ! 1,
        J_ij ! 3 * w * J_ij ! 2,
        J_ij ! 3 * w * J_ij ! 3,
        J_ij ! 4 * w * J_ij ! 0,
        J_ij ! 4 * w * J_ij ! 1,
        J_ij ! 4 * w * J_ij ! 2,
        J_ij ! 4 * w * J_ij ! 3,
        J_ij ! 4 * w * J_ij ! 4,
        J_ij ! 5 * w * J_ij ! 0,
        J_ij ! 5 * w * J_ij ! 1,
        J_ij ! 5 * w * J_ij ! 2,
        J_ij ! 5 * w * J_ij ! 3,
        J_ij ! 5 * w * J_ij ! 4,
        J_ij ! 5 * w * J_ij ! 5,
        J_ij ! 0 * w * r,
        J_ij ! 1 * w * r,
        J_ij ! 2 * w * r,
        J_ij ! 3 * w * r,
        J_ij ! 4 * w * r,
        J_ij ! 5 * w * r,
        r * r,
        1]"
  unfolding A by (simp add: vector_sum_def upt_29)

lemma plane_update:
  fixes J_ij :: "real list" and w r :: real
  assumes "length A = 29"
  shows "A[
                0 := A ! 0 + (J_ij ! 0 * w * J_ij ! 0),
                1 := A ! 1 + (J_ij ! 1 * w * J_ij ! 0),
                2 := A ! 2 + (J_ij ! 1 * w * J_ij ! 1),
                3 := A ! 3 + (J_ij ! 2 * w * J_ij ! 0),
                4 := A ! 4 + (J_ij ! 2 * w * J_ij ! 1),
                5 := A ! 5 + (J_ij ! 2 * w * J_ij ! 2),
                6 := A ! 6 + (J_ij ! 3 * w * J_ij ! 0),
                7 := A ! 7 + (J_ij ! 3 * w * J_ij ! 1),
                8 := A ! 8 + (J_ij ! 3 * w * J_ij ! 2),
                9 := A ! 9 + (J_ij ! 3 * w * J_ij ! 3),
                10 := A ! 10 + (J_ij ! 4 * w * J_ij ! 0),
                11 := A ! 11 + (J_ij ! 4 * w * J_ij ! 1),
                12 := A ! 12 + (J_ij ! 4 * w * J_ij ! 2),
                13 := A ! 13 + (J_ij ! 4 * w * J_ij ! 3),
                14 := A ! 14 + (J_ij ! 4 * w * J_ij ! 4),
                15 := A ! 15 + (J_ij ! 5 * w * J_ij ! 0),
                16 := A ! 16 + (J_ij ! 5 * w * J_ij ! 1),
                17 := A ! 17 + (J_ij ! 5 * w * J_ij ! 2),
                18 := A ! 18 + (J_ij ! 5 * w * J_ij ! 3),
                19 := A ! 19 + (J_ij ! 5 * w * J_ij ! 4),
                20 := A ! 20 + (J_ij ! 5 * w * J_ij ! 5),
                21 := A ! 21 + (J_ij ! 0 * w * r),
                22 := A ! 22 + (J_ij ! 1 * w * r),
                23 := A ! 23 + (J_ij ! 2 * w * r),
                24 := A ! 24 + (J_ij ! 3 * w * r),
                25 := A ! 25 + (J_ij ! 4 * w * r),
                26 := A ! 26 + (J_ij ! 5 * w * r),
                27 := A ! 27 + (r * r),
                28 := A ! 28 + (1)] = vector_sum 29 A
       [
        J_ij ! 0 * w * J_ij ! 0,
        J_ij ! 1 * w * J_ij ! 0,
        J_ij ! 1 * w * J_ij ! 1,
        J_ij ! 2 * w * J_ij ! 0,
        J_ij ! 2 * w * J_ij ! 1,
        J_ij ! 2 * w * J_ij ! 2,
        J_ij ! 3 * w * J_ij ! 0,
        J_ij ! 3 * w * J_ij ! 1,
        J_ij ! 3 * w * J_ij ! 2,
        J_ij ! 3 * w * J_ij ! 3,
        J_ij ! 4 * w * J_ij ! 0,
        J_ij ! 4 * w * J_ij ! 1,
        J_ij ! 4 * w * J_ij ! 2,
        J_ij ! 4 * w * J_ij ! 3,
        J_ij ! 4 * w * J_ij ! 4,
        J_ij ! 5 * w * J_ij ! 0,
        J_ij ! 5 * w * J_ij ! 1,
        J_ij ! 5 * w * J_ij ! 2,
        J_ij ! 5 * w * J_ij ! 3,
        J_ij ! 5 * w * J_ij ! 4,
        J_ij ! 5 * w * J_ij ! 5,
        J_ij ! 0 * w * r,
        J_ij ! 1 * w * r,
        J_ij ! 2 * w * r,
        J_ij ! 3 * w * r,
        J_ij ! 4 * w * r,
        J_ij ! 5 * w * r,
        r * r,
        1]"
  by (rule plane_update_explicit) (rule list29 [OF assms, symmetric])

lemma colored_update_explicit:
  fixes J_G J_I :: "real list" and w_G w_I r_G r_I :: real
  assumes A: "A = [a0, a1, a2, a3, a4, a5, a6, a7, a8, a9, a10, a11, a12, a13, a14, a15, a16, a17, a18, a19, a20, a21, a22, a23, a24, a25, a26, a27, a28]"
  shows "A[
                0 := A ! 0 + (J_G ! 0 * w_G * J_G ! 0 + J_I ! 0 * w_I * J_I ! 0),
                1 := A ! 1 + (J_G ! 1 * w_G * J_G ! 0 + J_I ! 1 * w_I * J_I ! 0),
                2 := A ! 2 + (J_G ! 1 * w_G * J_G ! 1 + J_I ! 1 * w_I * J_I ! 1),
                3 := A ! 3 + (J_G ! 2 * w_G * J_G ! 0 + J_I ! 2 * w_I * J_I ! 0),
                4 := A ! 4 + (J_G ! 2 * w_G * J_G ! 1 + J_I ! 2 * w_I * J_I ! 1),
                5 := A ! 5 + (J_G ! 2 * w_G * J_G ! 2 + J_I ! 2 * w_I * J_I ! 2),
                6 := A ! 6 + (J_G ! 3 * w_G * J_G ! 0 + J_I ! 3 * w_I * J_I ! 0),
                7 := A ! 7 + (J_G ! 3 * w_G * J_G ! 1 + J_I ! 3 * w_I * J_I ! 1),
                8 := A ! 8 + (J_G ! 3 * w_G * J_G ! 2 + J_I ! 3 * w_I * J_I ! 2),
                9 := A ! 9 + (J_G ! 3 * w_G * J_G ! 3 + J_I ! 3 * w_I * J_I ! 3),
                10 := A ! 10 + (J_G ! 4 * w_G * J_G ! 0 + J_I ! 4 * w_I * J_I ! 0),
                11 := A ! 11 + (J_G ! 4 * w_G * J_G ! 1 + J_I ! 4 * w_I * J_I ! 1),
                12 := A ! 12 + (J_G ! 4 * w_G * J_G ! 2 + J_I ! 4 * w_I * J_I ! 2),
                13 := A ! 13 + (J_G ! 4 * w_G * J_G ! 3 + J_I ! 4 * w_I * J_I ! 3),
                14 := A ! 14 + (J_G ! 4 * w_G * J_G ! 4 + J_I ! 4 * w_I * J_I ! 4),
                15 := A ! 15 + (J_G ! 5 * w_G * J_G ! 0 + J_I ! 5 * w_I * J_I ! 0),
                16 := A ! 16 + (J_G ! 5 * w_G * J_G ! 1 + J_I ! 5 * w_I * J_I ! 1),
                17 := A ! 17 + (J_G ! 5 * w_G * J_G ! 2 + J_I ! 5 * w_I * J_I ! 2),
                18 := A ! 18 + (J_G ! 5 * w_G * J_G ! 3 + J_I ! 5 * w_I * J_I ! 3),
                19 := A ! 19 + (J_G ! 5 * w_G * J_G ! 4 + J_I ! 5 * w_I * J_I ! 4),
                20 := A ! 20 + (J_G ! 5 * w_G * J_G ! 5 + J_I ! 5 * w_I * J_I ! 5),
                21 := A ! 21 + (J_G ! 0 * w_G * r_G + J_I ! 0 * w_I * r_I),
                22 := A ! 22 + (J_G ! 1 * w_G * r_G + J_I ! 1 * w_I * r_I),
                23 := A ! 23 + (J_G ! 2 * w_G * r_G + J_I ! 2 * w_I * r_I),
                24 := A ! 24 + (J_G ! 3 * w_G * r_G + J_I ! 3 * w_I * r_I),
                25 := A ! 25 + (J_G ! 4 * w_G * r_G + J_I ! 4 * w_I * r_I),
                26 := A ! 26 + (J_G ! 5 * w_G * r_G + J_I ! 5 * w_I * r_I),
                27 := A ! 27 + (r_G * r_G + r_I * r_I),
                28 := A ! 28 + (1)] = vector_sum 29 A
       [
        J_G ! 0 * w_G * J_G ! 0 + J_I ! 0 * w_I * J_I ! 0,
        J_G ! 1 * w_G * J_G ! 0 + J_I ! 1 * w_I * J_I ! 0,
        J_G ! 1 * w_G * J_G ! 1 + J_I ! 1 * w_I * J_I ! 1,
        J_G ! 2 * w_G * J_G ! 0 + J_I ! 2 * w_I * J_I ! 0,
        J_G ! 2 * w_G * J_G ! 1 + J_I ! 2 * w_I * J_I ! 1,
        J_G ! 2 * w_G * J_G ! 2 + J_I ! 2 * w_I * J_I ! 2,
        J_G ! 3 * w_G * J_G ! 0 + J_I ! 3 * w_I * J_I ! 0,
        J_G ! 3 * w_G * J_G ! 1 + J_I ! 3 * w_I * J_I ! 1,
        J_G ! 3 * w_G * J_G ! 2 + J_I ! 3 * w_I * J_I ! 2,
        J_G ! 3 * w_G * J_G ! 3 + J_I ! 3 * w_I * J_I ! 3,
        J_G ! 4 * w_G * J_G ! 0 + J_I ! 4 * w_I * J_I ! 0,
        J_G ! 4 * w_G * J_G ! 1 + J_I ! 4 * w_I * J_I ! 1,
        J_G ! 4 * w_G * J_G ! 2 + J_I ! 4 * w_I * J_I ! 2,
        J_G ! 4 * w_G * J_G ! 3 + J_I ! 4 * w_I * J_I ! 3,
        J_G ! 4 * w_G * J_G ! 4 + J_I ! 4 * w_I * J_I ! 4,
        J_G ! 5 * w_G * J_G ! 0 + J_I ! 5 * w_I * J_I ! 0,
        J_G ! 5 * w_G * J_G ! 1 + J_I ! 5 * w_I * J_I ! 1,
        J_G ! 5 * w_G * J_G ! 2 + J_I ! 5 * w_I * J_I ! 2,
        J_G ! 5 * w_G * J_G ! 3 + J_I ! 5 * w_I * J_I ! 3,
        J_G ! 5 * w_G * J_G ! 4 + J_I ! 5 * w_I * J_I ! 4,
        J_G ! 5 * w_G * J_G ! 5 + J_I ! 5 * w_I * J_I ! 5,
        J_G ! 0 * w_G * r_G + J_I ! 0 * w_I * r_I,
        J_G ! 1 * w_G * r_G + J_I ! 1 * w_I * r_I,
        J_G ! 2 * w_G * r_G + J_I ! 2 * w_I * r_I,
        J_G ! 3 * w_G * r_G + J_I ! 3 * w_I * r_I,
        J_G ! 4 * w_G * r_G + J_I ! 4 * w_I * r_I,
        J_G ! 5 * w_G * r_G + J_I ! 5 * w_I * r_I,
        r_G * r_G + r_I * r_I,
        1]"
  unfolding A by (simp add: vector_sum_def upt_29)

lemma colored_update:
  fixes J_G J_I :: "real list" and w_G w_I r_G r_I :: real
  assumes "length A = 29"
  shows "A[
                0 := A ! 0 + (J_G ! 0 * w_G * J_G ! 0 + J_I ! 0 * w_I * J_I ! 0),
                1 := A ! 1 + (J_G ! 1 * w_G * J_G ! 0 + J_I ! 1 * w_I * J_I ! 0),
                2 := A ! 2 + (J_G ! 1 * w_G * J_G ! 1 + J_I ! 1 * w_I * J_I ! 1),
                3 := A ! 3 + (J_G ! 2 * w_G * J_G ! 0 + J_I ! 2 * w_I * J_I ! 0),
                4 := A ! 4 + (J_G ! 2 * w_G * J_G ! 1 + J_I ! 2 * w_I * J_I ! 1),
                5 := A ! 5 + (J_G ! 2 * w_G * J_G ! 2 + J_I ! 2 * w_I * J_I ! 2),
                6 := A ! 6 + (J_G ! 3 * w_G * J_G ! 0 + J_I ! 3 * w_I * J_I ! 0),
                7 := A ! 7 + (J_G ! 3 * w_G * J_G ! 1 + J_I ! 3 * w_I * J_I ! 1),
                8 := A ! 8 + (J_G ! 3 * w_G * J_G ! 2 + J_I ! 3 * w_I * J_I ! 2),
                9 := A ! 9 + (J_G ! 3 * w_G * J_G ! 3 + J_I ! 3 * w_I * J_I ! 3),
                10 := A ! 10 + (J_G ! 4 * w_G * J_G ! 0 + J_I ! 4 * w_I * J_I ! 0),
                11 := A ! 11 + (J_G ! 4 * w_G * J_G ! 1 + J_I ! 4 * w_I * J_I ! 1),
                12 := A ! 12 + (J_G ! 4 * w_G * J_G ! 2 + J_I ! 4 * w_I * J_I ! 2),
                13 := A ! 13 + (J_G ! 4 * w_G * J_G ! 3 + J_I ! 4 * w_I * J_I ! 3),
                14 := A ! 14 + (J_G ! 4 * w_G * J_G ! 4 + J_I ! 4 * w_I * J_I ! 4),
                15 := A ! 15 + (J_G ! 5 * w_G * J_G ! 0 + J_I ! 5 * w_I * J_I ! 0),
                16 := A ! 16 + (J_G ! 5 * w_G * J_G ! 1 + J_I ! 5 * w_I * J_I ! 1),
                17 := A ! 17 + (J_G ! 5 * w_G * J_G ! 2 + J_I ! 5 * w_I * J_I ! 2),
                18 := A ! 18 + (J_G ! 5 * w_G * J_G ! 3 + J_I ! 5 * w_I * J_I ! 3),
                19 := A ! 19 + (J_G ! 5 * w_G * J_G ! 4 + J_I ! 5 * w_I * J_I ! 4),
                20 := A ! 20 + (J_G ! 5 * w_G * J_G ! 5 + J_I ! 5 * w_I * J_I ! 5),
                21 := A ! 21 + (J_G ! 0 * w_G * r_G + J_I ! 0 * w_I * r_I),
                22 := A ! 22 + (J_G ! 1 * w_G * r_G + J_I ! 1 * w_I * r_I),
                23 := A ! 23 + (J_G ! 2 * w_G * r_G + J_I ! 2 * w_I * r_I),
                24 := A ! 24 + (J_G ! 3 * w_G * r_G + J_I ! 3 * w_I * r_I),
                25 := A ! 25 + (J_G ! 4 * w_G * r_G + J_I ! 4 * w_I * r_I),
                26 := A ! 26 + (J_G ! 5 * w_G * r_G + J_I ! 5 * w_I * r_I),
                27 := A ! 27 + (r_G * r_G + r_I * r_I),
                28 := A ! 28 + (1)] = vector_sum 29 A
       [
        J_G ! 0 * w_G * J_G ! 0 + J_I ! 0 * w_I * J_I ! 0,
        J_G ! 1 * w_G * J_G ! 0 + J_I ! 1 * w_I * J_I ! 0,
        J_G ! 1 * w_G * J_G ! 1 + J_I ! 1 * w_I * J_I ! 1,
        J_G ! 2 * w_G * J_G ! 0 + J_I ! 2 * w_I * J_I ! 0,
        J_G ! 2 * w_G * J_G ! 1 + J_I ! 2 * w_I * J_I ! 1,
        J_G ! 2 * w_G * J_G ! 2 + J_I ! 2 * w_I * J_I ! 2,
        J_G ! 3 * w_G * J_G ! 0 + J_I ! 3 * w_I * J_I ! 0,
        J_G ! 3 * w_G * J_G ! 1 + J_I ! 3 * w_I * J_I ! 1,
        J_G ! 3 * w_G * J_G ! 2 + J_I ! 3 * w_I * J_I ! 2,
        J_G ! 3 * w_G * J_G ! 3 + J_I ! 3 * w_I * J_I ! 3,
        J_G ! 4 * w_G * J_G ! 0 + J_I ! 4 * w_I * J_I ! 0,
        J_G ! 4 * w_G * J_G ! 1 + J_I ! 4 * w_I * J_I ! 1,
        J_G ! 4 * w_G * J_G ! 2 + J_I ! 4 * w_I * J_I ! 2,
        J_G ! 4 * w_G * J_G ! 3 + J_I ! 4 * w_I * J_I ! 3,
        J_G ! 4 * w_G * J_G ! 4 + J_I ! 4 * w_I * J_I ! 4,
        J_G ! 5 * w_G * J_G ! 0 + J_I ! 5 * w_I * J_I ! 0,
        J_G ! 5 * w_G * J_G ! 1 + J_I ! 5 * w_I * J_I ! 1,
        J_G ! 5 * w_G * J_G ! 2 + J_I ! 5 * w_I * J_I ! 2,
        J_G ! 5 * w_G * J_G ! 3 + J_I ! 5 * w_I * J_I ! 3,
        J_G ! 5 * w_G * J_G ! 4 + J_I ! 5 * w_I * J_I ! 4,
        J_G ! 5 * w_G * J_G ! 5 + J_I ! 5 * w_I * J_I ! 5,
        J_G ! 0 * w_G * r_G + J_I ! 0 * w_I * r_I,
        J_G ! 1 * w_G * r_G + J_I ! 1 * w_I * r_I,
        J_G ! 2 * w_G * r_G + J_I ! 2 * w_I * r_I,
        J_G ! 3 * w_G * r_G + J_I ! 3 * w_I * r_I,
        J_G ! 4 * w_G * r_G + J_I ! 4 * w_I * r_I,
        J_G ! 5 * w_G * r_G + J_I ! 5 * w_I * r_I,
        r_G * r_G + r_I * r_I,
        1]"
  by (rule colored_update_explicit) (rule list29 [OF assms, symmetric])


lemma vector_sum_zero: "length A = m \<Longrightarrow> vector_sum m A (replicate m 0) = A"
  by (simp add: vector_sum_def list_eq_iff_nth_eq)

lemma plane_step:
  assumes "length A = 29"
  shows "(let (valid, J_ij, r) = GetJacobianPointToPlane jac i src tgt nrm corr; w = op r
          in if valid then
               A[
                0 := A ! 0 + (J_ij ! 0 * w * J_ij ! 0),
                1 := A ! 1 + (J_ij ! 1 * w * J_ij ! 0),
                2 := A ! 2 + (J_ij ! 1 * w * J_ij ! 1),
                3 := A ! 3 + (J_ij ! 2 * w * J_ij ! 0),
                4 := A ! 4 + (J_ij ! 2 * w * J_ij ! 1),
                5 := A ! 5 + (J_ij ! 2 * w * J_ij ! 2),
                6 := A ! 6 + (J_ij ! 3 * w * J_ij ! 0),
                7 := A ! 7 + (J_ij ! 3 * w * J_ij ! 1),
                8 := A ! 8 + (J_ij ! 3 * w * J_ij ! 2),
                9 := A ! 9 + (J_ij ! 3 * w * J_ij ! 3),
                10 := A ! 10 + (J_ij ! 4 * w * J_ij ! 0),
                11 := A ! 11 + (J_ij ! 4 * w * J_ij ! 1),
                12 := A ! 12 + (J_ij ! 4 * w * J_ij ! 2),
                13 := A ! 13 + (J_ij ! 4 * w * J_ij ! 3),
                14 := A ! 14 + (J_ij ! 4 * w * J_ij ! 4),
                15 := A ! 15 + (J_ij ! 5 * w * J_ij ! 0),
                16 := A ! 16 + (J_ij ! 5 * w * J_ij ! 1),
                17 := A ! 17 + (J_ij ! 5 * w * J_ij ! 2),
                18 := A ! 18 + (J_ij ! 5 * w * J_ij ! 3),
                19 := A ! 19 + (J_ij ! 5 * w * J_ij ! 4),
                20 := A ! 20 + (J_ij ! 5 * w * J_ij ! 5),
                21 := A ! 21 + (J_ij ! 0 * w * r),
                22 := A ! 22 + (J_ij ! 1 * w * r),
                23 := A ! 23 + (J_ij ! 2 * w * r),
                24 := A ! 24 + (J_ij ! 3 * w * r),
                25 := A ! 25 + (J_ij ! 4 * w * r),
                26 := A ! 26 + (J_ij ! 5 * w * r),
                27 := A ! 27 + (r * r),
                28 := A ! 28 + (1)]
             else A) = vector_sum 29 A (plane_contribution jac op src tgt nrm corr i)"
proof (cases "GetJacobianPointToPlane jac i src tgt nrm corr")
  case (fields valid J_ij r)
  show ?thesis
  proof (cases valid)
    case True
    then show ?thesis
      unfolding plane_contribution_def fields Let_def prod.case if_True
      by (simp only: plane_update [OF assms] if_True)
  next
    case False
    then show ?thesis
      unfolding plane_contribution_def fields Let_def prod.case
      by (simp only: vector_sum_zero [OF assms] if_False)
  qed
qed

lemma plane_kernel_sum:
  "ComputePosePointToPlaneKernelCPU jac op cuts src tgt nrm corr n
   = map (\<lambda>k. \<Sum>i\<leftarrow>[0..n - 1]. plane_contribution jac op src tgt nrm corr i ! k) [0..<29]"
proof -
  have b: "plane_body jac op src tgt nrm corr = (\<lambda>r acc. foldl (\<lambda>A i.
          let (valid, J_ij, r) = GetJacobianPointToPlane jac i src tgt nrm corr; w = op r
          in if valid then
               A[
                0 := A ! 0 + (J_ij ! 0 * w * J_ij ! 0),
                1 := A ! 1 + (J_ij ! 1 * w * J_ij ! 0),
                2 := A ! 2 + (J_ij ! 1 * w * J_ij ! 1),
                3 := A ! 3 + (J_ij ! 2 * w * J_ij ! 0),
                4 := A ! 4 + (J_ij ! 2 * w * J_ij ! 1),
                5 := A ! 5 + (J_ij ! 2 * w * J_ij ! 2),
                6 := A ! 6 + (J_ij ! 3 * w * J_ij ! 0),
                7 := A ! 7 + (J_ij ! 3 * w * J_ij ! 1),
                8 := A ! 8 + (J_ij ! 3 * w * J_ij ! 2),
                9 := A ! 9 + (J_ij ! 3 * w * J_ij ! 3),
                10 := A ! 10 + (J_ij ! 4 * w * J_ij ! 0),
                11 := A ! 11 + (J_ij ! 4 * w * J_ij ! 1),
                12 := A ! 12 + (J_ij ! 4 * w * J_ij ! 2),
                13 := A ! 13 + (J_ij ! 4 * w * J_ij ! 3),
                14 := A ! 14 + (J_ij ! 4 * w * J_ij ! 4),
                15 := A ! 15 + (J_ij ! 5 * w * J_ij ! 0),
                16 := A ! 16 + (J_ij ! 5 * w * J_ij ! 1),
                17 := A ! 17 + (J_ij ! 5 * w * J_ij ! 2),
                18 := A ! 18 + (J_ij ! 5 * w * J_ij ! 3),
                19 := A ! 19 + (J_ij ! 5 * w * J_ij ! 4),
                20 := A ! 20 + (J_ij ! 5 * w * J_ij ! 5),
                21 := A ! 21 + (J_ij ! 0 * w * r),
                22 := A ! 22 + (J_ij ! 1 * w * r),
                23 := A ! 23 + (J_ij ! 2 * w * r),
                24 := A ! 24 + (J_ij ! 3 * w * r),
                25 := A ! 25 + (J_ij ! 4 * w * r),
                26 := A ! 26 + (J_ij ! 5 * w * r),
                27 := A ! 27 + (r * r),
                28 := A ! 28 + (1)]
             else A) acc r)"
    unfolding plane_body_def by (rule refl)
  have "parallel_reduce cuts n (replicate 29 0) (plane_body jac op src tgt nrm corr)
          (vector_sum 29)
        = map (\<lambda>k. \<Sum>i\<leftarrow>[0..n - 1]. plane_contribution jac op src tgt nrm corr i ! k) [0..<29]"
    unfolding b by (rule parallel_reduce_accumulate) (rule plane_step)
  then show ?thesis
    unfolding ComputePosePointToPlaneKernelCPU_def Let_def
    by (simp add: map_nth cong: map_cong)
qed

lemma colored_step:
  assumes "length A = 29"
  shows "(let (valid, J_G, J_I, r_G, r_I) =
                GetJacobianColoredICP jac i src scol tgt nrm tcol tgrad corr sg sp;
              w_G = op r_G;
              w_I = op r_I
          in if valid then
               A[
                0 := A ! 0 + (J_G ! 0 * w_G * J_G ! 0 + J_I ! 0 * w_I * J_I ! 0),
                1 := A ! 1 + (J_G ! 1 * w_G * J_G ! 0 + J_I ! 1 * w_I * J_I ! 0),
                2 := A ! 2 + (J_G ! 1 * w_G * J_G ! 1 + J_I ! 1 * w_I * J_I ! 1),
                3 := A ! 3 + (J_G ! 2 * w_G * J_G ! 0 + J_I ! 2 * w_I * J_I ! 0),
                4 := A ! 4 + (J_G ! 2 * w_G * J_G ! 1 + J_I ! 2 * w_I * J_I ! 1),
                5 := A ! 5 + (J_G ! 2 * w_G * J_G ! 2 + J_I ! 2 * w_I * J_I ! 2),
                6 := A ! 6 + (J_G ! 3 * w_G * J_G ! 0 + J_I ! 3 * w_I * J_I ! 0),
                7 := A ! 7 + (J_G ! 3 * w_G * J_G ! 1 + J_I ! 3 * w_I * J_I ! 1),
                8 := A ! 8 + (J_G ! 3 * w_G * J_G ! 2 + J_I ! 3 * w_I * J_I ! 2),
                9 := A ! 9 + (J_G ! 3 * w_G * J_G ! 3 + J_I ! 3 * w_I * J_I ! 3),
                10 := A ! 10 + (J_G ! 4 * w_G * J_G ! 0 + J_I ! 4 * w_I * J_I ! 0),
                11 := A ! 11 + (J_G ! 4 * w_G * J_G ! 1 + J_I ! 4 * w_I * J_I ! 1),
                12 := A ! 12 + (J_G ! 4 * w_G * J_G ! 2 + J_I ! 4 * w_I * J_I ! 2),
                13 := A ! 13 + (J_G ! 4 * w_G * J_G ! 3 + J_I ! 4 * w_I * J_I ! 3),
                14 := A ! 14 + (J_G ! 4 * w_G * J_G ! 4 + J_I ! 4 * w_I * J_I ! 4),
                15 := A ! 15 + (J_G ! 5 * w_G * J_G ! 0 + J_I ! 5 * w_I * J_I ! 0),
                16 := A ! 16 + (J_G ! 5 * w_G * J_G ! 1 + J_I ! 5 * w_I * J_I ! 1),
                17 := A ! 17 + (J_G ! 5 * w_G * J_G ! 2 + J_I ! 5 * w_I * J_I ! 2),
                18 := A ! 18 + (J_G ! 5 * w_G * J_G ! 3 + J_I ! 5 * w_I * J_I ! 3),
                19 := A ! 19 + (J_G ! 5 * w_G * J_G ! 4 + J_I ! 5 * w_I * J_I ! 4),
                20 := A ! 20 + (J_G ! 5 * w_G * J_G ! 5 + J_I ! 5 * w_I * J_I ! 5),
                21 := A ! 21 + (J_G ! 0 * w_G * r_G + J_I ! 0 * w_I * r_I),
                22 := A ! 22 + (J_G ! 1 * w_G * r_G + J_I ! 1 * w_I * r_I),
                23 := A ! 23 + (J_G ! 2 * w_G * r_G + J_I ! 2 * w_I * r_I),
                24 := A ! 24 + (J_G ! 3 * w_G * r_G + J_I ! 3 * w_I * r_I),
                25 := A ! 25 + (J_G ! 4 * w_G * r_G + J_I ! 4 * w_I * r_I),
                26 := A ! 26 + (J_G ! 5 * w_G * r_G + J_I ! 5 * w_I * r_I),
                27 := A ! 27 + (r_G * r_G + r_I * r_I),
                28 := A ! 28 + (1)]
             else A) = vector_sum 29 A
                (colored_contribution jac op src scol tgt nrm tcol tgrad corr sg sp i)"
proof (cases "GetJacobianColoredICP jac i src scol tgt nrm tcol tgrad corr sg sp")
  case (fields valid J_G J_I r_G r_I)
  show ?thesis
  proof (cases valid)
    case True
    then show ?thesis
      unfolding colored_contribution_def fields Let_def prod.case if_True
      by (simp only: colored_update [OF assms] if_True)
  next
    case False
    then show ?thesis
      unfolding colored_contribution_def fields Let_def prod.case
      by (simp only: vector_sum_zero [OF assms] if_False)
  qed
qed

lemma colored_kernel_sum:
  "ComputePoseColoredICPKernelCPU jac op cuts src scol tgt nrm tcol tgrad corr sg sp n
   = map (\<lambda>k. \<Sum>i\<leftarrow>[0..n - 1].
            colored_contribution jac op src scol tgt nrm tcol tgrad corr sg sp i ! k) [0..<29]"
proof -
  have b: "colored_body jac op src scol tgt nrm tcol tgrad corr sg sp = (\<lambda>r acc. foldl (\<lambda>A i.
          let (valid, J_G, J_I, r_G, r_I) =
                GetJacobianColoredICP jac i src scol tgt nrm tcol tgrad corr sg sp;
              w_G = op r_G;
              w_I = op r_I
          in if valid then
               A[
                0 := A ! 0 + (J_G ! 0 * w_G * J_G ! 0 + J_I ! 0 * w_I * J_I ! 0),
                1 := A ! 1 + (J_G ! 1 * w_G * J_G ! 0 + J_I ! 1 * w_I * J_I ! 0),
                2 := A ! 2 + (J_G ! 1 * w_G * J_G ! 1 + J_I ! 1 * w_I * J_I ! 1),
                3 := A ! 3 + (J_G ! 2 * w_G * J_G ! 0 + J_I ! 2 * w_I * J_I ! 0),
                4 := A ! 4 + (J_G ! 2 * w_G * J_G ! 1 + J_I ! 2 * w_I * J_I ! 1),
                5 := A ! 5 + (J_G ! 2 * w_G * J_G ! 2 + J_I ! 2 * w_I * J_I ! 2),
                6 := A ! 6 + (J_G ! 3 * w_G * J_G ! 0 + J_I ! 3 * w_I * J_I ! 0),
                7 := A ! 7 + (J_G ! 3 * w_G * J_G ! 1 + J_I ! 3 * w_I * J_I ! 1),
                8 := A ! 8 + (J_G ! 3 * w_G * J_G ! 2 + J_I ! 3 * w_I * J_I ! 2),
                9 := A ! 9 + (J_G ! 3 * w_G * J_G ! 3 + J_I ! 3 * w_I * J_I ! 3),
                10 := A ! 10 + (J_G ! 4 * w_G * J_G ! 0 + J_I ! 4 * w_I * J_I ! 0),
                11 := A ! 11 + (J_G ! 4 * w_G * J_G ! 1 + J_I ! 4 * w_I * J_I ! 1),
                12 := A ! 12 + (J_G ! 4 * w_G * J_G ! 2 + J_I ! 4 * w_I * J_I ! 2),
                13 := A ! 13 + (J_G ! 4 * w_G * J_G ! 3 + J_I ! 4 * w_I * J_I ! 3),
                14 := A ! 14 + (J_G ! 4 * w_G * J_G ! 4 + J_I ! 4 * w_I * J_I ! 4),
                15 := A ! 15 + (J_G ! 5 * w_G * J_G ! 0 + J_I ! 5 * w_I * J_I ! 0),
                16 := A ! 16 + (J_G ! 5 * w_G * J_G ! 1 + J_I ! 5 * w_I * J_I ! 1),
                17 := A ! 17 + (J_G ! 5 * w_G * J_G ! 2 + J_I ! 5 * w_I * J_I ! 2),
                18 := A ! 18 + (J_G ! 5 * w_G * J_G ! 3 + J_I ! 5 * w_I * J_I ! 3),
                19 := A ! 19 + (J_G ! 5 * w_G * J_G ! 4 + J_I ! 5 * w_I * J_I ! 4),
                20 := A ! 20 + (J_G ! 5 * w_G * J_G ! 5 + J_I ! 5 * w_I * J_I ! 5),
                21 := A ! 21 + (J_G ! 0 * w_G * r_G + J_I ! 0 * w_I * r_I),
                22 := A ! 22 + (J_G ! 1 * w_G * r_G + J_I ! 1 * w_I * r_I),
                23 := A ! 23 + (J_G ! 2 * w_G * r_G + J_I ! 2 * w_I * r_I),
                24 := A ! 24 + (J_G ! 3 * w_G * r_G + J_I ! 3 * w_I * r_I),
                25 := A ! 25 + (J_G ! 4 * w_G * r_G + J_I ! 4 * w_I * r_I),
                26 := A ! 26 + (J_G ! 5 * w_G * r_G + J_I ! 5 * w_I * r_I),
                27 := A ! 27 + (r_G * r_G + r_I * r_I),
                28 := A ! 28 + (1)]
             else A) acc r)"
    unfolding colored_body_def by (rule refl)
  have "parallel_reduce cuts n (replicate 29 0)
          (colored_body jac op src scol tgt nrm tcol tgrad corr sg sp) (vector_sum 29)
        = map (\<lambda>k. \<Sum>i\<leftarrow>[0..n - 1].
            colored_contribution jac op src scol tgt nrm tcol tgrad corr sg sp i ! k) [0..<29]"
    unfolding b by (rule parallel_reduce_accumulate) (rule colored_step)
  then show ?thesis
    unfolding ComputePoseColoredICPKernelCPU_def Let_def
    by (simp add: map_nth cong: map_cong)
qed

lemma plane_contribution_27:
  "plane_contribution jac op src tgt nrm corr i ! 27
   = (if fst (plane_observation jac src tgt nrm corr i)
      then plane_residual jac src tgt nrm corr i * plane_residual jac src tgt nrm corr i
      else 0)"
  by (cases "GetJacobianPointToPlane jac i src tgt nrm corr")
     (simp add: plane_contribution_def plane_observation_def plane_residual_def Let_def)

lemma colored_contribution_27:
  "colored_contribution jac op src scol tgt nrm tcol tgrad corr sg sp i ! 27
   = (if fst (colored_observation jac src scol tgt nrm tcol tgrad corr sg sp i)
      then (case colored_observation jac src scol tgt nrm tcol tgrad corr sg sp i of
           (valid, J_G, J_I, r_G, r_I) \<Rightarrow> r_G * r_G + r_I * r_I)
      else 0)"
  by (cases "GetJacobianColoredICP jac i src scol tgt nrm tcol tgrad corr sg sp")
     (simp add: colored_contribution_def colored_observation_def Let_def)

lemma plane_entry_27:
  "ComputePosePointToPlaneKernelCPU jac op cuts src tgt nrm corr n ! 27
   = plane_sum_squares jac src tgt nrm corr n"
  by (simp add: plane_kernel_sum plane_contribution_27 plane_sum_squares_def plane_valid_def
        sum_list_map_filter' del: upt_Suc)

lemma colored_entry_27:
  "ComputePoseColoredICPKernelCPU jac op cuts src scol tgt nrm tcol tgrad corr sg sp n ! 27
   = colored_sum_squares jac src scol tgt nrm tcol tgrad corr sg sp n"
  by (simp add: colored_kernel_sum colored_contribution_27 colored_sum_squares_def
        sum_list_map_filter' del: upt_Suc)


text \<open>
  Claim C2, as the code has it. After the reduction, accumulator entry 27 is the sum of
  the squared residuals over the valid observations (for colored ICP the sum of
  \<open>r_G\<^sup>2 + r_I\<^sup>2\<close>); the robust weight enters entries 0 to 26 only. The value does not
  depend on how the reduction is cut into blocks.
\<close>

theorem residual_entry_is_unweighted_sum_of_squares:
  "ComputePosePointToPlaneKernelCPU jac op cuts src tgt nrm corr n ! 27
     = plane_sum_squares jac src tgt nrm corr n \<and>
   ComputePoseColoredICPKernelCPU cjac op cuts src scol tgt nrm tcol tgrad corr sg sp n ! 27
     = colored_sum_squares cjac src scol tgt nrm tcol tgrad corr sg sp n"
  by (intro conjI) (rule plane_entry_27, rule colored_entry_27)

lemma upto_0_0: "[0..(1::int) - 1] = [0]"
  by (simp add: upto.simps)

lemma ex_plane_observation:
  "plane_observation ex_plane_jac ex_plane_source ex_plane_target ex_plane_normals ex_corres 0
   = (True, [0, 0, 0, 1, 0, 0], 1)"
  by (simp add: plane_observation_def GetJacobianPointToPlane_def ex_plane_jac_def
        ex_corres_def ex_plane_source_def ex_plane_target_def ex_plane_normals_def)

text \<open>
  The claim as written fails for one observation with residual 1 under the Huber weight
  with threshold \<open>1/2\<close>: entry 27 is 1, the weighted residual is \<open>1/2\<close>.
\<close>

theorem residual_entry_weighted_counterexample:
  "ComputePosePointToPlaneKernelCPU ex_plane_jac ex_huber [] ex_plane_source ex_plane_target
       ex_plane_normals ex_corres 1 ! 27
   \<noteq> plane_weighted_sum_squares ex_plane_jac ex_huber ex_plane_source ex_plane_target
       ex_plane_normals ex_corres 1"
proof -
  have l: "ComputePosePointToPlaneKernelCPU ex_plane_jac ex_huber [] ex_plane_source
             ex_plane_target ex_plane_normals ex_corres 1 ! 27 = 1"
    by (simp add: plane_entry_27 plane_sum_squares_def plane_valid_def plane_residual_def
          upto_0_0 ex_plane_observation)
  have r: "plane_weighted_sum_squares ex_plane_jac ex_huber ex_plane_source ex_plane_target
             ex_plane_normals ex_corres 1 = 1 / 2"
    by (simp add: plane_weighted_sum_squares_def plane_valid_def plane_residual_def
          upto_0_0 ex_plane_observation ex_huber_def)
  show ?thesis unfolding l r by simp
qed

lemma plane_contribution_sentinel:
  "corr i = - 1 \<Longrightarrow> plane_contribution jac op src tgt nrm corr i = replicate 29 0"
  by (simp add: plane_contribution_def GetJacobianPointToPlane_def)

lemma sum_list_zeros: "(\<And>x. x \<in> set xs \<Longrightarrow> f x = 0) \<Longrightarrow> (\<Sum>x\<leftarrow>xs. f x) = (0::real)"
  by (induction xs) simp_all

lemma plane_kernel_sentinel:
  assumes "\<forall>i. 0 \<le> i \<and> i < n \<longrightarrow> corr i = - 1"
  shows "ComputePosePointToPlaneKernelCPU jac op cuts src tgt nrm corr n = replicate 29 0"
proof -
  have "(\<Sum>i\<leftarrow>[0..n - 1]. plane_contribution jac op src tgt nrm corr i ! k) = 0"
    if "k < 29" for k
    using assms that by (intro sum_list_zeros) (simp add: plane_contribution_sentinel)
  then show ?thesis
    unfolding plane_kernel_sum by (simp add: list_eq_iff_nth_eq)
qed

lemma upt_6: "[0..<6] = [0, 1, 2, 3, 4, 5]"
  by (simp add: eval_nat_numeral upt_rec)

lemma Decode_zero:
  "DecodeAndSolve6x6 solve (replicate 29 0)
   = (solve (replicate 6 (replicate 6 0)) (replicate 6 0), 0, 0)"
proof -
  have r6: "replicate 6 x = [x, x, x, x, x, x]" for x :: 'a
    by (simp add: eval_nat_numeral)
  show ?thesis
    unfolding DecodeAndSolve6x6_def Let_def upt_6 r6
    by (simp add: trunc_int_def)
qed

text \<open>
  Claim C6. An observation whose correspondence is \<open>-1\<close> leaves every accumulator as it
  was, whatever it holds: the 29 entries of point-to-plane and of colored ICP, the 7
  entries of the first point-to-point pass and the 9 entries of the second. And when
  every correspondence in range is \<open>-1\<close>, \<open>ComputePosePointToPlane\<close> reports a zero
  inlier count (and a zero residual) next to the pose the dense solver gives for the zero
  system.
\<close>

theorem sentinel_contributes_nothing:
  "(corr idx = - 1 \<longrightarrow>
      plane_body jac op src tgt nrm corr [idx] A = A \<and>
      colored_body cjac op src scol tgt nrm tcol tgrad corr sg sp [idx] A = A \<and>
      mean_body src tgt corr [idx] M = M \<and>
      sxy_body src tgt corr mean_1x7 [idx] S = S) \<and>
   ((\<forall>i. 0 \<le> i \<and> i < n \<longrightarrow> corr i = - 1) \<longrightarrow>
      ComputePosePointToPlaneCPU jac op solve cuts src tgt nrm corr n
        = (solve (replicate 6 (replicate 6 0)) (replicate 6 0), 0, 0))"
proof (intro conjI impI)
  assume s: "corr idx = - 1"
  show "plane_body jac op src tgt nrm corr [idx] A = A"
    using s by (simp add: plane_body_def GetJacobianPointToPlane_def)
  show "colored_body cjac op src scol tgt nrm tcol tgrad corr sg sp [idx] A = A"
    using s by (simp add: colored_body_def GetJacobianColoredICP_def)
  show "mean_body src tgt corr [idx] M = M"
    using s by (simp add: mean_body_def)
  show "sxy_body src tgt corr mean_1x7 [idx] S = S"
    using s by (simp add: sxy_body_def)
next
  assume "\<forall>i. 0 \<le> i \<and> i < n \<longrightarrow> corr i = - 1"
  then show "ComputePosePointToPlaneCPU jac op solve cuts src tgt nrm corr n
        = (solve (replicate 6 (replicate 6 0)) (replicate 6 0), 0, 0)"
    unfolding ComputePosePointToPlaneCPU_def Let_def
    by (simp only: plane_kernel_sentinel Decode_zero)
qed

theorem sentinel_contributes_nothing_witness:
  "no_corres 0 = - 1 \<and> no_corres 1 = - 1 \<and>
   plane_body ex_plane_jac ex_huber ex_plane_source ex_plane_target ex_plane_normals
      no_corres [0] (replicate 29 7) = replicate 29 7 \<and>
   colored_body ex_colored_jac ex_huber ex_plane_source ex_source ex_plane_target
      ex_plane_normals ex_target ex_target no_corres 1 0 [0] (replicate 29 7)
      = replicate 29 7 \<and>
   mean_body ex_plane_source ex_plane_target no_corres [0] (replicate 7 7) = replicate 7 7 \<and>
   sxy_body ex_plane_source ex_plane_target no_corres (replicate 7 (Some 0)) [0]
      (replicate 9 (Some 7))
      = replicate 9 (Some 7) \<and>
   ComputePosePointToPlaneCPU ex_plane_jac ex_huber ex_solve [1] ex_plane_source
      ex_plane_target ex_plane_normals no_corres 2 = ((0, 0, 0, 0, 0, 0), 0, 0)"
proof -
  have h1: "no_corres 0 = - 1" and h2: "\<forall>i. 0 \<le> i \<and> i < 2 \<longrightarrow> no_corres i = - 1"
    by (simp_all add: no_corres_def)
  note t = sentinel_contributes_nothing [where corr = no_corres and idx = 0
      and jac = ex_plane_jac and op = ex_huber and src = ex_plane_source
      and tgt = ex_plane_target and nrm = ex_plane_normals and A = "replicate 29 7"
      and cjac = ex_colored_jac and scol = ex_source and tcol = ex_target
      and tgrad = ex_target and sg = 1 and sp = 0 and M = "replicate 7 7"
      and ?mean_1x7.0 = "replicate 7 (Some 0)" and S = "replicate 9 (Some 7)" and n = 2
      and solve = ex_solve and cuts = "[1]"]
  have a: "plane_body ex_plane_jac ex_huber ex_plane_source ex_plane_target ex_plane_normals
      no_corres [0] (replicate 29 7) = replicate 29 7 \<and>
   colored_body ex_colored_jac ex_huber ex_plane_source ex_source ex_plane_target
      ex_plane_normals ex_target ex_target no_corres 1 0 [0] (replicate 29 7)
      = replicate 29 7 \<and>
   mean_body ex_plane_source ex_plane_target no_corres [0] (replicate 7 7) = replicate 7 7 \<and>
   sxy_body ex_plane_source ex_plane_target no_corres (replicate 7 (Some 0)) [0]
      (replicate 9 (Some 7))
      = replicate 9 (Some 7)"
    using t h1 by blast
  have b: "ComputePosePointToPlaneCPU ex_plane_jac ex_huber ex_solve [1] ex_plane_source
      ex_plane_target ex_plane_normals no_corres 2
      = (ex_solve (replicate 6 (replicate 6 0)) (replicate 6 0), 0, 0)"
    using t h2 by blast
  show ?thesis
    using a b by (simp add: no_corres_def ex_solve_def)
qed

lemma reciprocal_guarded:
  "(if s < 1 / 1000000 then Some 0 else fp_div (Some 1) (Some s)) = Some (pseudo_reciprocal s)"
  by (auto simp: pseudo_reciprocal_def)

lemma solve_svd3x3_eq:
  "solve_svd3x3 svd a11 a12 a13 a21 a22 a23 a31 a32 a33 b1 b2 b3
   = (case svd (Mat3 a11 a12 a13 a21 a22 a23 a31 a32 a33) of
        (U, S, V) \<Rightarrow> number3 (pseudo_inverse_solution U S V (b1, b2, b3)))"
proof (cases "svd (Mat3 a11 a12 a13 a21 a22 a23 a31 a32 a33)")
  case (fields U S V)
  obtain s1 s2 s3 where S: "S = (s1, s2, s3)" by (cases S) auto
  obtain u0 u1 u2 u3 u4 u5 u6 u7 u8 where U: "U = Mat3 u0 u1 u2 u3 u4 u5 u6 u7 u8"
    by (cases U) auto
  obtain v0 v1 v2 v3 v4 v5 v6 v7 v8 where V: "V = Mat3 v0 v1 v2 v3 v4 v5 v6 v7 v8"
    by (cases V) auto
  have upd: "[Some s1, Some s2, Some s3]
               [0 := if s1 < 1 / 1000000 then Some 0
                     else fp_div (Some 1) ([Some s1, Some s2, Some s3] ! 0)]
             = [Some (pseudo_reciprocal s1), Some s2, Some s3]"
    by (auto simp: pseudo_reciprocal_def)
  have upd1: "[Some (pseudo_reciprocal s1), Some s2, Some s3]
               [1 := if s2 < 1 / 1000000 then Some 0
                     else fp_div (Some 1) ([Some (pseudo_reciprocal s1), Some s2, Some s3] ! 1)]
             = [Some (pseudo_reciprocal s1), Some (pseudo_reciprocal s2), Some s3]"
    by (auto simp: pseudo_reciprocal_def)
  have upd2: "[Some (pseudo_reciprocal s1), Some (pseudo_reciprocal s2), Some s3]
               [2 := if s3 < 1 / 1000000 then Some 0
                     else fp_div (Some 1)
                       ([Some (pseudo_reciprocal s1), Some (pseudo_reciprocal s2), Some s3] ! 2)]
             = [Some (pseudo_reciprocal s1), Some (pseudo_reciprocal s2),
                Some (pseudo_reciprocal s3)]"
    by (auto simp: pseudo_reciprocal_def)
  show ?thesis
    unfolding solve_svd3x3_def fields S U V prod.case Let_def upd upd1 upd2
    by (simp add: pseudo_inverse_solution_def number3_def matmul3x3_3x3_def
          matmul3x3_3x1_def diag3_def algebra_simps)
qed



lemma solve_svd3x3_example:
  "solve_svd3x3 ex_svd3 2 0 0 0 1 0 0 0 0 4 5 6 = (Some 2, Some 5, Some 0)"
  by (simp add: solve_svd3x3_eq ex_svd3_def pseudo_inverse_solution_def pseudo_reciprocal_def
        number3_def diag3_def Eye_def)

lemma three_times_not_sentinel: "3 * (x::int) \<noteq> - 1"
  by presburger

lemma neighbour_loop_foldl:
  "i \<le> neighbour_count \<Longrightarrow>
   neighbour_loop points_ptr colors_ptr neighbour_indices_ptr neighbour_offset
       neighbour_count vt nt it s i AtA Atb
   = (neighbour_count,
      foldl (\<lambda>M j. accumulate_row M
               (loop_row points_ptr vt nt s (3 * neighbour_indices_ptr (neighbour_offset + j))))
            AtA [i..neighbour_count - 1],
      foldl (\<lambda>v j. accumulate_rhs v
               (loop_row points_ptr vt nt s (3 * neighbour_indices_ptr (neighbour_offset + j)))
               (loop_rhs colors_ptr it (3 * neighbour_indices_ptr (neighbour_offset + j))))
            Atb [i..neighbour_count - 1])"
proof (induction points_ptr colors_ptr neighbour_indices_ptr neighbour_offset
         neighbour_count vt nt it s i AtA Atb rule: neighbour_loop.induct)
  case (1 points_ptr colors_ptr neighbour_indices_ptr neighbour_offset neighbour_count
          vt nt it s i AtA Atb)
  show ?case
  proof (cases "i < neighbour_count")
    case True
    then have u: "[i..neighbour_count - 1] = i # [i + 1..neighbour_count - 1]"
      by (simp add: upto_rec1)
    have le: "i + 1 \<le> neighbour_count" using True by simp
    note IH = "1.IH" [OF True refl three_times_not_sentinel refl refl refl refl refl refl
                         refl refl le]
    show ?thesis
      apply (subst neighbour_loop.simps)
      apply (simp only: True if_True Let_def three_times_not_sentinel if_False IH u foldl_Cons)
      apply (simp add: accumulate_row_def accumulate_rhs_def loop_row_def loop_rhs_def Let_def)
      done
  next
    case False
    with "1.prems" have e: "i = neighbour_count" by simp
    show ?thesis
      by (subst neighbour_loop.simps) (simp add: e)
  qed
qed


lemma foldl_accumulate_row:
  "foldl (\<lambda>M j. accumulate_row M (row j)) [m0, m1, m2, m3, m4, m5, m6, m7, m8] js
   = [m0 + (\<Sum>j\<leftarrow>js. row j ! 0 * row j ! 0),
      m1 + (\<Sum>j\<leftarrow>js. row j ! 1 * row j ! 0),
      m2 + (\<Sum>j\<leftarrow>js. row j ! 2 * row j ! 0),
      m3,
      m4 + (\<Sum>j\<leftarrow>js. row j ! 1 * row j ! 1),
      m5 + (\<Sum>j\<leftarrow>js. row j ! 2 * row j ! 1),
      m6, m7,
      m8 + (\<Sum>j\<leftarrow>js. row j ! 2 * row j ! 2)]"
  by (induction js arbitrary: m0 m1 m2 m3 m4 m5 m6 m7 m8)
     (simp_all add: accumulate_row_def add.assoc)

lemma foldl_accumulate_rhs:
  "foldl (\<lambda>v j. accumulate_rhs v (row j) (b j)) [v0, v1, v2] js
   = [v0 + (\<Sum>j\<leftarrow>js. row j ! 0 * b j),
      v1 + (\<Sum>j\<leftarrow>js. row j ! 1 * b j),
      v2 + (\<Sum>j\<leftarrow>js. row j ! 2 * b j)]"
  by (induction js arbitrary: v0 v1 v2) (simp_all add: accumulate_rhs_def add.assoc)

lemma loop_row_tangent:
  assumes "vt = [points_ptr p, points_ptr (p + 1), points_ptr (p + 2)]"
    and "nt = [normals_ptr p, normals_ptr (p + 1), normals_ptr (p + 2)]"
    and "s = vt ! 0 * nt ! 0 + vt ! 1 * nt ! 1 + vt ! 2 * nt ! 2"
  shows "loop_row points_ptr vt nt s q = tangent_row points_ptr normals_ptr p q"
  unfolding assms by (simp add: loop_row_def tangent_row_def Let_def algebra_simps)

lemma loop_rhs_intensity:
  assumes "it = (colors_ptr p + colors_ptr (p + 1) + colors_ptr (p + 2)) / 3"
  shows "loop_rhs colors_ptr it q = intensity colors_ptr q - intensity colors_ptr p"
  unfolding assms by (simp add: loop_rhs_def intensity_def)

lemma length_tangent_row: "length (tangent_row points_ptr normals_ptr p q) = 3"
  by (simp add: tangent_row_def Let_def)

lemma sum_list_zip_map:
  "(\<Sum>(row, b)\<leftarrow>zip (map f js) (map g js). h row b) = (\<Sum>j\<leftarrow>js. h (f j) (g j))"
  by (induction js) simp_all

lemma normal_equations_snoc:
  assumes "length rows = length rhs"
  shows "normal_equations (rows @ [r]) (rhs @ [0])
         = (map (\<lambda>m. (\<Sum>row\<leftarrow>rows. row ! (m div 3) * row ! (m mod 3))
                        + r ! (m div 3) * r ! (m mod 3)) [0..<9],
            map (\<lambda>j. \<Sum>(row, b)\<leftarrow>zip rows rhs. row ! j * b) [0..<3])"
  using assms by (simp add: normal_equations_def)

lemma color_gradient_system_eq:
  assumes "1 \<le> neighbour_counts_ptr workload_idx"
  shows "color_gradient_system points_ptr normals_ptr colors_ptr neighbour_indices_ptr
           neighbour_counts_ptr max_nn workload_idx
         = normal_equations
             (gradient_rows points_ptr normals_ptr neighbour_indices_ptr max_nn
                (neighbour_counts_ptr workload_idx) workload_idx
              @ [regularization_row normals_ptr workload_idx
                   (real_of_int (neighbour_counts_ptr workload_idx - 1))])
             (gradient_rhs colors_ptr neighbour_indices_ptr max_nn
                (neighbour_counts_ptr workload_idx) workload_idx @ [0])"
proof -
  have r9: "replicate 9 (0::real) = [0, 0, 0, 0, 0, 0, 0, 0, 0]"
    by (simp add: eval_nat_numeral)
  have r3: "replicate 3 (0::real) = [0, 0, 0]"
    by (simp add: eval_nat_numeral)
  have len: "length (gradient_rows points_ptr normals_ptr neighbour_indices_ptr max_nn
                (neighbour_counts_ptr workload_idx) workload_idx)
             = length (gradient_rhs colors_ptr neighbour_indices_ptr max_nn
                (neighbour_counts_ptr workload_idx) workload_idx)"
    by (simp add: gradient_rows_def gradient_rhs_def)
  show ?thesis
    unfolding color_gradient_system_def Let_def neighbour_loop_foldl [OF assms] prod.case
      r9 r3 foldl_accumulate_row foldl_accumulate_rhs
      loop_row_tangent [OF refl refl refl] loop_rhs_intensity [OF refl]
      normal_equations_snoc [OF len]
    unfolding gradient_rows_def gradient_rhs_def neighbour_slots_def regularization_row_def
    by (simp add: upt_9 upt_3 sum_list_zip_map o_def mult.commute)
qed


lemma gradient_fold_slot:
  fixes step :: "fp ptr \<Rightarrow> int \<Rightarrow> fp ptr"
  assumes own: "\<And>out w k. 0 \<le> k \<Longrightarrow> k < 3 \<Longrightarrow> step out w (3 * w + k) = val w k"
    and frame: "\<And>out w j. j < 3 * w \<or> 3 * w + 3 \<le> j \<Longrightarrow> step out w j = out j"
  shows "idx \<in> set xs \<Longrightarrow> 0 \<le> k \<Longrightarrow> k < 3 \<Longrightarrow>
         foldl step out0 xs (3 * idx + k) = val idx k"
proof (induction xs rule: rev_induct)
  case Nil
  then show ?case by simp
next
  case (snoc w xs)
  show ?case
  proof (cases "w = idx")
    case True
    then show ?thesis using snoc.prems by (simp add: own)
  next
    case False
    then have "3 * idx + k < 3 * w \<or> 3 * w + 3 \<le> 3 * idx + k"
      using snoc.prems by arith
    then have "foldl step out0 (xs @ [w]) (3 * idx + k) = foldl step out0 xs (3 * idx + k)"
      by (simp add: frame)
    moreover have "idx \<in> set xs" using snoc.prems False by simp
    ultimately show ?thesis using snoc.IH snoc.prems by simp
  qed
qed

lemma covariance_fold_slot:
  fixes step :: "real ptr \<Rightarrow> int \<Rightarrow> real ptr"
  assumes own: "\<And>out w k. 0 \<le> k \<Longrightarrow> k < 9 \<Longrightarrow> step out w (9 * w + k) = val w k"
    and frame: "\<And>out w j. j < 9 * w \<or> 9 * w + 9 \<le> j \<Longrightarrow> step out w j = out j"
  shows "idx \<in> set xs \<Longrightarrow> 0 \<le> k \<Longrightarrow> k < 9 \<Longrightarrow>
         foldl step out0 xs (9 * idx + k) = val idx k"
proof (induction xs rule: rev_induct)
  case Nil
  then show ?case by simp
next
  case (snoc w xs)
  show ?case
  proof (cases "w = idx")
    case True
    then show ?thesis using snoc.prems by (simp add: own)
  next
    case False
    then have "9 * idx + k < 9 * w \<or> 9 * w + 9 \<le> 9 * idx + k"
      using snoc.prems by arith
    then have "foldl step out0 (xs @ [w]) (9 * idx + k) = foldl step out0 xs (9 * idx + k)"
      by (simp add: frame)
    moreover have "idx \<in> set xs" using snoc.prems False by simp
    ultimately show ?thesis using snoc.IH snoc.prems by simp
  qed
qed

lemma in_range: "0 \<le> idx \<Longrightarrow> idx < n \<Longrightarrow> idx \<in> set [0..n - 1]"
  by simp

lemma gradient_output:
  assumes "0 \<le> idx" "idx < n"
  shows "\<exists>grads.
     EstimatePointWiseColorGradientCPU svd True points_ptr normals_ptr colors_ptr out0
       neighbour_indices_ptr neighbour_counts_ptr n max_nn = Inr grads \<and>
     (grads (3 * idx), grads (3 * idx + 1), grads (3 * idx + 2))
       = gradient_value svd points_ptr normals_ptr colors_ptr neighbour_indices_ptr
           neighbour_counts_ptr max_nn idx"
proof -
  let ?val = "\<lambda>w k. let v = gradient_value svd points_ptr normals_ptr colors_ptr
                  neighbour_indices_ptr neighbour_counts_ptr max_nn w
                in if k = 0 then fst v else if k = 1 then fst (snd v) else snd (snd v)"
  let ?step = "\<lambda>color_gradients_ptr workload_idx.
        let neighbour_count = neighbour_counts_ptr workload_idx;
            point_idx = 3 * workload_idx
        in if neighbour_count \<ge> 4 then
             (let (AtA, Atb) = color_gradient_system points_ptr normals_ptr colors_ptr
                                 neighbour_indices_ptr neighbour_counts_ptr max_nn
                                 workload_idx;
                  (x1, x2, x3) = solve_svd3x3 svd (AtA ! 0) (AtA ! 1) (AtA ! 2) (AtA ! 3)
                                   (AtA ! 4) (AtA ! 5) (AtA ! 6) (AtA ! 7) (AtA ! 8)
                                   (Atb ! 0) (Atb ! 1) (Atb ! 2)
              in color_gradients_ptr(point_idx + 0 := x1, point_idx + 1 := x2,
                                     point_idx + 2 := x3))
           else color_gradients_ptr(point_idx := Some 0, point_idx + 1 := Some 0,
                                    point_idx + 2 := (Some 0 :: fp))"
  have own: "?step out w (3 * w + k) = ?val w k" if "0 \<le> k" "k < 3" for out w k
  proof -
    have "k = 0 \<or> k = 1 \<or> k = 2" using that by arith
    then show ?thesis
      by (auto simp: gradient_value_def Let_def split: prod.splits)
  qed
  have frame: "?step out w j = out j" if "j < 3 * w \<or> 3 * w + 3 \<le> j" for out w j
    using that by (auto simp: Let_def split: prod.splits)
  have slot: "foldl ?step out0 [0..n - 1] (3 * idx + k) = ?val idx k" if "0 \<le> k" "k < 3" for k
  proof (rule gradient_fold_slot [where step = ?step and val = ?val])
    show "?step out w (3 * w + k) = ?val w k" if "0 \<le> k" "k < 3" for out w k
      using that by (rule own)
    show "?step out w j = out j" if "j < 3 * w \<or> 3 * w + 3 \<le> j" for out w j
      using that by (rule frame)
    show "idx \<in> set [0..n - 1]" using assms by (rule in_range)
    show "0 \<le> k" "k < 3" using that by simp_all
  qed
  have "(foldl ?step out0 [0..n - 1] (3 * idx), foldl ?step out0 [0..n - 1] (3 * idx + 1),
         foldl ?step out0 [0..n - 1] (3 * idx + 2))
        = gradient_value svd points_ptr normals_ptr colors_ptr neighbour_indices_ptr
           neighbour_counts_ptr max_nn idx"
    using slot [of 0] slot [of 1] slot [of 2] by (simp add: Let_def)
  then show ?thesis
    unfolding EstimatePointWiseColorGradientCPU_def by simp
qed


lemma covariance_output:
  assumes "0 \<le> idx" "idx < n" "0 \<le> k" "k < 9"
  shows "\<exists>covs.
     EstimatePointWiseCovarianceCPU cov True points_ptr out0 neighbour_indices_ptr
       neighbour_counts_ptr n max_nn = Inr covs \<and>
     covs (9 * idx + k) = covariance_value cov points_ptr neighbour_indices_ptr
                            neighbour_counts_ptr max_nn idx ! nat k"
proof -
  let ?val = "\<lambda>w k. covariance_value cov points_ptr neighbour_indices_ptr
                         neighbour_counts_ptr max_nn w ! nat k"
  let ?step = "\<lambda>covariances_ptr workload_idx.
        let neighbour_offset = max_nn * workload_idx;
            neighbour_count = neighbour_counts_ptr workload_idx;
            covariances_offset = 9 * workload_idx
        in if neighbour_count \<ge> 3 then
             EstimatePointWiseCovarianceKernel cov points_ptr neighbour_indices_ptr
               neighbour_count covariances_ptr neighbour_offset covariances_offset
           else covariances_ptr(covariances_offset := 1,
                                covariances_offset + 1 := 0,
                                covariances_offset + 2 := 0,
                                covariances_offset + 3 := 0,
                                covariances_offset + 4 := 1,
                                covariances_offset + 5 := 0,
                                covariances_offset + 6 := 0,
                                covariances_offset + 7 := 0,
                                covariances_offset + 8 := (1::real))"
  have own: "?step out w (9 * w + k) = ?val w k" if "0 \<le> k" "k < 9" for out w k
  proof -
    have "k = 0 \<or> k = 1 \<or> k = 2 \<or> k = 3 \<or> k = 4 \<or> k = 5 \<or> k = 6 \<or> k = 7 \<or> k = 8"
      using that by arith
    then show ?thesis
      by (auto simp: covariance_value_def EstimatePointWiseCovarianceKernel_def Let_def)
  qed
  have frame: "?step out w j = out j" if "j < 9 * w \<or> 9 * w + 9 \<le> j" for out w j
    using that by (auto simp: EstimatePointWiseCovarianceKernel_def Let_def)
  have "foldl ?step out0 [0..n - 1] (9 * idx + k) = ?val idx k"
  proof (rule covariance_fold_slot [where step = ?step and val = ?val])
    show "?step out w (9 * w + k) = ?val w k" if "0 \<le> k" "k < 9" for out w k
      using that by (rule own)
    show "?step out w j = out j" if "j < 9 * w \<or> 9 * w + 9 \<le> j" for out w j
      using that by (rule frame)
    show "idx \<in> set [0..n - 1]" using assms(1,2) by (rule in_range)
    show "0 \<le> k" "k < 9" using assms(3,4) by simp_all
  qed
  then show ?thesis
    unfolding EstimatePointWiseCovarianceCPU_def by simp
qed

lemma upto_0_8: "[0..8::int] = [0, 1, 2, 3, 4, 5, 6, 7, 8]"
  by (simp add: upto.simps)

lemma covariance_output_all:
  assumes "0 \<le> idx" "idx < n"
  shows "\<exists>covs.
     EstimatePointWiseCovarianceCPU cov True points_ptr out0 neighbour_indices_ptr
       neighbour_counts_ptr n max_nn = Inr covs \<and>
     map (\<lambda>k. covs (9 * idx + k)) [0..8]
       = map (\<lambda>k. covariance_value cov points_ptr neighbour_indices_ptr
                            neighbour_counts_ptr max_nn idx ! nat k) [0..8]"
proof -
  obtain covs where c: "EstimatePointWiseCovarianceCPU cov True points_ptr out0
       neighbour_indices_ptr neighbour_counts_ptr n max_nn = Inr covs"
    by (simp add: EstimatePointWiseCovarianceCPU_def)
  have "covs (9 * idx + k) = covariance_value cov points_ptr neighbour_indices_ptr
                            neighbour_counts_ptr max_nn idx ! nat k" if "0 \<le> k" "k < 9" for k
    using covariance_output [OF assms that, of cov points_ptr out0 neighbour_indices_ptr
            neighbour_counts_ptr max_nn] c by simp
  then show ?thesis
    using c by (intro exI [of _ covs] conjI map_cong) auto
qed

text \<open>
  Claim C7, as the code has it. For a point with a neighbour count of at least 4 the
  estimator solves, with \<open>solve_svd3x3\<close>, the normal equations of the design rows of
  the neighbours in list positions \<open>1\<close> to \<open>count - 1\<close> (position 0 is skipped) followed by
  exactly one regularization row: the point's normal scaled by \<open>count - 1\<close>, the number
  of design rows, with right-hand side 0.
\<close>

theorem gradient_regularization_row:
  assumes "0 \<le> idx" "idx < n" "4 \<le> neighbour_counts_ptr idx"
  shows "\<exists>AtA Atb grads.
     (AtA, Atb) = normal_equations
        (gradient_rows points_ptr normals_ptr neighbour_indices_ptr max_nn
           (neighbour_counts_ptr idx) idx
         @ [regularization_row normals_ptr idx (real_of_int (neighbour_counts_ptr idx - 1))])
        (gradient_rhs colors_ptr neighbour_indices_ptr max_nn (neighbour_counts_ptr idx) idx
         @ [0]) \<and>
     EstimatePointWiseColorGradientCPU svd True points_ptr normals_ptr colors_ptr out0
       neighbour_indices_ptr neighbour_counts_ptr n max_nn = Inr grads \<and>
     (grads (3 * idx), grads (3 * idx + 1), grads (3 * idx + 2))
       = solve_svd3x3 svd (AtA ! 0) (AtA ! 1) (AtA ! 2) (AtA ! 3) (AtA ! 4) (AtA ! 5)
           (AtA ! 6) (AtA ! 7) (AtA ! 8) (Atb ! 0) (Atb ! 1) (Atb ! 2)"
proof -
  have one: "1 \<le> neighbour_counts_ptr idx" using assms(3) by simp
  obtain AtA Atb where sys: "color_gradient_system points_ptr normals_ptr colors_ptr
           neighbour_indices_ptr neighbour_counts_ptr max_nn idx = (AtA, Atb)"
    by (cases "color_gradient_system points_ptr normals_ptr colors_ptr
           neighbour_indices_ptr neighbour_counts_ptr max_nn idx") auto
  from gradient_output [OF assms(1,2), of svd points_ptr normals_ptr colors_ptr out0
          neighbour_indices_ptr neighbour_counts_ptr max_nn]
  obtain grads where g: "EstimatePointWiseColorGradientCPU svd True points_ptr normals_ptr
       colors_ptr out0 neighbour_indices_ptr neighbour_counts_ptr n max_nn = Inr grads"
    and v: "(grads (3 * idx), grads (3 * idx + 1), grads (3 * idx + 2))
       = gradient_value svd points_ptr normals_ptr colors_ptr neighbour_indices_ptr
           neighbour_counts_ptr max_nn idx"
    by blast
  have "(grads (3 * idx), grads (3 * idx + 1), grads (3 * idx + 2))
       = solve_svd3x3 svd (AtA ! 0) (AtA ! 1) (AtA ! 2) (AtA ! 3) (AtA ! 4) (AtA ! 5)
           (AtA ! 6) (AtA ! 7) (AtA ! 8) (Atb ! 0) (Atb ! 1) (Atb ! 2)"
    unfolding v gradient_value_def using assms(3) by (simp add: sys)
  then show ?thesis
    using g sys [symmetric]
    unfolding color_gradient_system_eq [where neighbour_counts_ptr = neighbour_counts_ptr
                and workload_idx = idx, OF one]
    by blast
qed

lemma ex_slots: "neighbour_slots 4 = [1, 2, 3]"
  by (simp add: neighbour_slots_def upto.simps)

lemma ex_gradient_rows:
  "gradient_rows ex_points ex_normals ex_neighbour_indices 4 4 0
   = [[1, 0, 0], [0, 1, 0], [1, 1, 0]]"
  by (simp add: gradient_rows_def ex_slots tangent_row_def ex_points_def ex_normals_def
        ex_neighbour_indices_def)

lemma ex_gradient_rhs:
  "gradient_rhs ex_colors ex_neighbour_indices 4 4 0 = [0, 0, 0]"
  by (simp add: gradient_rhs_def ex_slots intensity_def ex_colors_def)

lemma ex_regularization_row:
  "regularization_row ex_normals 0 c = [0, 0, c]"
  by (simp add: regularization_row_def ex_normals_def)

theorem gradient_regularization_row_witness:
  "(0::int) \<le> 0 \<and> (0::int) < 4 \<and> 4 \<le> ex_neighbour_counts 0 \<and>
   (\<exists>AtA Atb grads.
     (AtA, Atb) = normal_equations
        (gradient_rows ex_points ex_normals ex_neighbour_indices 4 (ex_neighbour_counts 0) 0
         @ [regularization_row ex_normals 0 (real_of_int (ex_neighbour_counts 0 - 1))])
        (gradient_rhs ex_colors ex_neighbour_indices 4 (ex_neighbour_counts 0) 0 @ [0]) \<and>
     EstimatePointWiseColorGradientCPU ex_svd3 True ex_points ex_normals ex_colors
       (\<lambda>j. None) ex_neighbour_indices ex_neighbour_counts 4 4 = Inr grads \<and>
     (grads (3 * 0), grads (3 * 0 + 1), grads (3 * 0 + 2))
       = solve_svd3x3 ex_svd3 (AtA ! 0) (AtA ! 1) (AtA ! 2) (AtA ! 3) (AtA ! 4) (AtA ! 5)
           (AtA ! 6) (AtA ! 7) (AtA ! 8) (Atb ! 0) (Atb ! 1) (Atb ! 2))"
proof -
  have h: "(0::int) \<le> 0" "(0::int) < 4" "4 \<le> ex_neighbour_counts 0"
    by (simp_all add: ex_neighbour_counts_def)
  show ?thesis
    using h gradient_regularization_row [where idx = 0 and n = 4
        and neighbour_counts_ptr = ex_neighbour_counts and points_ptr = ex_points
        and normals_ptr = ex_normals and neighbour_indices_ptr = ex_neighbour_indices
        and max_nn = 4 and colors_ptr = ex_colors and svd = ex_svd3
        and ?out0.0 = "\<lambda>j. None"]
    by simp
qed

text \<open>
  The claim as written scales the regularization row by the neighbour count. On the four
  corner points the count of point 0 is 4, but the system the code builds is not the one
  with the normal scaled by 4: its last diagonal entry is \<open>3\<^sup>2\<close>, not \<open>4\<^sup>2\<close>.
\<close>

theorem gradient_regularization_by_count_counterexample:
  "color_gradient_system ex_points ex_normals ex_colors ex_neighbour_indices
      ex_neighbour_counts 4 0
   \<noteq> normal_equations
        (gradient_rows ex_points ex_normals ex_neighbour_indices 4 (ex_neighbour_counts 0) 0
         @ [regularization_row ex_normals 0 (real_of_int (ex_neighbour_counts 0))])
        (gradient_rhs ex_colors ex_neighbour_indices 4 (ex_neighbour_counts 0) 0 @ [0]) \<and>
   ex_neighbour_counts 0 = 4 \<and>
   fst (color_gradient_system ex_points ex_normals ex_colors ex_neighbour_indices
             ex_neighbour_counts 4 0) ! 8 = 9"
proof -
  have c: "ex_neighbour_counts 0 = 4" by (simp add: ex_neighbour_counts_def)
  have one: "1 \<le> ex_neighbour_counts 0" by (simp add: c)
  have l: "fst (color_gradient_system ex_points ex_normals ex_colors ex_neighbour_indices
             ex_neighbour_counts 4 0) ! 8 = 9"
    unfolding color_gradient_system_eq [where neighbour_counts_ptr = ex_neighbour_counts
                and workload_idx = 0, OF one] c ex_gradient_rows ex_gradient_rhs
      ex_regularization_row
    by (simp add: normal_equations_def)
  have r: "fst (normal_equations
        (gradient_rows ex_points ex_normals ex_neighbour_indices 4 (ex_neighbour_counts 0) 0
         @ [regularization_row ex_normals 0 (real_of_int (ex_neighbour_counts 0))])
        (gradient_rhs ex_colors ex_neighbour_indices 4 (ex_neighbour_counts 0) 0 @ [0])) ! 8
        = 16"
    unfolding c ex_gradient_rows ex_gradient_rhs ex_regularization_row
    by (simp add: normal_equations_def)
  have "color_gradient_system ex_points ex_normals ex_colors ex_neighbour_indices
      ex_neighbour_counts 4 0
   \<noteq> normal_equations
        (gradient_rows ex_points ex_normals ex_neighbour_indices 4 (ex_neighbour_counts 0) 0
         @ [regularization_row ex_normals 0 (real_of_int (ex_neighbour_counts 0))])
        (gradient_rhs ex_colors ex_neighbour_indices 4 (ex_neighbour_counts 0) 0 @ [0])"
    using l r by auto
  then show ?thesis
    using c l by simp
qed

text \<open>
  Claim C8. With the search index set, neither estimator raises an error, and degenerate
  neighbour counts give the fallback values: a point with fewer than 4 neighbours gets
  the gradient \<open>[0, 0, 0]\<close>, a point with fewer than 3 neighbours gets the 3x3 identity
  as its covariance. Points processed before or after do not overwrite these slots.
\<close>

theorem degenerate_counts_fall_back:
  assumes "0 \<le> idx" "idx < n"
  shows "(counts_g idx < 4 \<longrightarrow>
           (\<exists>grads. EstimatePointWiseColorGradientCPU svd True points_ptr normals_ptr
                       colors_ptr grads0 indices_g counts_g n max_nn = Inr grads \<and>
                    grads (3 * idx) = Some 0 \<and> grads (3 * idx + 1) = Some 0 \<and>
                    grads (3 * idx + 2) = Some 0)) \<and>
         (counts_c idx < 3 \<longrightarrow>
           (\<exists>covs. EstimatePointWiseCovarianceCPU cov True points_ptr covs0 indices_c
                      counts_c n max_nn = Inr covs \<and>
                   map (\<lambda>k. covs (9 * idx + k)) [0..8] = [1, 0, 0, 0, 1, 0, 0, 0, 1]))"
proof (intro conjI impI)
  assume "counts_g idx < 4"
  then have "gradient_value svd points_ptr normals_ptr colors_ptr indices_g counts_g max_nn idx
             = (Some 0, Some 0, Some 0)"
    by (simp add: gradient_value_def)
  then show "\<exists>grads. EstimatePointWiseColorGradientCPU svd True points_ptr normals_ptr
                       colors_ptr grads0 indices_g counts_g n max_nn = Inr grads \<and>
                    grads (3 * idx) = Some 0 \<and> grads (3 * idx + 1) = Some 0 \<and>
                    grads (3 * idx + 2) = Some 0"
    using gradient_output [OF assms, of svd points_ptr normals_ptr colors_ptr grads0
            indices_g counts_g max_nn]
    by auto
next
  assume "counts_c idx < 3"
  then have "map (\<lambda>k. covariance_value cov points_ptr indices_c counts_c max_nn idx ! nat k)
               [0..8] = [1, 0, 0, 0, 1, 0, 0, 0, 1]"
    by (simp add: covariance_value_def upto_0_8)
  then show "\<exists>covs. EstimatePointWiseCovarianceCPU cov True points_ptr covs0 indices_c
                      counts_c n max_nn = Inr covs \<and>
                   map (\<lambda>k. covs (9 * idx + k)) [0..8] = [1, 0, 0, 0, 1, 0, 0, 0, 1]"
    using covariance_output_all [OF assms, of cov points_ptr covs0 indices_c counts_c max_nn]
    by auto
qed

theorem degenerate_counts_fall_back_witness:
  "(0::int) \<le> 1 \<and> (1::int) < 4 \<and> ex_neighbour_counts 1 < 3 \<and>
   (\<exists>grads. EstimatePointWiseColorGradientCPU ex_svd3 True ex_points ex_normals
               ex_colors (\<lambda>j. None) ex_neighbour_indices ex_neighbour_counts 4 4 = Inr grads \<and>
            grads (3 * 1) = Some 0 \<and> grads (3 * 1 + 1) = Some 0 \<and>
            grads (3 * 1 + 2) = Some 0) \<and>
   (\<exists>covs. EstimatePointWiseCovarianceCPU ex_cov True ex_points (\<lambda>j. 7)
              ex_neighbour_indices ex_neighbour_counts 4 4 = Inr covs \<and>
           map (\<lambda>k. covs (9 * 1 + k)) [0..8] = [1, 0, 0, 0, 1, 0, 0, 0, 1])"
proof -
  have h: "(0::int) \<le> 1" "(1::int) < 4" by simp_all
  have c: "ex_neighbour_counts 1 < 4" "ex_neighbour_counts 1 < 3"
    by (simp_all add: ex_neighbour_counts_def)
  note t = degenerate_counts_fall_back [OF h, where counts_g = ex_neighbour_counts
      and counts_c = ex_neighbour_counts and svd = ex_svd3 and points_ptr = ex_points
      and normals_ptr = ex_normals and colors_ptr = ex_colors and ?grads0.0 = "\<lambda>j. None"
      and indices_g = ex_neighbour_indices and max_nn = 4 and cov = ex_cov
      and ?covs0.0 = "\<lambda>j. 7" and indices_c = ex_neighbour_indices]
  show ?thesis
    using h c t by simp
qed

lemma funpow_4: "(f ^^ 4) x = f (f (f (f x)))"
  by (simp add: eval_nat_numeral)

lemma run_append: "run (xs @ ys) r = run ys (run xs r)"
  by (simp add: run_def)

lemma run_concat_4: "run (concat (replicate 4 xs)) r = run xs (run xs (run xs (run xs r)))"
  by (simp add: eval_nat_numeral run_append)

lemma length_concat_replicate: "length (concat (replicate n xs)) = n * length xs"
  by (induction n) simp_all

lemma jacobi_iteration_from:
  "i \<le> 4 \<Longrightarrow>
   jacobi_iteration ops i r = (4, (jacobi_sweep ops ^^ nat (4 - i)) r)"
proof (induction ops i r rule: jacobi_iteration.induct)
  case (1 ops i r)
  show ?case
  proof (cases "i < 4")
    case True
    then have n: "nat (4 - i) = Suc (nat (4 - (i + 1)))" by simp
    have "jacobi_iteration ops i r
          = jacobi_iteration ops (i + 1) (jacobi_sweep ops r)"
      using True by (subst jacobi_iteration.simps) simp
    also have "\<dots> = (4, (jacobi_sweep ops ^^ nat (4 - (i + 1))) (jacobi_sweep ops r))"
      using True by (intro "1.IH") simp_all
    finally show ?thesis
      unfolding n by (simp add: funpow_swap1)
  next
    case False
    with "1.prems" have "i = 4" by simp
    then show ?thesis
      by (subst jacobi_iteration.simps) simp
  qed
qed

lemma jacobi_iteration_four:
  "jacobi_iteration ops 0 r
   = (4, jacobi_sweep ops (jacobi_sweep ops (jacobi_sweep ops
           (jacobi_sweep ops r))))"
  by (simp add: jacobi_iteration_from funpow_4)

lemma jacobi_sweep_run:
  "jacobi_sweep ops r
   = run (jacobi_conjugation_a ops @ jacobi_conjugation_b ops
          @ jacobi_conjugation_c ops) r"
  by (simp add: jacobi_sweep_def run_append)

lemma svd_double_straight_line:
  "svd_double ops uninit A
   = svd_store (run (svd_statements ops) (svd_load uninit A))"
  unfolding svd_double_def Let_def jacobi_iteration_four prod.case svd_statements_def
    run_append run_concat_4 jacobi_sweep_run
  by (rule refl)

lemma length_svd_normal_equations: "length (svd_normal_equations ops) = 34"
  unfolding svd_normal_equations_def by simp

lemma length_jacobi_conjugation_a: "length (jacobi_conjugation_a ops) = 67"
  unfolding jacobi_conjugation_a_def by simp

lemma length_jacobi_conjugation_b: "length (jacobi_conjugation_b ops) = 67"
  unfolding jacobi_conjugation_b_def by simp

lemma length_jacobi_conjugation_c: "length (jacobi_conjugation_c ops) = 67"
  unfolding jacobi_conjugation_c_def by simp

lemma length_svd_normalize_quaternion: "length (svd_normalize_quaternion ops) = 18"
  unfolding svd_normalize_quaternion_def by simp

lemma length_svd_quaternion_to_matrix: "length (svd_quaternion_to_matrix ops) = 27"
  unfolding svd_quaternion_to_matrix_def by simp

lemma length_svd_multiply_with_V: "length (svd_multiply_with_V ops) = 51"
  unfolding svd_multiply_with_V_def by simp

lemma length_svd_sort_columns: "length (svd_sort_columns ops) = 132"
  unfolding svd_sort_columns_def by simp

lemma length_svd_givens_first: "length (svd_givens_first ops) = 88"
  unfolding svd_givens_first_def by simp

lemma length_svd_givens_second: "length (svd_givens_second ops) = 79"
  unfolding svd_givens_second_def by simp

lemma length_svd_givens_third: "length (svd_givens_third ops) = 79"
  unfolding svd_givens_third_def by simp

lemma length_svd_statements: "length (svd_statements ops) = 1312"
  unfolding svd_statements_def
  by (simp add: length_concat_replicate length_svd_normal_equations length_jacobi_conjugation_a length_jacobi_conjugation_b length_jacobi_conjugation_c length_svd_normalize_quaternion length_svd_quaternion_to_matrix length_svd_multiply_with_V length_svd_sort_columns length_svd_givens_first length_svd_givens_second length_svd_givens_third)

lemma jacobi_iteration_float_from:
  "i \<le> 4 \<Longrightarrow>
   jacobi_iteration_float ops i r = (4, (jacobi_sweep_float ops ^^ nat (4 - i)) r)"
proof (induction ops i r rule: jacobi_iteration_float.induct)
  case (1 ops i r)
  show ?case
  proof (cases "i < 4")
    case True
    then have n: "nat (4 - i) = Suc (nat (4 - (i + 1)))" by simp
    have "jacobi_iteration_float ops i r
          = jacobi_iteration_float ops (i + 1) (jacobi_sweep_float ops r)"
      using True by (subst jacobi_iteration_float.simps) simp
    also have "\<dots> = (4, (jacobi_sweep_float ops ^^ nat (4 - (i + 1))) (jacobi_sweep_float ops r))"
      using True by (intro "1.IH") simp_all
    finally show ?thesis
      unfolding n by (simp add: funpow_swap1)
  next
    case False
    with "1.prems" have "i = 4" by simp
    then show ?thesis
      by (subst jacobi_iteration_float.simps) simp
  qed
qed

lemma jacobi_iteration_float_four:
  "jacobi_iteration_float ops 0 r
   = (4, jacobi_sweep_float ops (jacobi_sweep_float ops (jacobi_sweep_float ops
           (jacobi_sweep_float ops r))))"
  by (simp add: jacobi_iteration_float_from funpow_4)

lemma jacobi_sweep_float_run:
  "jacobi_sweep_float ops r
   = run (jacobi_conjugation_a_float ops @ jacobi_conjugation_b_float ops
          @ jacobi_conjugation_c_float ops) r"
  by (simp add: jacobi_sweep_float_def run_append)

lemma svd_float_straight_line:
  "svd_float ops uninit A
   = svd_store_float (run (svd_statements_float ops) (svd_load_float uninit A))"
  unfolding svd_float_def Let_def jacobi_iteration_float_four prod.case svd_statements_float_def
    run_append run_concat_4 jacobi_sweep_float_run
  by (rule refl)

lemma length_svd_normal_equations_float: "length (svd_normal_equations_float ops) = 34"
  unfolding svd_normal_equations_float_def by simp

lemma length_jacobi_conjugation_a_float: "length (jacobi_conjugation_a_float ops) = 67"
  unfolding jacobi_conjugation_a_float_def by simp

lemma length_jacobi_conjugation_b_float: "length (jacobi_conjugation_b_float ops) = 67"
  unfolding jacobi_conjugation_b_float_def by simp

lemma length_jacobi_conjugation_c_float: "length (jacobi_conjugation_c_float ops) = 67"
  unfolding jacobi_conjugation_c_float_def by simp

lemma length_svd_normalize_quaternion_float: "length (svd_normalize_quaternion_float ops) = 18"
  unfolding svd_normalize_quaternion_float_def by simp

lemma length_svd_quaternion_to_matrix_float: "length (svd_quaternion_to_matrix_float ops) = 27"
  unfolding svd_quaternion_to_matrix_float_def by simp

lemma length_svd_multiply_with_V_float: "length (svd_multiply_with_V_float ops) = 51"
  unfolding svd_multiply_with_V_float_def by simp

lemma length_svd_sort_columns_float: "length (svd_sort_columns_float ops) = 132"
  unfolding svd_sort_columns_float_def by simp

lemma length_svd_givens_first_float: "length (svd_givens_first_float ops) = 88"
  unfolding svd_givens_first_float_def by simp

lemma length_svd_givens_second_float: "length (svd_givens_second_float ops) = 79"
  unfolding svd_givens_second_float_def by simp

lemma length_svd_givens_third_float: "length (svd_givens_third_float ops) = 79"
  unfolding svd_givens_third_float_def by simp

lemma length_svd_statements_float: "length (svd_statements_float ops) = 1312"
  unfolding svd_statements_float_def
  by (simp add: length_concat_replicate length_svd_normal_equations_float length_jacobi_conjugation_a_float length_jacobi_conjugation_b_float length_jacobi_conjugation_c_float length_svd_normalize_quaternion_float length_svd_quaternion_to_matrix_float length_svd_multiply_with_V_float length_svd_sort_columns_float length_svd_givens_first_float length_svd_givens_second_float length_svd_givens_third_float)

text \<open>
  Claim C9. In both specializations the symmetric-eigenproblem phase ends with \<open>i = 4\<close>
  after exactly four executions of the sweep, whatever the input matrix, whatever the
  locals held at entry and whatever the floating-point unit computes: nothing in the
  loop tests a convergence criterion. The whole routine is therefore the same fixed
  sequence of 1312 assignments (34 before the loop, four times 201 in it, 474 after it)
  for every input, and it is defined by terminating recursion only.
\<close>

theorem jacobi_phase_runs_exactly_four_sweeps:
  "jacobi_iteration ops 0 r
     = (4, jacobi_sweep ops (jacobi_sweep ops (jacobi_sweep ops (jacobi_sweep ops r)))) \<and>
   svd_double ops uninit A = svd_store (run (svd_statements ops) (svd_load uninit A)) \<and>
   length (svd_statements ops) = 1312 \<and>
   jacobi_iteration_float ops32 0 r32
     = (4, jacobi_sweep_float ops32 (jacobi_sweep_float ops32 (jacobi_sweep_float ops32
             (jacobi_sweep_float ops32 r32)))) \<and>
   svd_float ops32 uninit32 A32
     = svd_store_float (run (svd_statements_float ops32) (svd_load_float uninit32 A32)) \<and>
   length (svd_statements_float ops32) = 1312"
  by (intro conjI jacobi_iteration_four svd_double_straight_line length_svd_statements
        jacobi_iteration_float_four svd_float_straight_line length_svd_statements_float)

end
